theory Spec2Isabelle
  imports Main "HOL-Library.Word" "HOL-Library.Sublist"
begin

unbundle bit_operations_syntax

section \<open>Exceptions\<close>

text \<open>
  The exceptions that reach the top of \<^verbatim>\<open>reach.py\<close>: \<^verbatim>\<open>ValueError\<close> from the
  \<^verbatim>\<open>ipaddress\<close> module, \<^verbatim>\<open>AssertionError\<close> from the \<^verbatim>\<open>assert\<close> statements,
  \<^verbatim>\<open>KeyError\<close> from a subscript on a missing key, \<^verbatim>\<open>NameError\<close> from a local
  that was never bound, \<^verbatim>\<open>AttributeError\<close> from a method a string does not have,
  \<^verbatim>\<open>ClientError\<close> from a describe call that the service refuses, and \<^verbatim>\<open>OSError\<close>
  from a host name that does not resolve.
\<close>

datatype error =
  ValueError | AssertionError | KeyError | NameError | AttributeError | ClientError | OSError

section \<open>The \<^verbatim>\<open>ipaddress\<close> module\<close>

text \<open>
  Addresses are the integers the library keeps in \<^verbatim>\<open>_ip\<close>: 32 bits for IPv4 and 128
  bits for IPv6. A network is its network address and its prefix length.
\<close>

datatype ip_address = IPv4Address "32 word" | IPv6Address "128 word"

datatype ip_network = IPv4Network "32 word" nat | IPv6Network "128 word" nat

fun net_prefixlen :: "ip_network \<Rightarrow> nat" where
  "net_prefixlen (IPv4Network n p) = p"
| "net_prefixlen (IPv6Network n p) = p"

text \<open>
  \<^verbatim>\<open>_ip_int_from_prefix\<close>: \<^verbatim>\<open>cls._ALL_ONES ^ (cls._ALL_ONES >> prefixlen)\<close>, the netmask
  of a prefix length.
\<close>

definition ip_int_from_prefix :: "nat \<Rightarrow> 'a::len word" where
  "ip_int_from_prefix prefixlen = (- 1) XOR drop_bit prefixlen (- 1)"

text \<open>
  \<^verbatim>\<open>_BaseNetwork.__contains__\<close> for an address operand: false when the versions
  differ, otherwise \<^verbatim>\<open>other._ip & self.netmask._ip == self.network_address._ip\<close>.
\<close>

fun contains :: "ip_network \<Rightarrow> ip_address \<Rightarrow> bool" where
  "contains (IPv4Network n p) (IPv4Address a) = (a AND ip_int_from_prefix p = n)"
| "contains (IPv6Network n p) (IPv6Address a) = (a AND ip_int_from_prefix p = n)"
| "contains (IPv4Network n p) (IPv6Address a) = False"
| "contains (IPv6Network n p) (IPv4Address a) = False"

text \<open>
  The reading of the text of an address or of a network (splitting at the slash and the
  dots, reading the digits) is the library's and is taken as a parameter: what
  \<^verbatim>\<open>ip_address\<close> reads from a string, and the address and prefix length that
  \<^verbatim>\<open>ip_network\<close> reads from one; \<open>None\<close> where the text is refused.
\<close>

record ipaddress_parser =
  parse_address :: "string \<Rightarrow> ip_address option"
  parse_network :: "string \<Rightarrow> (ip_address \<times> nat) option"

definition ip_address :: "ipaddress_parser \<Rightarrow> string \<Rightarrow> error + ip_address" where
  "ip_address P s = (case parse_address P s of None \<Rightarrow> Inl ValueError | Some a \<Rightarrow> Inr a)"

text \<open>
  The network constructor with \<^verbatim>\<open>strict=True\<close> (the default, which is what the source
  uses): a prefix length beyond the address width is refused, and so is an address with
  host bits set (\<^verbatim>\<open>packed & int(self.netmask) != packed\<close>).
\<close>

definition ip_network :: "ipaddress_parser \<Rightarrow> string \<Rightarrow> error + ip_network" where
  "ip_network P s =
     (case parse_network P s of
        None \<Rightarrow> Inl ValueError
      | Some (IPv4Address a, p) \<Rightarrow>
          if 32 < p then Inl ValueError
          else if a AND ip_int_from_prefix p \<noteq> a then Inl ValueError
          else Inr (IPv4Network a p)
      | Some (IPv6Address a, p) \<Rightarrow>
          if 128 < p then Inl ValueError
          else if a AND ip_int_from_prefix p \<noteq> a then Inl ValueError
          else Inr (IPv6Network a p))"

subsection \<open>A reader for the plain decimal IPv4 forms\<close>

text \<open>
  One instance of the parameter, for running examples: dotted quads of decimal octets,
  and a network as a dotted quad, a slash and a decimal prefix length.
\<close>

fun split_on :: "char \<Rightarrow> string \<Rightarrow> string list" where
  "split_on c [] = [[]]"
| "split_on c (x # xs) =
     (if x = c then [] # split_on c xs
      else (case split_on c xs of [] \<Rightarrow> [[x]] | w # ws \<Rightarrow> (x # w) # ws))"

definition digit_of :: "char \<Rightarrow> nat option" where
  "digit_of c =
     (let n = (of_char c :: nat)
      in if 48 \<le> n \<and> n \<le> 57 then Some (n - 48) else None)"

fun decimal_acc :: "nat \<Rightarrow> string \<Rightarrow> nat option" where
  "decimal_acc n [] = Some n"
| "decimal_acc n (c # cs) =
     (case digit_of c of None \<Rightarrow> None | Some d \<Rightarrow> decimal_acc (10 * n + d) cs)"

definition decimal :: "string \<Rightarrow> nat option" where
  "decimal s = (if s = [] then None else decimal_acc 0 s)"

definition parse_octet :: "string \<Rightarrow> nat option" where
  "parse_octet s =
     (case decimal s of
        None \<Rightarrow> None
      | Some n \<Rightarrow> if 3 < length s \<or> 255 < n then None else Some n)"

definition dotted_quad :: "string \<Rightarrow> ip_address option" where
  "dotted_quad s =
     (case map parse_octet (split_on CHR ''.'' s) of
        [Some a, Some b, Some c, Some d] \<Rightarrow>
          Some (IPv4Address (of_nat (((a * 256 + b) * 256 + c) * 256 + d)))
      | _ \<Rightarrow> None)"

definition dotted_cidr :: "string \<Rightarrow> (ip_address \<times> nat) option" where
  "dotted_cidr s =
     (case split_on CHR ''/'' s of
        [a] \<Rightarrow> (case dotted_quad a of None \<Rightarrow> None | Some x \<Rightarrow> Some (x, 32))
      | [a, p] \<Rightarrow>
          (case dotted_quad a of
             None \<Rightarrow> None
           | Some x \<Rightarrow> (case decimal p of None \<Rightarrow> None | Some n \<Rightarrow> Some (x, n)))
      | _ \<Rightarrow> None)"

definition ipv4_reader :: ipaddress_parser where
  "ipv4_reader = \<lparr>parse_address = dotted_quad, parse_network = dotted_cidr\<rparr>"

section \<open>The describe responses\<close>

text \<open>
  The dictionaries of the describe responses, with the keys the source reads. A key
  whose presence the source tests, or that the service leaves out of some items, is an
  option; a selector is prefixed with its record where two records share a key.
\<close>

record tag =
  Key :: "string option"
  Value :: "string option"

record subnet =
  SubnetId :: string
  subnet_CidrBlock :: string

record route =
  DestinationCidrBlock :: "string option"
  GatewayId :: "string option"
  NatGatewayId :: "string option"
  VpcPeeringConnectionId :: "string option"

record route_table =
  RouteTableId :: string
  Routes :: "route list"

record nacl_entry =
  RuleNumber :: int
  CidrBlock :: "string option"
  Egress :: bool

record network_acl =
  NetworkAclId :: string
  Entries :: "nacl_entry list"

record ip_range =
  CidrIp :: string

record permission =
  IpProtocol :: string
  IpRanges :: "ip_range list"
  Ipv6Ranges :: "string list"
  PrefixListIds :: "string list"
  UserIdGroupPairs :: "string list"

record security_group =
  GroupId :: string
  IpPermissions :: "permission list"
  IpPermissionsEgress :: "permission list"

record ec2_instance =
  InstanceId :: string
  instance_VpcId :: string
  instance_SubnetId :: string
  PrivateDnsName :: string
  PrivateIpAddress :: string
  SecurityGroups :: "string list"
  Tags :: "tag list"
  Name :: "string option"

record reservation =
  Instances :: "ec2_instance list"

record group_subnet =
  SubnetIdentifier :: string
  SubnetStatus :: string

record subnet_group =
  group_VpcId :: string
  Subnets :: "group_subnet list"

record db_instance =
  DBInstanceIdentifier :: string
  DBSubnetGroup :: subnet_group
  Endpoint_Address :: string
  db_VpcSecurityGroups :: "string list"
  PubliclyAccessible :: bool

record replication_instance =
  ReplicationInstanceIdentifier :: string
  ReplicationSubnetGroup :: subnet_group
  ReplicationInstancePrivateIpAddress :: string
  dms_VpcSecurityGroups :: "string list"

record internet_gateway =
  InternetGatewayId :: string
  Attachments :: "string list"

record vpn_gateway =
  VpnGatewayId :: string
  vgw_State :: string
  VpcAttachments :: "string list"

record nat_gateway =
  nat_State :: string

record vpc_info =
  peer_VpcId :: string
  peer_CidrBlock :: string

record vpc_peering_connection =
  Status_Code :: string
  AccepterVpcInfo :: vpc_info
  RequesterVpcInfo :: vpc_info

record bgp_peer =
  bgpPeerId :: string
  bgpPeerState :: string
  bgpStatus :: string

record virtual_interface =
  virtualInterfaceId :: string
  virtualInterfaceName :: string
  virtualInterfaceState :: string
  virtualGatewayId :: string
  bgpPeers :: "bgp_peer list"

text \<open>The dictionary \<^verbatim>\<open>match\<close> of \<^verbatim>\<open>find_route_matches\<close>, once it is not empty.\<close>

record best_match =
  match_route :: route
  match_route_cidr :: ip_network
  match_prefixlen :: nat

section \<open>Printing and raising\<close>

text \<open>
  What \<^verbatim>\<open>pprint\<close> is given. The attachment lists of the gateways hold the
  \<^verbatim>\<open>State\<close> of each attachment, the group lists the group identifiers.
\<close>

datatype pyobj =
    PyRoute route
  | PyMatch "best_match option"
  | PyRouteTable route_table
  | PySubnets "subnet list"
  | PyNacl network_acl
  | PyNacls "network_acl list"
  | PyNaclEntries "nacl_entry list"
  | PyPermissions "permission list"
  | PySecurityGroups "security_group list"
  | PyGroupIds "string list"
  | PyInstance ec2_instance
  | PyDBInstance db_instance
  | PyDBInstances "db_instance list"
  | PyReplicationInstance replication_instance
  | PyReplicationInstances "replication_instance list"
  | PyInternetGateway internet_gateway
  | PyVpnGateway vpn_gateway
  | PyNatGateway nat_gateway
  | PyPeering vpc_peering_connection
  | PyVpcInfo vpc_info
  | PyVirtualInterface virtual_interface
  | PyVirtualInterfaces "virtual_interface list"
  | PyBgpPeer bgp_peer

text \<open>
  One item of standard output: a \<^verbatim>\<open>print\<close> of a string, a \<^verbatim>\<open>pprint\<close> of an
  object, or the \<^verbatim>\<open>print\<close> of an f-string that ends with an object.
\<close>

datatype out = Print string | PPrint pyobj | PrintF string pyobj

text \<open>
  A computation prints, then returns a value or raises: the output so far is kept when
  it raises.
\<close>

type_synonym 'a io = "out list \<times> (error + 'a)"

definition io_return :: "'a \<Rightarrow> 'a io" where
  "io_return x = ([], Inr x)"

definition io_raise :: "error \<Rightarrow> 'a io" where
  "io_raise e = ([], Inl e)"

definition io_lift :: "error + 'a \<Rightarrow> 'a io" where
  "io_lift r = ([], r)"

definition io_bind :: "'a io \<Rightarrow> ('a \<Rightarrow> 'b io) \<Rightarrow> 'b io" where
  "io_bind m f =
     (case m of
        (o1, Inl e) \<Rightarrow> (o1, Inl e)
      | (o1, Inr x) \<Rightarrow> (case f x of (o2, r) \<Rightarrow> (o1 @ o2, r)))"

definition io_then :: "unit io \<Rightarrow> 'b io \<Rightarrow> 'b io" where
  "io_then m k = io_bind m (\<lambda>_. k)"

definition print :: "string \<Rightarrow> unit io" where
  "print s = ([Print s], Inr ())"

definition pprint :: "pyobj \<Rightarrow> unit io" where
  "pprint x = ([PPrint x], Inr ())"

definition printf :: "string \<Rightarrow> pyobj \<Rightarrow> unit io" where
  "printf s x = ([PrintF s x], Inr ())"

definition io_when :: "bool \<Rightarrow> unit io \<Rightarrow> unit io" where
  "io_when b m = (if b then m else io_return ())"

definition io_assert :: "bool \<Rightarrow> unit io" where
  "io_assert b = (if b then io_return () else io_raise AssertionError)"

text \<open>A block of statements, run in order.\<close>

fun io_block :: "unit io list \<Rightarrow> unit io" where
  "io_block [] = io_return ()"
| "io_block (m # ms) = io_then m (io_block ms)"

text \<open>
  \<^verbatim>\<open>for x in xs: body\<close>, the variables the body assigns being the state \<open>s\<close>; an
  exception in the body ends the loop.
\<close>

fun for_loop :: "'a list \<Rightarrow> 's \<Rightarrow> ('a \<Rightarrow> 's \<Rightarrow> 's io) \<Rightarrow> 's io" where
  "for_loop [] s body = io_return s"
| "for_loop (x # xs) s body =
     (case body x s of
        (o1, Inl e) \<Rightarrow> (o1, Inl e)
      | (o1, Inr s') \<Rightarrow> (case for_loop xs s' body of (o2, r) \<Rightarrow> (o1 @ o2, r)))"

section \<open>Matching addresses against routes and rules\<close>

text \<open>
  \<^verbatim>\<open>find_route_matches\<close>: the body of the loop, then the function. The
  \<^verbatim>\<open>continue\<close> leaves the variable \<^verbatim>\<open>match\<close> as it is; \<^verbatim>\<open>match.get('prefixlen', -1)\<close>
  is \<open>- 1\<close> for the empty dictionary.
\<close>

definition find_route_step ::
  "ipaddress_parser \<Rightarrow> ip_address \<Rightarrow> bool \<Rightarrow> route \<Rightarrow> best_match option \<Rightarrow> best_match option io"
where
  "find_route_step P dest_ip verbose r match =
     io_then (io_when verbose (printf ''Considering route: '' (PyRoute r)))
       (case DestinationCidrBlock r of
          None \<Rightarrow> io_return match
        | Some s \<Rightarrow>
            io_bind (io_lift (ip_network P s)) (\<lambda>route_cidr.
              if contains route_cidr dest_ip then
                (let match' =
                   (if int (net_prefixlen route_cidr) >
                         (case match of None \<Rightarrow> - 1 | Some m \<Rightarrow> int (match_prefixlen m))
                    then Some \<lparr>match_route = r, match_route_cidr = route_cidr,
                                match_prefixlen = net_prefixlen route_cidr\<rparr>
                    else match)
                 in io_then
                      (io_when verbose
                         (io_block [print ''Route matched. '', print ''Current best match:'',
                                    pprint (PyMatch match')]))
                      (io_return match'))
              else io_return match))"

definition find_route_matches ::
  "ipaddress_parser \<Rightarrow> route list \<Rightarrow> string \<Rightarrow> bool \<Rightarrow> route option io"
where
  "find_route_matches P routes dest_ip_str verbose =
     io_bind (io_lift (ip_address P dest_ip_str)) (\<lambda>dest_ip.
     io_bind (for_loop routes None (find_route_step P dest_ip verbose)) (\<lambda>match.
     io_return (map_option match_route match)))"

text \<open>
  What the resolver sees of one route: the network its \<^verbatim>\<open>DestinationCidrBlock\<close> denotes
  (none when the key is missing or the text is refused), whether that network contains
  the destination, and its prefix length.
\<close>

definition route_cidr :: "ipaddress_parser \<Rightarrow> route \<Rightarrow> ip_network option" where
  "route_cidr P r =
     (case DestinationCidrBlock r of
        None \<Rightarrow> None
      | Some s \<Rightarrow> (case ip_network P s of Inl e \<Rightarrow> None | Inr c \<Rightarrow> Some c))"

definition route_contains :: "ipaddress_parser \<Rightarrow> ip_address \<Rightarrow> route \<Rightarrow> bool" where
  "route_contains P dest r =
     (case route_cidr P r of None \<Rightarrow> False | Some c \<Rightarrow> contains c dest)"

definition route_prefixlen :: "ipaddress_parser \<Rightarrow> route \<Rightarrow> nat" where
  "route_prefixlen P r = (case route_cidr P r of None \<Rightarrow> 0 | Some c \<Rightarrow> net_prefixlen c)"

text \<open>
  \<^verbatim>\<open>find_nacl_rule_matches\<close>. The state of the loop is the pair of lists; an entry
  without the key \<^verbatim>\<open>CidrBlock\<close> (an IPv6 entry) raises \<^verbatim>\<open>KeyError\<close>.
\<close>

definition find_nacl_step ::
  "ipaddress_parser \<Rightarrow> ip_address \<Rightarrow> nacl_entry \<Rightarrow> nacl_entry list \<times> nacl_entry list
     \<Rightarrow> (nacl_entry list \<times> nacl_entry list) io"
where
  "find_nacl_step P dest_ip e rules =
     (case rules of (inbound_rules, outbound_rules) \<Rightarrow>
        (case CidrBlock e of
           None \<Rightarrow> io_raise KeyError
         | Some s \<Rightarrow>
             io_bind (io_lift (ip_network P s)) (\<lambda>cidr.
               if contains cidr dest_ip then
                 (if Egress e then io_return (inbound_rules, outbound_rules @ [e])
                  else io_return (inbound_rules @ [e], outbound_rules))
               else io_return (inbound_rules, outbound_rules))))"

definition find_nacl_rule_matches ::
  "ipaddress_parser \<Rightarrow> nacl_entry list \<Rightarrow> string \<Rightarrow> (nacl_entry list \<times> nacl_entry list) io"
where
  "find_nacl_rule_matches P nacl_entries dest_ip_str =
     io_bind (io_lift (ip_address P dest_ip_str)) (\<lambda>dest_ip.
       for_loop nacl_entries ([], []) (find_nacl_step P dest_ip))"

text \<open>\<^verbatim>\<open>ALL_IPV4\<close>, the CIDR block describing all IPv4 addresses.\<close>

definition ALL_IPV4 :: string where
  "ALL_IPV4 = ''0.0.0.0/0''"

text \<open>
  \<^verbatim>\<open>find_security_group_matches\<close>. The inner loop over \<^verbatim>\<open>p['IpRanges']\<close> returns the
  value it leaves in \<^verbatim>\<open>matched_p\<close>; each \<^verbatim>\<open>break\<close> ends it, so the ranges after
  the first match are not read.
\<close>

fun ip_ranges_loop ::
  "ipaddress_parser \<Rightarrow> ip_address \<Rightarrow> permission \<Rightarrow> ip_range list \<Rightarrow> error + permission option"
where
  "ip_ranges_loop P dest_ip p [] = Inr None"
| "ip_ranges_loop P dest_ip p (r # rs) =
     (if CidrIp r = ALL_IPV4 then Inr (Some p)
      else (case ip_network P (CidrIp r) of
              Inl e \<Rightarrow> Inl e
            | Inr cidr \<Rightarrow>
                if contains cidr dest_ip then Inr (Some p)
                else ip_ranges_loop P dest_ip p rs))"

definition find_security_group_step ::
  "ipaddress_parser \<Rightarrow> ip_address \<Rightarrow> permission \<Rightarrow> permission list \<Rightarrow> permission list io"
where
  "find_security_group_step P dest_ip p matches =
     io_bind (if 0 < length (IpRanges p)
              then io_lift (ip_ranges_loop P dest_ip p (IpRanges p))
              else io_return None) (\<lambda>matched_p.
     io_then (io_when (0 < length (Ipv6Ranges p))
                (print ''WARNING. Ignoring IPv6 rules in Security Group.''))
    (io_then (io_when (0 < length (PrefixListIds p))
                (print ''WARNING. Ignoring Perfix List rules in Security Group.''))
       (case (if 0 < length (UserIdGroupPairs p) then Some p else matched_p) of
          None \<Rightarrow> io_return matches
        | Some q \<Rightarrow> io_return (matches @ [q]))))"

definition find_security_group_matches ::
  "ipaddress_parser \<Rightarrow> permission list \<Rightarrow> string \<Rightarrow> permission list io"
where
  "find_security_group_matches P permissions dest_ip_str =
     io_bind (io_lift (ip_address P dest_ip_str)) (\<lambda>dest_ip.
       for_loop permissions [] (find_security_group_step P dest_ip))"

section \<open>The service\<close>

text \<open>
  The boto3 clients and the resolver, as the answers they give: each describe call
  returns the list its response holds under the key the source reads, or raises. The
  two calls of \<^verbatim>\<open>describe_route_tables\<close> differ in their filters (the association
  with a subnet, the main table of a VPC) and are two fields; the identifier lists of
  one element that the source builds are passed as that element.
\<close>

record aws =
  describe_subnets :: "string list \<Rightarrow> error + subnet list"
  describe_network_acls :: "string list \<Rightarrow> error + network_acl list"
  describe_route_tables_of_subnet :: "string \<Rightarrow> error + route_table list"
  describe_route_tables_main :: "string \<Rightarrow> error + route_table list"
  describe_nat_gateways :: "string \<Rightarrow> error + nat_gateway list"
  describe_vpc_peering_connections :: "string \<Rightarrow> error + vpc_peering_connection list"
  describe_internet_gateways :: "string \<Rightarrow> error + internet_gateway list"
  describe_vpn_gateways :: "string \<Rightarrow> error + vpn_gateway list"
  describe_instances :: "string \<Rightarrow> error + reservation list"
  describe_security_groups :: "string list \<Rightarrow> error + security_group list"
  describe_db_instances :: "string \<Rightarrow> error + db_instance list"
  describe_replication_instances :: "string \<Rightarrow> error + replication_instance list"
  describe_virtual_interfaces :: "error + virtual_interface list"
  gethostbyname :: "string \<Rightarrow> error + string"

section \<open>Fetching\<close>

fun get_value_for_tag_key :: "tag list \<Rightarrow> string \<Rightarrow> string" where
  "get_value_for_tag_key [] key = []"
| "get_value_for_tag_key (item # tags) key =
     (if (case Key item of None \<Rightarrow> [] | Some k \<Rightarrow> k) = key
      then (case Value item of None \<Rightarrow> [] | Some v \<Rightarrow> v)
      else get_value_for_tag_key tags key)"

definition get_subnets :: "aws \<Rightarrow> string list \<Rightarrow> bool \<Rightarrow> subnet list io" where
  "get_subnets client subnet_id_list verbose =
     io_bind (io_lift (describe_subnets client subnet_id_list)) (\<lambda>response.
     io_then (io_when verbose (io_block [print ''Subnets:'', pprint (PySubnets response)]))
    (io_then (io_assert (length subnet_id_list = length response))
       (io_return response)))"

fun find_subnet_loop ::
  "ipaddress_parser \<Rightarrow> ip_address \<Rightarrow> subnet list \<Rightarrow> error + subnet option"
where
  "find_subnet_loop P ip [] = Inr None"
| "find_subnet_loop P ip (s # subnets) =
     (case ip_network P (subnet_CidrBlock s) of
        Inl e \<Rightarrow> Inl e
      | Inr cidr \<Rightarrow> if contains cidr ip then Inr (Some s) else find_subnet_loop P ip subnets)"

definition find_subnet_for_ip ::
  "aws \<Rightarrow> ipaddress_parser \<Rightarrow> string list \<Rightarrow> string \<Rightarrow> bool \<Rightarrow> (subnet option \<times> subnet list) io"
where
  "find_subnet_for_ip client P subnet_id_list ip_address_str verbose =
     io_bind (get_subnets client subnet_id_list verbose) (\<lambda>subnets.
     io_bind (io_lift (ip_address P ip_address_str)) (\<lambda>ip.
     io_bind (io_lift (find_subnet_loop P ip subnets)) (\<lambda>s.
     io_return (s, subnets))))"

definition get_nacls_for_subnets :: "aws \<Rightarrow> string list \<Rightarrow> bool \<Rightarrow> network_acl list io" where
  "get_nacls_for_subnets client list_subnet_ids verbose =
     io_bind (io_lift (describe_network_acls client list_subnet_ids)) (\<lambda>response.
     io_then (io_when verbose (pprint (PyNacls response)))
       (io_return response))"

definition get_main_route_table_for_vpc :: "aws \<Rightarrow> string \<Rightarrow> route_table io" where
  "get_main_route_table_for_vpc client vpc_id =
     io_bind (io_lift (describe_route_tables_main client vpc_id)) (\<lambda>response.
       case response of [t] \<Rightarrow> io_return t | _ \<Rightarrow> io_raise AssertionError)"

definition get_route_table_for_subnet :: "aws \<Rightarrow> string \<Rightarrow> string \<Rightarrow> bool \<Rightarrow> route_table io" where
  "get_route_table_for_subnet client vpc_id subnet_id verbose =
     io_bind (io_lift (describe_route_tables_of_subnet client subnet_id)) (\<lambda>response.
     io_then (io_assert (length response \<le> 1))
    (io_bind (case response of
                [t] \<Rightarrow> io_return t
              | _ \<Rightarrow> get_main_route_table_for_vpc client vpc_id) (\<lambda>result.
     io_then (io_when verbose
                (io_block [print (''Route Table for Subnet '' @ subnet_id @ '':''),
                           pprint (PyRouteTable result)]))
       (io_return result))))"

text \<open>
  \<^verbatim>\<open>rtables[key] = value\<close> on a dictionary kept as the list of its items in insertion
  order: a key already present keeps its place.
\<close>

fun dict_set :: "'k \<Rightarrow> 'v \<Rightarrow> ('k \<times> 'v) list \<Rightarrow> ('k \<times> 'v) list" where
  "dict_set k v [] = [(k, v)]"
| "dict_set k v ((k', v') # kvs) =
     (if k' = k then (k, v) # kvs else (k', v') # dict_set k v kvs)"

definition get_route_tables_for_subnets ::
  "aws \<Rightarrow> string \<Rightarrow> string list \<Rightarrow> bool \<Rightarrow> route_table list io"
where
  "get_route_tables_for_subnets client vpc_id list_subnet_ids verbose =
     io_bind (for_loop list_subnet_ids []
                (\<lambda>subnet_id rtables.
                   io_bind (get_route_table_for_subnet client vpc_id subnet_id verbose) (\<lambda>result.
                   io_return (dict_set (RouteTableId result) result rtables)))) (\<lambda>rtables.
     io_return (map snd rtables))"

definition get_nat_gateway :: "aws \<Rightarrow> string \<Rightarrow> nat_gateway io" where
  "get_nat_gateway client nat_gateway_id =
     io_bind (io_lift (describe_nat_gateways client nat_gateway_id)) (\<lambda>response.
       case response of [g] \<Rightarrow> io_return g | _ \<Rightarrow> io_raise AssertionError)"

definition get_vpc_peering_connections :: "aws \<Rightarrow> string \<Rightarrow> vpc_peering_connection io" where
  "get_vpc_peering_connections client peering_connection_id =
     io_bind (io_lift (describe_vpc_peering_connections client peering_connection_id)) (\<lambda>response.
       case response of [c] \<Rightarrow> io_return c | _ \<Rightarrow> io_raise AssertionError)"

definition get_ec2_instance_by_private_ip :: "aws \<Rightarrow> string \<Rightarrow> ec2_instance option io" where
  "get_ec2_instance_by_private_ip client private_ip_address =
     io_bind (io_lift (describe_instances client private_ip_address)) (\<lambda>response.
       if length response < 1 then io_return None
       else (case response of
               [res] \<Rightarrow>
                 (case Instances res of
                    [source_instance] \<Rightarrow>
                      io_return
                        (Some (source_instance
                           \<lparr>Name := Some (get_value_for_tag_key (Tags source_instance) ''Name'')\<rparr>))
                  | _ \<Rightarrow> io_raise AssertionError)
             | _ \<Rightarrow> io_raise AssertionError))"

text \<open>
  \<^verbatim>\<open>get_security_groups\<close>: the state of the loop is the pair
  \<^verbatim>\<open>(ingress_sg_matches, egress_sg_matches)\<close>.
\<close>

definition get_security_groups_step ::
  "ipaddress_parser \<Rightarrow> string \<Rightarrow> security_group \<Rightarrow> permission list \<times> permission list
     \<Rightarrow> (permission list \<times> permission list) io"
where
  "get_security_groups_step P dest_ip_address security_group matches =
     (case matches of (ingress_sg_matches, egress_sg_matches) \<Rightarrow>
        io_bind (find_security_group_matches P (IpPermissions security_group)
                   dest_ip_address) (\<lambda>temp.
        io_bind (find_security_group_matches P (IpPermissionsEgress security_group)
                   dest_ip_address) (\<lambda>temp'.
        io_return (ingress_sg_matches @ temp, egress_sg_matches @ temp'))))"

definition get_security_groups ::
  "aws \<Rightarrow> ipaddress_parser \<Rightarrow> string list \<Rightarrow> string \<Rightarrow> bool
     \<Rightarrow> (permission list \<times> permission list) io"
where
  "get_security_groups client P sg_group_ids dest_ip_address verbose =
     io_bind (io_lift (describe_security_groups client sg_group_ids)) (\<lambda>source_security_groups.
     io_then (io_assert (length source_security_groups = length sg_group_ids))
    (io_then (io_when verbose (pprint (PySecurityGroups source_security_groups)))
       (for_loop source_security_groups ([], [])
          (get_security_groups_step P dest_ip_address))))"

definition get_rds_instance :: "aws \<Rightarrow> string \<Rightarrow> bool \<Rightarrow> db_instance option io" where
  "get_rds_instance client source_rds_name verbose =
     io_bind (io_lift (describe_db_instances client source_rds_name)) (\<lambda>response.
     io_then (io_when verbose (pprint (PyDBInstances response)))
    (io_then (io_assert (length response \<le> 1))
       (case response of [] \<Rightarrow> io_return None | d # ds \<Rightarrow> io_return (Some d))))"

definition get_dms_instance :: "aws \<Rightarrow> string \<Rightarrow> bool \<Rightarrow> replication_instance option io" where
  "get_dms_instance client source_dms_name verbose =
     io_bind (io_lift (describe_replication_instances client source_dms_name)) (\<lambda>response.
     io_then (io_when verbose (pprint (PyReplicationInstances response)))
    (io_then (io_assert (length response \<le> 1))
       (case response of [] \<Rightarrow> io_return None | d # ds \<Rightarrow> io_return (Some d))))"

definition get_dc_virtual_interface :: "aws \<Rightarrow> string \<Rightarrow> bool \<Rightarrow> virtual_interface list io" where
  "get_dc_virtual_interface client virtual_gateway_id verbose =
     io_bind (io_lift (describe_virtual_interfaces client)) (\<lambda>response.
       io_return (filter (\<lambda>i. virtualGatewayId i = virtual_gateway_id) response))"

section \<open>The reports\<close>

text \<open>
  \<^verbatim>\<open>report_dc_virtual_interfaces\<close>. The inner loop over \<^verbatim>\<open>i['bgpPeers']\<close> carries
  \<^verbatim>\<open>(network_problem_exists, this_interface_problem)\<close>, the outer loop
  \<^verbatim>\<open>network_problem_exists\<close>.
\<close>

definition bgp_peer_step :: "bgp_peer \<Rightarrow> bool \<times> bool \<Rightarrow> (bool \<times> bool) io" where
  "bgp_peer_step bgp_peer flags =
     (if bgpStatus bgp_peer \<noteq> ''up'' \<or> bgpPeerState bgp_peer \<noteq> ''available'' then
        io_then (print ''NETWORK CONNECTIVITY ERROR. DC Virtual Interface BGP Peer issue:'')
       (io_then (pprint (PyBgpPeer bgp_peer))
          (io_return (True, True)))
      else
        io_then (print (''DC Virtual Interface BGP peer '' @ bgpPeerId bgp_peer @ '' appears OK.''))
          (io_return flags))"

definition virtual_interface_step :: "virtual_interface \<Rightarrow> bool \<Rightarrow> bool io" where
  "virtual_interface_step i network_problem_exists =
     io_bind (if virtualInterfaceState i \<noteq> ''available'' then
                io_then (print ''NETWORK CONNECTIVITY ERROR. DC Virtual Interface is not in 'available' state:'')
               (io_then (pprint (PyVirtualInterface i))
                  (io_return (True, True)))
              else io_return (network_problem_exists, False)) (\<lambda>flags.
     io_bind (for_loop (bgpPeers i) flags bgp_peer_step) (\<lambda>(network_problem_exists', this_interface_problem).
     io_then (io_when (\<not> this_interface_problem)
                (print (''DC Virtual Interface '' @ virtualInterfaceName i @ '' ('' @
                        virtualInterfaceId i @ '') appears OK.'')))
       (io_return network_problem_exists')))"

definition report_dc_virtual_interfaces :: "virtual_interface list \<Rightarrow> bool \<Rightarrow> bool io" where
  "report_dc_virtual_interfaces dc_vifs verbose =
     io_then (print ''Checking Direct Connect Virtual Interfaces:'')
    (io_then (io_when verbose (pprint (PyVirtualInterfaces dc_vifs)))
       (if dc_vifs = [] then
          io_then (print ''NETWORK CONNECTIVITY ERROR. No DC Virtual Interfaces present.'')
            (io_return True)
        else for_loop dc_vifs False virtual_interface_step))"

definition separator :: string where
  "separator = ''============================================================''"

definition report_nacl ::
  "ipaddress_parser \<Rightarrow> network_acl \<Rightarrow> string \<Rightarrow> string \<Rightarrow> bool \<Rightarrow> bool io"
where
  "report_nacl P source_nacl source_ip_address dest_ip_address verbose =
     io_then (print separator)
    (io_then (print ''Network ACL analysis'')
    (io_then (print (''NACL entries applied on source IP '' @ source_ip_address @
                     '' relevant to destination IP '' @ dest_ip_address))
    (io_bind (find_nacl_rule_matches P (Entries source_nacl) dest_ip_address) (\<lambda>(inbound_rules, outbound_rules).
     io_then (print ''Inbound Rules:'')
    (io_then (pprint (PyNaclEntries inbound_rules))
    (io_bind (if length inbound_rules = 0 then
                io_then (print ''NETWORK CONNECTIVITY ERROR. No relevant inbound rules for NACL.'')
                  (io_return True)
              else io_return False) (\<lambda>network_problem_exists.
     io_then (print ''Outbound Rules:'')
    (io_then (pprint (PyNaclEntries outbound_rules))
       (if length outbound_rules = 0 then
          io_then (print ''NETWORK CONNECTIVITY ERROR. No relevant outbound rules for NACL.'')
            (io_return True)
        else io_return network_problem_exists)))))))))"

text \<open>
  \<^verbatim>\<open>report_route_table\<close>, one definition for each kind of target, then the function.
  Each returns the value of \<^verbatim>\<open>network_problem_exists\<close> that its branch leaves.
\<close>

definition report_internet_gateway :: "aws \<Rightarrow> string \<Rightarrow> bool io" where
  "report_internet_gateway ec2_client gateway_id =
     io_then (print ''Internet Gateway:'')
    (io_bind (io_lift (describe_internet_gateways ec2_client gateway_id)) (\<lambda>response.
       case response of
         [source_gateway] \<Rightarrow>
           io_then (pprint (PyInternetGateway source_gateway))
             (case Attachments source_gateway of
                [state] \<Rightarrow>
                  if state \<noteq> ''available'' then
                    io_then (print ''NETWORK CONNECTIVITY ERROR. Internet Gateway is NOT attached.'')
                      (io_return True)
                  else io_then (print ''Internet Gateway appears OK.'') (io_return False)
              | _ \<Rightarrow> io_raise AssertionError)
       | _ \<Rightarrow> io_raise AssertionError))"

definition report_vpn_gateway :: "aws \<Rightarrow> string \<Rightarrow> bool \<Rightarrow> bool io" where
  "report_vpn_gateway ec2_client gateway_id verbose =
     io_then (print ''Virtual Private Gateway:'')
    (io_bind (io_lift (describe_vpn_gateways ec2_client gateway_id)) (\<lambda>response.
       case response of
         [source_gateway] \<Rightarrow>
           io_then (pprint (PyVpnGateway source_gateway))
             (case VpcAttachments source_gateway of
                [state] \<Rightarrow>
                  io_bind (if vgw_State source_gateway \<noteq> ''available'' then
                             io_then (print ''NETWORK CONNECTIVITY ERROR. Virtual Gateway is NOT available.'')
                               (io_return True)
                           else io_return False) (\<lambda>network_problem_exists.
                  io_bind (if state \<noteq> ''attached'' then
                             io_then (print ''NETWORK CONNECTIVITY ERROR. Virtual Gateway is NOT attached.'')
                               (io_return True)
                           else io_return network_problem_exists) (\<lambda>network_problem_exists'.
                  io_bind (get_dc_virtual_interface ec2_client gateway_id verbose) (\<lambda>dc_vifs.
                  io_bind (report_dc_virtual_interfaces dc_vifs verbose) (\<lambda>problem.
                  io_return (network_problem_exists' \<or> problem)))))
              | _ \<Rightarrow> io_raise AssertionError)
       | _ \<Rightarrow> io_raise AssertionError))"

definition report_gateway :: "aws \<Rightarrow> string \<Rightarrow> bool \<Rightarrow> bool io" where
  "report_gateway ec2_client gateway_id verbose =
     io_then (print (''Via gateway: '' @ gateway_id))
       (if prefix ''igw-'' gateway_id then report_internet_gateway ec2_client gateway_id
        else if prefix ''vgw-'' gateway_id then report_vpn_gateway ec2_client gateway_id verbose
        else io_then (print ''WARNING. Some other type of gateway is NOT being analyzed.'')
               (io_return False))"

definition report_nat_gateway :: "aws \<Rightarrow> string \<Rightarrow> bool \<Rightarrow> bool io" where
  "report_nat_gateway ec2_client nat_gateway_id verbose =
     io_then (print (''Via NAT: '' @ nat_gateway_id))
    (io_bind (get_nat_gateway ec2_client nat_gateway_id) (\<lambda>nat_gateway.
     io_then (io_when verbose (pprint (PyNatGateway nat_gateway)))
    (io_then (print (''NAT Gateway state: '' @ nat_State nat_gateway))
       (if nat_State nat_gateway \<noteq> ''available'' then
          io_then (print ''NETWORK CONNECTIVITY ERROR. NAT Gateway not available'')
            (io_return True)
        else io_return False))))"

definition report_peering_connection :: "aws \<Rightarrow> string \<Rightarrow> string \<Rightarrow> bool \<Rightarrow> bool io" where
  "report_peering_connection ec2_client peering_connection_id source_vpc_id verbose =
     io_then (print (''Via peering connection: '' @ peering_connection_id))
    (io_bind (get_vpc_peering_connections ec2_client peering_connection_id) (\<lambda>vpc_peering_connection.
     io_then (io_when verbose (pprint (PyPeering vpc_peering_connection)))
    (io_then (print (''VPC Peering Connection status: '' @ Status_Code vpc_peering_connection))
    (io_bind (if Status_Code vpc_peering_connection \<noteq> ''active'' then
                io_then (print ''NETWORK CONNECTIVITY ERROR. VPC Peering Connection is not active'')
                  (io_return True)
              else io_return False) (\<lambda>network_problem_exists.
     io_then (print ''Destination peering info:'')
    (io_then (pprint (PyVpcInfo
                (if peer_VpcId (AccepterVpcInfo vpc_peering_connection) = source_vpc_id
                 then RequesterVpcInfo vpc_peering_connection
                 else AccepterVpcInfo vpc_peering_connection)))
       (io_return network_problem_exists)))))))"

definition report_route ::
  "aws \<Rightarrow> route option \<Rightarrow> string \<Rightarrow> string \<Rightarrow> bool \<Rightarrow> bool io"
where
  "report_route ec2_client r source_vpc_id dest_ip_address verbose =
     (case r of
        None \<Rightarrow>
          io_then (print (''NETWORK CONNECTIVITY ERROR. There is no route to '' @ dest_ip_address))
            (io_return True)
      | Some r' \<Rightarrow>
          (case GatewayId r' of
             Some gateway_id \<Rightarrow> report_gateway ec2_client gateway_id verbose
           | None \<Rightarrow>
               (case NatGatewayId r' of
                  Some nat_gateway_id \<Rightarrow> report_nat_gateway ec2_client nat_gateway_id verbose
                | None \<Rightarrow>
                    (case VpcPeeringConnectionId r' of
                       Some peering_connection_id \<Rightarrow>
                         report_peering_connection ec2_client peering_connection_id
                           source_vpc_id verbose
                     | None \<Rightarrow>
                         io_then (print ''ERROR. Unknown route type:'')
                        (io_then (pprint (PyRoute r'))
                           (io_return True))))))"

definition report_route_table ::
  "aws \<Rightarrow> ipaddress_parser \<Rightarrow> route_table \<Rightarrow> string \<Rightarrow> string \<Rightarrow> string \<Rightarrow> bool \<Rightarrow> bool io"
where
  "report_route_table ec2_client P source_route_table source_vpc_id source_ip_address
       dest_ip_address verbose =
     io_then (print separator)
    (io_then (print (''Analysis of Route Table applied on source IP '' @ source_ip_address @
                     '' relevant to destination IP '' @ dest_ip_address))
    (io_then (print (''Route Table in use for source: '' @ RouteTableId source_route_table))
    (io_then (io_when verbose (pprint (PyRouteTable source_route_table)))
    (io_then (print (''Finding route to '' @ dest_ip_address))
    (io_bind (find_route_matches P (Routes source_route_table) dest_ip_address verbose) (\<lambda>r.
     io_then (case r of
                None \<Rightarrow> io_return ()
              | Some r' \<Rightarrow> io_block [print ''Matching route:'', pprint (PyRoute r')])
       (report_route ec2_client r source_vpc_id dest_ip_address verbose)))))))"

definition report_security_groups ::
  "aws \<Rightarrow> ipaddress_parser \<Rightarrow> string list \<Rightarrow> string \<Rightarrow> string \<Rightarrow> bool \<Rightarrow> bool io"
where
  "report_security_groups ec2_client P source_security_group_ids source_ip_address
       dest_ip_address verbose =
     io_bind (get_security_groups ec2_client P source_security_group_ids dest_ip_address
                verbose) (\<lambda>(ingress_sg_matches, egress_sg_matches).
     io_then (print separator)
    (io_then (print (''Analysis of Security Group ingress/egress applied on source IP '' @
                     source_ip_address @ '' to/from destination IP '' @ dest_ip_address))
    (io_then (print ''Potential Ingress Matches'')
    (io_then (pprint (PyPermissions ingress_sg_matches))
    (io_bind (if length ingress_sg_matches = 0 then
                io_then (print (''NETWORK CONNECTIVITY ERROR. No ingress is allowed by source Security Groups for '' @ dest_ip_address))
               (io_then (print (CHR 0x09 # ''Perhaps access to this AWS resource is indirect, through a loadbalancer? ''))
                  (io_return True))
              else io_return False) (\<lambda>network_problem_exists.
     io_then (print ''Potential Egress Matches:'')
    (io_then (pprint (PyPermissions egress_sg_matches))
       (if length egress_sg_matches = 0 then
          io_then (print (''NETWORK CONNECTIVITY ERROR. No egress is allowed by source Security Groups for '' @ dest_ip_address))
         (io_then (print (CHR 0x09 # ''Perhaps access to this AWS resource is indirect, through a loadbalancer? ''))
            (io_return True))
        else io_return network_problem_exists))))))))"

definition report_db_subnet_groups :: "aws \<Rightarrow> string \<Rightarrow> string list \<Rightarrow> bool \<Rightarrow> bool io" where
  "report_db_subnet_groups ec2_client vpc_id subnet_id_list verbose =
     io_bind (get_route_tables_for_subnets ec2_client vpc_id subnet_id_list False) (\<lambda>result.
     io_then (io_assert (0 < length result))
    (io_then (io_when (1 < length result)
                (print ''WARNING. Subnets in DBSubnetGroup do not use the same route table!''))
    (io_bind (get_nacls_for_subnets ec2_client subnet_id_list verbose) (\<lambda>result'.
     io_then (io_assert (0 < length result'))
    (io_then (io_when (1 < length result')
                (print ''WARNING. Subnets in DBSubnetGroup do not use the same NACL!''))
       (io_return False))))))"

definition process_subnet_list :: "group_subnet list \<Rightarrow> string list io" where
  "process_subnet_list subnets =
     for_loop subnets []
       (\<lambda>s subnet_id_list.
          if SubnetStatus s = ''Active'' then io_return (subnet_id_list @ [SubnetIdentifier s])
          else io_then (print (''WARNING. Subnet '' @ SubnetIdentifier s @
                               '' in DBSubnetGroup is not 'Active'' @ [CHR 0x27]))
                 (io_return subnet_id_list))"

section \<open>The command\<close>

text \<open>The parsed arguments of \<^verbatim>\<open>main\<close>.\<close>

record args =
  arg_verbose :: bool
  arg_source_ec2_ip :: string
  arg_dest_ip :: string
  arg_source_rds :: string
  arg_source_dms :: string

text \<open>
  The locals of \<^verbatim>\<open>main\<close> that the three source blocks assign. Every block that finds
  its source binds the same six names before it ends, and an exception inside a block
  ends the run, so the six are bound together or not at all: \<open>None\<close> is the state in
  which reading any of them raises \<^verbatim>\<open>NameError\<close>.
\<close>

record source_vars =
  v_source_ip_address :: string
  v_source_name :: string
  v_source_dns_name :: string
  v_source_subnet_id :: string
  v_source_vpc_id :: string
  v_source_security_groups :: "string list"

record main_locals =
  v_network_problem_exists :: bool
  v_source_security_group_ids :: "string list"
  v_source :: "source_vars option"

definition main_ec2 :: "aws \<Rightarrow> args \<Rightarrow> main_locals \<Rightarrow> main_locals io" where
  "main_ec2 ec2_client a st =
     (if arg_source_ec2_ip a \<noteq> [] then
        io_bind (get_ec2_instance_by_private_ip ec2_client (arg_source_ec2_ip a)) (\<lambda>found.
          case found of
            None \<Rightarrow>
              io_then (print (''ERROR. Source EC2 instance with private IP address '' @
                              arg_source_ec2_ip a @ '' cannot be found.''))
                (io_return st)
          | Some source_instance \<Rightarrow>
              io_then (pprint (PyInstance source_instance))
             (io_bind (case Name source_instance of
                         None \<Rightarrow> io_raise KeyError
                       | Some n \<Rightarrow> io_return n) (\<lambda>source_name.
              io_then (io_assert (arg_source_ec2_ip a = PrivateIpAddress source_instance))
             (io_then (io_when (arg_verbose a) (pprint (PyInstance source_instance)))
             (io_then (print (''InstanceId: '' @ InstanceId source_instance))
                (io_return
                   (st\<lparr>v_source_security_group_ids :=
                          v_source_security_group_ids st @ SecurityGroups source_instance,
                        v_source := Some
                          \<lparr>v_source_ip_address = PrivateIpAddress source_instance,
                           v_source_name = source_name,
                           v_source_dns_name = PrivateDnsName source_instance,
                           v_source_subnet_id = instance_SubnetId source_instance,
                           v_source_vpc_id = instance_VpcId source_instance,
                           v_source_security_groups = SecurityGroups source_instance\<rparr>\<rparr>)))))))
      else io_return st)"

text \<open>
  The part the RDS and the DMS block share: the subnets of the group, the subnet of the
  source address, the check of the subnet group and the security groups.
  \<^verbatim>\<open>str.starts_with\<close> does not exist, so the test of a publicly accessible RDS
  instance raises \<^verbatim>\<open>AttributeError\<close>; the \<^verbatim>\<open>and\<close> skips it otherwise.
\<close>

definition main_subnet_group ::
  "aws \<Rightarrow> ipaddress_parser \<Rightarrow> args \<Rightarrow> subnet_group \<Rightarrow> string \<Rightarrow> (string \<times> bool) io"
where
  "main_subnet_group ec2_client P a grp source_ip_address =
     io_bind (process_subnet_list (Subnets grp)) (\<lambda>subnet_id_list.
     io_bind (find_subnet_for_ip ec2_client P subnet_id_list source_ip_address
                (arg_verbose a)) (\<lambda>(source_subnet, all_subnets).
       case source_subnet of
         None \<Rightarrow> io_raise AssertionError
       | Some s \<Rightarrow>
           io_bind (report_db_subnet_groups ec2_client (group_VpcId grp) subnet_id_list
                      (arg_verbose a)) (\<lambda>problem.
           io_return (SubnetId s, problem))))"

definition str_bool :: "bool \<Rightarrow> string" where
  "str_bool b = (if b then ''True'' else ''False'')"

definition main_rds :: "aws \<Rightarrow> ipaddress_parser \<Rightarrow> args \<Rightarrow> main_locals \<Rightarrow> main_locals io" where
  "main_rds client P a st =
     (if arg_source_rds a \<noteq> [] then
        io_bind (get_rds_instance client (arg_source_rds a) (arg_verbose a)) (\<lambda>found.
          case found of
            None \<Rightarrow>
              io_then (print (''ERROR. Source RDS instance with name '' @ arg_source_rds a @
                              '' cannot be found.''))
                (io_return st)
          | Some source_rds_instance \<Rightarrow>
              io_then (pprint (PyDBInstance source_rds_instance))
             (io_bind (io_lift (gethostbyname client (Endpoint_Address source_rds_instance)))
                (\<lambda>source_ip_address.
              io_bind (main_subnet_group client P a (DBSubnetGroup source_rds_instance)
                         source_ip_address) (\<lambda>(source_subnet_id, problem).
              io_then (print (''RDS Instance PubliclyAccessible: '' @
                              str_bool (PubliclyAccessible source_rds_instance)))
             (io_then (io_when (arg_verbose a) (pprint (PyDBInstance source_rds_instance)))
             (io_then (if PubliclyAccessible source_rds_instance
                       then io_raise AttributeError else io_return ())
                (io_return
                   (st\<lparr>v_network_problem_exists := v_network_problem_exists st \<or> problem,
                        v_source_security_group_ids :=
                          v_source_security_group_ids st @
                          db_VpcSecurityGroups source_rds_instance,
                        v_source := Some
                          \<lparr>v_source_ip_address = source_ip_address,
                           v_source_name = DBInstanceIdentifier source_rds_instance,
                           v_source_dns_name = Endpoint_Address source_rds_instance,
                           v_source_subnet_id = source_subnet_id,
                           v_source_vpc_id = group_VpcId (DBSubnetGroup source_rds_instance),
                           v_source_security_groups =
                             db_VpcSecurityGroups source_rds_instance\<rparr>\<rparr>))))))))
      else io_return st)"

definition main_dms :: "aws \<Rightarrow> ipaddress_parser \<Rightarrow> args \<Rightarrow> main_locals \<Rightarrow> main_locals io" where
  "main_dms client P a st =
     (if arg_source_dms a \<noteq> [] then
        io_bind (get_dms_instance client (arg_source_dms a) (arg_verbose a)) (\<lambda>found.
          case found of
            None \<Rightarrow>
              io_then (print (''ERROR. Source DMS instance with name '' @ arg_source_dms a @
                              '' cannot be found.''))
                (io_return st)
          | Some source_dms_instance \<Rightarrow>
              io_then (pprint (PyReplicationInstance source_dms_instance))
             (io_bind (main_subnet_group client P a
                         (ReplicationSubnetGroup source_dms_instance)
                         (ReplicationInstancePrivateIpAddress source_dms_instance))
                (\<lambda>(source_subnet_id, problem).
                io_return
                   (st\<lparr>v_network_problem_exists := v_network_problem_exists st \<or> problem,
                        v_source_security_group_ids :=
                          v_source_security_group_ids st @
                          dms_VpcSecurityGroups source_dms_instance,
                        v_source := Some
                          \<lparr>v_source_ip_address =
                             ReplicationInstancePrivateIpAddress source_dms_instance,
                           v_source_name = ReplicationInstanceIdentifier source_dms_instance,
                           v_source_dns_name = ''n/a'',
                           v_source_subnet_id = source_subnet_id,
                           v_source_vpc_id =
                             group_VpcId (ReplicationSubnetGroup source_dms_instance),
                           v_source_security_groups =
                             dms_VpcSecurityGroups source_dms_instance\<rparr>\<rparr>))))
      else io_return st)"

text \<open>
  The three checks that every source shares, from the comment
  \<^verbatim>\<open># EC2 + RDS + DMS common values\<close> to the last assignment of
  \<^verbatim>\<open>network_problem_exists\<close>, whose value is returned.
\<close>

definition main_checks :: "aws \<Rightarrow> ipaddress_parser \<Rightarrow> args \<Rightarrow> main_locals \<Rightarrow> bool io" where
  "main_checks client P a st =
     (case v_source st of
        None \<Rightarrow> io_raise NameError
      | Some src \<Rightarrow>
          io_then (print (''Source IP Address: '' @ v_source_ip_address src))
         (io_then (print (''Name: '' @ v_source_name src))
         (io_then (print (''DNS Name:'' @ v_source_dns_name src))
         (io_then (print (''SubnetId: '' @ v_source_subnet_id src))
         (io_then (print (''VpcId: '' @ v_source_vpc_id src))
         (io_then (print ''Security Groups: '')
         (io_then (pprint (PyGroupIds (v_source_security_groups src)))
         (io_bind (report_security_groups client P (v_source_security_group_ids st)
                     (v_source_ip_address src) (arg_dest_ip a) (arg_verbose a)) (\<lambda>problem.
          io_bind (get_route_table_for_subnet client (v_source_vpc_id src)
                     (v_source_subnet_id src) (arg_verbose a)) (\<lambda>source_route_table.
          io_bind (report_route_table client P source_route_table (v_source_vpc_id src)
                     (v_source_ip_address src) (arg_dest_ip a) (arg_verbose a)) (\<lambda>problem'.
          io_bind (get_nacls_for_subnets client [v_source_subnet_id src] (arg_verbose a))
            (\<lambda>result.
             case result of
               [source_nacl] \<Rightarrow>
                 io_then (io_when (arg_verbose a) (pprint (PyNacl source_nacl)))
                (io_bind (report_nacl P source_nacl (v_source_ip_address src) (arg_dest_ip a)
                            (arg_verbose a)) (\<lambda>problem''.
                 io_return
                   (((v_network_problem_exists st \<or> problem) \<or> problem') \<or> problem'')))
             | _ \<Rightarrow> io_raise AssertionError))))))))))))"

definition main_sources :: "aws \<Rightarrow> ipaddress_parser \<Rightarrow> args \<Rightarrow> main_locals io" where
  "main_sources client P a =
     io_then (print separator)
    (io_then (print ''Source info:'')
    (io_bind (main_ec2 client a
                \<lparr>v_network_problem_exists = False, v_source_security_group_ids = [],
                 v_source = None\<rparr>) (\<lambda>st.
     io_bind (main_rds client P a st) (\<lambda>st'.
     main_dms client P a st'))))"

definition main_analysis :: "aws \<Rightarrow> ipaddress_parser \<Rightarrow> args \<Rightarrow> bool io" where
  "main_analysis client P a =
     io_bind (main_sources client P a) (\<lambda>st. main_checks client P a st)"

definition main :: "aws \<Rightarrow> ipaddress_parser \<Rightarrow> args \<Rightarrow> unit io" where
  "main client P a =
     io_then (print separator)
    (io_then (print ''Input parameters:'')
    (io_then (print (''verbose: '' @ str_bool (arg_verbose a)))
    (io_then (print (''source_ec2_ip_address: '' @ arg_source_ec2_ip a))
    (io_then (print (''dest_ip_address: '' @ arg_dest_ip a))
    (io_then (print (''source_rds_name: '' @ arg_source_rds a))
    (io_then (print (''source_dms_name: '' @ arg_source_dms a))
    (io_bind (main_analysis client P a) (\<lambda>network_problem_exists.
     io_then (print separator)
    (io_then (print ''Summary: '')
    (io_then (if network_problem_exists
              then print ''ERROR. Some network connectivity problem exists. Review output of this tool.''
              else print ''OK. No obvious network connectivity problem exists from the perspective of the source.'')
       (print separator)))))))))))"

section \<open>Vocabulary of the properties\<close>

text \<open>
  The invariant of the loop of \<^verbatim>\<open>find_route_matches\<close> after the routes \<open>routes\<close>:
  \<^verbatim>\<open>match\<close> is empty when none of them contains the destination, and otherwise holds
  the first of those with the greatest prefix length.
\<close>

definition lpm_inv ::
  "ipaddress_parser \<Rightarrow> ip_address \<Rightarrow> route list \<Rightarrow> best_match option \<Rightarrow> bool"
where
  "lpm_inv P dest routes m =
     (case m of
        None \<Rightarrow> (\<forall>r\<in>set routes. \<not> route_contains P dest r)
      | Some b \<Rightarrow>
          match_prefixlen b = route_prefixlen P (match_route b) \<and>
          (\<exists>i<length routes. routes ! i = match_route b \<and>
             route_contains P dest (match_route b) \<and>
             (\<forall>j<length routes. route_contains P dest (routes ! j) \<longrightarrow>
                route_prefixlen P (routes ! j) \<le> route_prefixlen P (match_route b)) \<and>
             (\<forall>j<i. route_contains P dest (routes ! j) \<longrightarrow>
                route_prefixlen P (routes ! j) < route_prefixlen P (match_route b))))"

text \<open>
  An integer masked by a prefix length, in the words of the specification: its leading
  \<open>prefixlen\<close> bits kept, the bits below them cleared.
\<close>

definition masked_by_prefix :: "nat \<Rightarrow> 'a::len word \<Rightarrow> 'a word" where
  "masked_by_prefix prefixlen a =
     push_bit (LENGTH('a) - prefixlen) (drop_bit (LENGTH('a) - prefixlen) a)"

text \<open>Whether the CIDR block of a NACL entry contains the destination.\<close>

definition entry_contains :: "ipaddress_parser \<Rightarrow> ip_address \<Rightarrow> nacl_entry \<Rightarrow> bool" where
  "entry_contains P dest e =
     (case CidrBlock e of
        None \<Rightarrow> False
      | Some s \<Rightarrow> (case ip_network P s of Inl err \<Rightarrow> False | Inr c \<Rightarrow> contains c dest))"

text \<open>
  Whether a range of a permission matches the destination (it is the match-all text, or
  its network contains the destination), and whether a permission matches: by one of
  its ranges or by carrying a peer-group reference.
\<close>

definition range_matches :: "ipaddress_parser \<Rightarrow> ip_address \<Rightarrow> ip_range \<Rightarrow> bool" where
  "range_matches P dest r =
     (CidrIp r = ALL_IPV4 \<or>
      (case ip_network P (CidrIp r) of Inl err \<Rightarrow> False | Inr c \<Rightarrow> contains c dest))"

definition permission_matches :: "ipaddress_parser \<Rightarrow> ip_address \<Rightarrow> permission \<Rightarrow> bool" where
  "permission_matches P dest p =
     ((\<exists>r\<in>set (IpRanges p). range_matches P dest r) \<or> UserIdGroupPairs p \<noteq> [])"

text \<open>The texts of the ranges of a permission are all read by the library.\<close>

definition ranges_readable :: "ipaddress_parser \<Rightarrow> permission \<Rightarrow> bool" where
  "ranges_readable P p =
     (\<forall>r\<in>set (IpRanges p). CidrIp r = ALL_IPV4 \<or> (\<exists>c. ip_network P (CidrIp r) = Inr c))"

text \<open>The warnings that the rule shapes of one permission draw.\<close>

definition shape_warnings :: "permission \<Rightarrow> out list" where
  "shape_warnings p =
     (if Ipv6Ranges p \<noteq> [] then [Print ''WARNING. Ignoring IPv6 rules in Security Group.'']
      else []) @
     (if PrefixListIds p \<noteq> []
      then [Print ''WARNING. Ignoring Perfix List rules in Security Group.''] else [])"

text \<open>
  The severity of a printed line, read from its text: a problem starts with
  \<^verbatim>\<open>NETWORK CONNECTIVITY ERROR.\<close> or with \<^verbatim>\<open>ERROR.\<close>, a warning with
  \<^verbatim>\<open>WARNING.\<close>.
\<close>

definition is_problem :: "out \<Rightarrow> bool" where
  "is_problem l =
     (case l of
        Print s \<Rightarrow> prefix ''NETWORK CONNECTIVITY ERROR.'' s \<or> prefix ''ERROR.'' s
      | PPrint x \<Rightarrow> False
      | PrintF s x \<Rightarrow> False)"

definition is_warning :: "out \<Rightarrow> bool" where
  "is_warning l =
     (case l of Print s \<Rightarrow> prefix ''WARNING.'' s | PPrint x \<Rightarrow> False | PrintF s x \<Rightarrow> False)"

text \<open>
  A virtual interface is in order: its state is \<^verbatim>\<open>available\<close> and each of its BGP
  peers is \<^verbatim>\<open>available\<close> and \<^verbatim>\<open>up\<close>. What the report prints for one interface
  (it does not depend on the flag the loop carries).
\<close>

definition bgp_peer_ok :: "bgp_peer \<Rightarrow> bool" where
  "bgp_peer_ok b = (bgpPeerState b = ''available'' \<and> bgpStatus b = ''up'')"

definition vif_ok :: "virtual_interface \<Rightarrow> bool" where
  "vif_ok i = (virtualInterfaceState i = ''available'' \<and> (\<forall>b\<in>set (bgpPeers i). bgp_peer_ok b))"

definition vif_report :: "virtual_interface \<Rightarrow> out list" where
  "vif_report i = fst (virtual_interface_step i False)"

text \<open>A computation prints no problem line, whether it returns or raises.\<close>

definition no_problem_lines :: "'a io \<Rightarrow> bool" where
  "no_problem_lines m = (\<forall>l\<in>set (fst m). \<not> is_problem l)"

section \<open>Sample data\<close>

text \<open>
  A route table with the local route, a route that has no IPv4 destination, two routes
  for the same block through different NAT gateways, and the default route.
\<close>

definition sample_routes :: "route list" where
  "sample_routes =
     [\<lparr>DestinationCidrBlock = Some ''10.0.0.0/8'', GatewayId = Some ''local'',
       NatGatewayId = None, VpcPeeringConnectionId = None\<rparr>,
      \<lparr>DestinationCidrBlock = None, GatewayId = Some ''eigw-0'',
       NatGatewayId = None, VpcPeeringConnectionId = None\<rparr>,
      \<lparr>DestinationCidrBlock = Some ''10.1.0.0/16'', GatewayId = None,
       NatGatewayId = Some ''nat-a'', VpcPeeringConnectionId = None\<rparr>,
      \<lparr>DestinationCidrBlock = Some ''10.1.0.0/16'', GatewayId = None,
       NatGatewayId = Some ''nat-b'', VpcPeeringConnectionId = None\<rparr>,
      \<lparr>DestinationCidrBlock = Some ''0.0.0.0/0'', GatewayId = Some ''igw-1'',
       NatGatewayId = None, VpcPeeringConnectionId = None\<rparr>]"

text \<open>
  Four permissions: one that matches by two of its ranges and by a peer group, one whose
  only range is elsewhere and that carries an IPv6 range and a prefix list, one with a
  peer group only, and one with the match-all range.
\<close>

definition sample_permissions :: "permission list" where
  "sample_permissions =
     [\<lparr>IpProtocol = ''tcp'',
       IpRanges = [\<lparr>CidrIp = ''10.0.0.0/8''\<rparr>, \<lparr>CidrIp = ''10.1.0.0/16''\<rparr>],
       Ipv6Ranges = [], PrefixListIds = [], UserIdGroupPairs = [''sg-2'']\<rparr>,
      \<lparr>IpProtocol = ''udp'', IpRanges = [\<lparr>CidrIp = ''10.0.0.0/24''\<rparr>],
       Ipv6Ranges = [''::/0''], PrefixListIds = [''pl-1''], UserIdGroupPairs = []\<rparr>,
      \<lparr>IpProtocol = ''icmp'', IpRanges = [],
       Ipv6Ranges = [], PrefixListIds = [], UserIdGroupPairs = [''sg-3'']\<rparr>,
      \<lparr>IpProtocol = ''-1'', IpRanges = [\<lparr>CidrIp = ''0.0.0.0/0''\<rparr>],
       Ipv6Ranges = [], PrefixListIds = [], UserIdGroupPairs = []\<rparr>]"

definition sample_group :: security_group where
  "sample_group =
     \<lparr>GroupId = ''sg-1'', IpPermissions = sample_permissions,
      IpPermissionsEgress = [sample_permissions ! 3]\<rparr>"

text \<open>A network ACL whose entries cover \<^verbatim>\<open>10.0.0.0/24\<close> only, in both directions.\<close>

definition sample_nacl :: network_acl where
  "sample_nacl =
     \<lparr>NetworkAclId = ''acl-1'',
      Entries = [\<lparr>RuleNumber = 100, CidrBlock = Some ''10.0.0.0/24'', Egress = False\<rparr>,
                 \<lparr>RuleNumber = 100, CidrBlock = Some ''10.0.0.0/24'', Egress = True\<rparr>]\<rparr>"

text \<open>
  Three virtual interfaces: one of gateway \<^verbatim>\<open>vgw-1\<close> that is down, one of it that is
  in order, and one of another gateway.
\<close>

definition sample_vifs :: "virtual_interface list" where
  "sample_vifs =
     [\<lparr>virtualInterfaceId = ''dxvif-1'', virtualInterfaceName = ''primary'',
       virtualInterfaceState = ''down'', virtualGatewayId = ''vgw-1'',
       bgpPeers = [\<lparr>bgpPeerId = ''dxpeer-1'', bgpPeerState = ''available'', bgpStatus = ''up''\<rparr>]\<rparr>,
      \<lparr>virtualInterfaceId = ''dxvif-2'', virtualInterfaceName = ''secondary'',
       virtualInterfaceState = ''available'', virtualGatewayId = ''vgw-1'',
       bgpPeers = [\<lparr>bgpPeerId = ''dxpeer-2'', bgpPeerState = ''available'', bgpStatus = ''up''\<rparr>,
                   \<lparr>bgpPeerId = ''dxpeer-3'', bgpPeerState = ''available'', bgpStatus = ''up''\<rparr>]\<rparr>,
      \<lparr>virtualInterfaceId = ''dxvif-3'', virtualInterfaceName = ''other'',
       virtualInterfaceState = ''available'', virtualGatewayId = ''vgw-2'',
       bgpPeers = []\<rparr>]"

text \<open>
  An account with one instance at \<^verbatim>\<open>10.0.1.5\<close> in \<^verbatim>\<open>subnet-1\<close> of \<^verbatim>\<open>vpc-1\<close>, the
  sample security group, route table and network ACL, an attached internet gateway, a
  virtual private gateway that is pending, and the sample virtual interfaces.
\<close>

definition sample_instance :: ec2_instance where
  "sample_instance =
     \<lparr>InstanceId = ''i-1'', instance_VpcId = ''vpc-1'', instance_SubnetId = ''subnet-1'',
      PrivateDnsName = ''ip-10-0-1-5.ec2.internal'', PrivateIpAddress = ''10.0.1.5'',
      SecurityGroups = [''sg-1''],
      Tags = [\<lparr>Key = Some ''Name'', Value = Some ''web''\<rparr>], Name = None\<rparr>"

definition sample_route_table :: route_table where
  "sample_route_table = \<lparr>RouteTableId = ''rtb-1'', Routes = sample_routes\<rparr>"

definition sample_vpn_gateway :: vpn_gateway where
  "sample_vpn_gateway =
     \<lparr>VpnGatewayId = ''vgw-1'', vgw_State = ''pending'', VpcAttachments = [''attached'']\<rparr>"

definition sample_aws :: aws where
  "sample_aws =
     \<lparr>describe_subnets = (\<lambda>ids. Inr []),
      describe_network_acls = (\<lambda>ids. Inr [sample_nacl]),
      describe_route_tables_of_subnet =
        (\<lambda>s. if s = ''subnet-1'' then Inr [sample_route_table] else Inr []),
      describe_route_tables_main = (\<lambda>v. Inr [sample_route_table]),
      describe_nat_gateways = (\<lambda>n. Inr [\<lparr>nat_State = ''available''\<rparr>]),
      describe_vpc_peering_connections = (\<lambda>c. Inl ClientError),
      describe_internet_gateways =
        (\<lambda>g. if g = ''igw-1''
              then Inr [\<lparr>InternetGatewayId = ''igw-1'', Attachments = [''available'']\<rparr>]
              else Inl ClientError),
      describe_vpn_gateways =
        (\<lambda>g. if g = ''vgw-1'' then Inr [sample_vpn_gateway] else Inl ClientError),
      describe_instances =
        (\<lambda>ip. if ip = ''10.0.1.5'' then Inr [\<lparr>Instances = [sample_instance]\<rparr>] else Inr []),
      describe_security_groups =
        (\<lambda>ids. if ids = [''sg-1''] then Inr [sample_group] else Inl ClientError),
      describe_db_instances = (\<lambda>n. Inr []),
      describe_replication_instances = (\<lambda>n. Inr []),
      describe_virtual_interfaces = Inr sample_vifs,
      gethostbyname = (\<lambda>h. Inl OSError)\<rparr>"

definition sample_args :: args where
  "sample_args =
     \<lparr>arg_verbose = False, arg_source_ec2_ip = ''10.0.1.5'', arg_dest_ip = ''192.168.1.1'',
      arg_source_rds = [], arg_source_dms = []\<rparr>"

text \<open>
  The same account with a security group that lets nothing through to
  \<^verbatim>\<open>192.168.1.1\<close> and a network ACL that is open in both directions.
\<close>

definition closed_group :: security_group where
  "closed_group =
     \<lparr>GroupId = ''sg-1'', IpPermissions = [sample_permissions ! 1],
      IpPermissionsEgress = []\<rparr>"

definition open_nacl :: network_acl where
  "open_nacl =
     \<lparr>NetworkAclId = ''acl-2'',
      Entries = [\<lparr>RuleNumber = 100, CidrBlock = Some ''0.0.0.0/0'', Egress = False\<rparr>,
                 \<lparr>RuleNumber = 100, CidrBlock = Some ''0.0.0.0/0'', Egress = True\<rparr>]\<rparr>"

definition closed_aws :: aws where
  "closed_aws =
     sample_aws
       \<lparr>describe_network_acls := (\<lambda>ids. Inr [open_nacl]),
        describe_security_groups :=
          (\<lambda>ids. if ids = [''sg-1''] then Inr [closed_group] else Inl ClientError)\<rparr>"

section \<open>Printing and raising: basic facts\<close>

lemma io_bind_return [simp]: "io_bind (io_return x) f = f x"
  by (simp add: io_bind_def io_return_def split: prod.splits)

lemma io_bind_raise [simp]: "io_bind (io_raise e) f = io_raise e"
  by (simp add: io_bind_def io_raise_def)

lemma io_bind_lift_Inr [simp]: "io_bind (io_lift (Inr x)) f = f x"
  by (simp add: io_bind_def io_lift_def split: prod.splits)

lemma io_bind_lift_Inl [simp]: "io_bind (io_lift (Inl e)) f = io_raise e"
  by (simp add: io_bind_def io_lift_def io_raise_def)

lemma io_bind_pair_Inr [simp]:
  "io_bind (o1, Inr x) f = (o1 @ fst (f x), snd (f x))"
  by (simp add: io_bind_def split: prod.splits)

lemma io_bind_pair_Inl [simp]: "io_bind (o1, Inl e) f = (o1, Inl e)"
  by (simp add: io_bind_def)

lemma snd_io_bind:
  "snd (io_bind m f) = (case snd m of Inl e \<Rightarrow> Inl e | Inr x \<Rightarrow> snd (f x))"
  by (simp add: io_bind_def split: prod.splits sum.splits)

lemma fst_io_bind:
  "fst (io_bind m f) = (case snd m of Inl e \<Rightarrow> fst m | Inr x \<Rightarrow> fst m @ fst (f x))"
  by (simp add: io_bind_def split: prod.splits sum.splits)

lemma snd_io_then:
  "snd (io_then m k) = (case snd m of Inl e \<Rightarrow> Inl e | Inr x \<Rightarrow> snd k)"
  by (simp add: io_then_def snd_io_bind)

lemma fst_io_then:
  "fst (io_then m k) = (case snd m of Inl e \<Rightarrow> fst m | Inr x \<Rightarrow> fst m @ fst k)"
  by (simp add: io_then_def fst_io_bind)

lemma io_bind_Inr_D:
  assumes "io_bind m f = (out, Inr y)"
  obtains o1 x o2 where "m = (o1, Inr x)" and "f x = (o2, Inr y)" and "out = o1 @ o2"
  using assms by (auto simp add: io_bind_def split: prod.splits sum.splits)

lemma io_then_Inr_D:
  assumes "io_then m k = (out, Inr y)"
  obtains o1 o2 where "m = (o1, Inr ())" and "k = (o2, Inr y)" and "out = o1 @ o2"
  using assms unfolding io_then_def by (elim io_bind_Inr_D) auto

lemma snd_io_return [simp]: "snd (io_return x) = Inr x"
  by (simp add: io_return_def)

lemma fst_io_return [simp]: "fst (io_return x) = []"
  by (simp add: io_return_def)

lemma snd_io_raise [simp]: "snd (io_raise e) = Inl e"
  by (simp add: io_raise_def)

lemma fst_io_raise [simp]: "fst (io_raise e) = []"
  by (simp add: io_raise_def)

lemma snd_print [simp]:
  "snd (print s) = Inr ()" "snd (pprint x) = Inr ()" "snd (printf s x) = Inr ()"
  by (simp_all add: print_def pprint_def printf_def)

lemma fst_print [simp]:
  "fst (print s) = [Print s]" "fst (pprint x) = [PPrint x]" "fst (printf s x) = [PrintF s x]"
  by (simp_all add: print_def pprint_def printf_def)

lemma snd_io_when [simp]: "snd m = Inr () \<Longrightarrow> snd (io_when b m) = Inr ()"
  by (simp add: io_when_def)

lemma fst_io_when [simp]: "fst (io_when b m) = (if b then fst m else [])"
  by (simp add: io_when_def)

lemma snd_io_block: "\<forall>m\<in>set ms. snd m = Inr () \<Longrightarrow> snd (io_block ms) = Inr ()"
  by (induction ms) (simp_all add: snd_io_then)

lemma fst_io_block:
  "\<forall>m\<in>set ms. snd m = Inr () \<Longrightarrow> fst (io_block ms) = concat (map fst ms)"
  by (induction ms) (simp_all add: fst_io_then)

lemma for_loop_snoc:
  "for_loop (xs @ [x]) s body = io_bind (for_loop xs s body) (\<lambda>s'. body x s')"
proof (induction xs arbitrary: s)
  case Nil
  show ?case by (simp add: io_bind_def io_return_def split: prod.splits sum.splits)
next
  case (Cons y ys)
  show ?case
    by (simp add: Cons.IH io_bind_def io_return_def split: prod.splits sum.splits)
qed

lemma for_loop_Cons:
  "for_loop (x # xs) s body = io_bind (body x s) (\<lambda>s'. for_loop xs s' body)"
  by (simp add: io_bind_def split: prod.splits sum.splits)

section \<open>Route resolution\<close>

lemma find_route_step_value:
  assumes "\<forall>s. DestinationCidrBlock r = Some s \<longrightarrow> (\<exists>c. ip_network P s = Inr c)"
  shows "snd (find_route_step P dest v r m) =
     Inr (if route_contains P dest r \<and>
             (case m of None \<Rightarrow> True | Some b \<Rightarrow> match_prefixlen b < route_prefixlen P r)
          then Some \<lparr>match_route = r, match_route_cidr = the (route_cidr P r),
                      match_prefixlen = route_prefixlen P r\<rparr>
          else m)"
proof (cases "DestinationCidrBlock r")
  case None
  then show ?thesis
    by (simp add: find_route_step_def snd_io_then route_contains_def route_cidr_def)
next
  case (Some s)
  with assms obtain c where c: "ip_network P s = Inr c" by blast
  show ?thesis
    using Some c
    by (cases m)
       (simp_all add: find_route_step_def snd_io_then snd_io_block route_contains_def
          route_cidr_def route_prefixlen_def Let_def)
qed

lemma lpm_inv_snoc:
  assumes "lpm_inv P dest routes m"
  shows "lpm_inv P dest (routes @ [r])
     (if route_contains P dest r \<and>
             (case m of None \<Rightarrow> True | Some b \<Rightarrow> match_prefixlen b < route_prefixlen P r)
          then Some \<lparr>match_route = r, match_route_cidr = c,
                      match_prefixlen = route_prefixlen P r\<rparr>
          else m)"
proof (cases m)
  case None
  with assms have no: "\<forall>x\<in>set routes. \<not> route_contains P dest x"
    by (simp add: lpm_inv_def)
  show ?thesis
  proof (cases "route_contains P dest r")
    case True
    have "\<forall>j<length routes. \<not> route_contains P dest (routes ! j)"
      using no by simp
    then show ?thesis
      using None True
      by (auto simp add: lpm_inv_def nth_append less_Suc_eq intro!: exI [of _ "length routes"])
  next
    case False
    then show ?thesis using None no by (simp add: lpm_inv_def)
  qed
next
  case (Some b)
  with assms obtain i where i: "i < length routes" "routes ! i = match_route b"
      "route_contains P dest (match_route b)"
      "\<forall>j<length routes. route_contains P dest (routes ! j) \<longrightarrow>
          route_prefixlen P (routes ! j) \<le> route_prefixlen P (match_route b)"
      "\<forall>j<i. route_contains P dest (routes ! j) \<longrightarrow>
          route_prefixlen P (routes ! j) < route_prefixlen P (match_route b)"
    and pl: "match_prefixlen b = route_prefixlen P (match_route b)"
    by (auto simp add: lpm_inv_def)
  show ?thesis
  proof (cases "route_contains P dest r \<and> match_prefixlen b < route_prefixlen P r")
    case True
    have "\<forall>j<length routes. route_contains P dest (routes ! j) \<longrightarrow>
          route_prefixlen P (routes ! j) < route_prefixlen P r"
      using i(4) True pl by fastforce
    then show ?thesis
      using Some True
      by (auto simp add: lpm_inv_def nth_append less_Suc_eq intro!: exI [of _ "length routes"])
  next
    case False
    have "\<forall>j<Suc (length routes). route_contains P dest ((routes @ [r]) ! j) \<longrightarrow>
          route_prefixlen P ((routes @ [r]) ! j) \<le> route_prefixlen P (match_route b)"
      using i(4) False pl by (auto simp add: nth_append less_Suc_eq)
    moreover have "\<forall>j<i. route_contains P dest ((routes @ [r]) ! j) \<longrightarrow>
          route_prefixlen P ((routes @ [r]) ! j) < route_prefixlen P (match_route b)"
      using i(1) i(5) by (auto simp add: nth_append)
    moreover have "(routes @ [r]) ! i = match_route b"
      using i(1) i(2) by (simp add: nth_append)
    ultimately show ?thesis
      using Some False i(1) i(3) pl
      by (auto simp add: lpm_inv_def intro!: exI [of _ i])
  qed
qed

lemma find_route_loop_inv:
  assumes "\<forall>r\<in>set routes. \<forall>s. DestinationCidrBlock r = Some s \<longrightarrow> (\<exists>c. ip_network P s = Inr c)"
  shows "\<exists>m. snd (for_loop routes None (find_route_step P dest v)) = Inr m \<and>
              lpm_inv P dest routes m"
  using assms
proof (induction routes rule: rev_induct)
  case Nil
  show ?case by (simp add: lpm_inv_def)
next
  case (snoc r routes)
  then obtain m where m: "snd (for_loop routes None (find_route_step P dest v)) = Inr m"
      "lpm_inv P dest routes m"
    by auto
  have r: "\<forall>s. DestinationCidrBlock r = Some s \<longrightarrow> (\<exists>c. ip_network P s = Inr c)"
    using snoc.prems by simp
  show ?case
    using m(1) lpm_inv_snoc [OF m(2)]
    by (simp add: for_loop_snoc snd_io_bind find_route_step_value [OF r])
qed

lemma find_route_matches_resolves:
  assumes "ip_address P dest_ip_str = Inr dest"
    and "\<forall>r\<in>set routes. \<forall>s. DestinationCidrBlock r = Some s \<longrightarrow> (\<exists>c. ip_network P s = Inr c)"
  shows "\<exists>m. snd (find_route_matches P routes dest_ip_str verbose) = Inr (map_option match_route m)
              \<and> lpm_inv P dest routes m"
proof -
  from find_route_loop_inv [OF assms(2)]
  obtain m where "snd (for_loop routes None (find_route_step P dest verbose)) = Inr m"
    and "lpm_inv P dest routes m"
    by blast
  then show ?thesis
    using assms(1) by (auto simp add: find_route_matches_def snd_io_bind)
qed

text \<open>
  C1. Route resolution is longest-prefix-match. When the destination and the CIDR blocks
  of the routes are read by the library, \<^verbatim>\<open>find_route_matches\<close> returns; it returns
  \<^verbatim>\<open>None\<close> exactly when no route has a destination CIDR block that contains the
  destination (a route without the key never counts); and a route it returns is in the
  list, contains the destination, has the greatest prefix length among the routes that
  contain the destination, and every such route before it in the list has a strictly
  smaller prefix length, so that among equals the first in input order is returned.
\<close>

theorem find_route_matches_longest_prefix:
  assumes "ip_address P dest_ip_str = Inr dest"
    and "\<forall>r\<in>set routes. \<forall>s. DestinationCidrBlock r = Some s \<longrightarrow> (\<exists>c. ip_network P s = Inr c)"
  shows "\<exists>res. snd (find_route_matches P routes dest_ip_str verbose) = Inr res \<and>
     (res = None \<longleftrightarrow> (\<forall>r\<in>set routes. \<not> route_contains P dest r)) \<and>
     (\<forall>r\<in>set routes. DestinationCidrBlock r = None \<longrightarrow> \<not> route_contains P dest r) \<and>
     (\<forall>r. res = Some r \<longrightarrow>
        (\<exists>i<length routes. routes ! i = r \<and> route_contains P dest r \<and>
           (\<forall>j<length routes. route_contains P dest (routes ! j) \<longrightarrow>
              route_prefixlen P (routes ! j) \<le> route_prefixlen P r) \<and>
           (\<forall>j<i. route_contains P dest (routes ! j) \<longrightarrow>
              route_prefixlen P (routes ! j) < route_prefixlen P r)))"
proof -
  from find_route_matches_resolves [OF assms]
  obtain m where m: "snd (find_route_matches P routes dest_ip_str verbose) =
       Inr (map_option match_route m)" "lpm_inv P dest routes m"
    by blast
  have "\<forall>r\<in>set routes. DestinationCidrBlock r = None \<longrightarrow> \<not> route_contains P dest r"
    by (simp add: route_contains_def route_cidr_def)
  moreover have "map_option match_route m = None \<longleftrightarrow> (\<forall>r\<in>set routes. \<not> route_contains P dest r)"
  proof (cases m)
    case None
    with m(2) show ?thesis by (simp add: lpm_inv_def)
  next
    case (Some b)
    with m(2) obtain i where "i < length routes" "routes ! i = match_route b"
        "route_contains P dest (match_route b)"
      by (auto simp add: lpm_inv_def)
    then have "match_route b \<in> set routes \<and> route_contains P dest (match_route b)"
      using nth_mem [of i routes] by simp
    with Some show ?thesis by auto
  qed
  moreover have "\<forall>r. map_option match_route m = Some r \<longrightarrow>
        (\<exists>i<length routes. routes ! i = r \<and> route_contains P dest r \<and>
           (\<forall>j<length routes. route_contains P dest (routes ! j) \<longrightarrow>
              route_prefixlen P (routes ! j) \<le> route_prefixlen P r) \<and>
           (\<forall>j<i. route_contains P dest (routes ! j) \<longrightarrow>
              route_prefixlen P (routes ! j) < route_prefixlen P r))"
    using m(2) by (cases m) (auto simp add: lpm_inv_def)
  ultimately show ?thesis
    using m(1) by blast
qed

subsection \<open>The reader on the sample texts\<close>

lemmas reader_defs =
  ipv4_reader_def dotted_cidr_def dotted_quad_def parse_octet_def decimal_def digit_of_def

lemma netmask_values:
  "(ip_int_from_prefix 0 :: 32 word) = 0"
  "(ip_int_from_prefix 8 :: 32 word) = 0xFF000000"
  "(ip_int_from_prefix 16 :: 32 word) = 0xFFFF0000"
  "(ip_int_from_prefix 24 :: 32 word) = 0xFFFFFF00"
  by (simp_all add: ip_int_from_prefix_def mask_eq_exp_minus_1)

lemma reader_addresses:
  "ip_address ipv4_reader ''10.1.2.3'' = Inr (IPv4Address 0x0A010203)"
  "ip_address ipv4_reader ''192.168.1.1'' = Inr (IPv4Address 0xC0A80101)"
  "ip_address ipv4_reader ''10.2.0.1'' = Inr (IPv4Address 0x0A020001)"
  by (simp_all add: ip_address_def reader_defs)

lemma reader_networks:
  "ip_network ipv4_reader ''0.0.0.0/0'' = Inr (IPv4Network 0 0)"
  "ip_network ipv4_reader ''10.0.0.0/8'' = Inr (IPv4Network 0x0A000000 8)"
  "ip_network ipv4_reader ''10.1.0.0/16'' = Inr (IPv4Network 0x0A010000 16)"
  "ip_network ipv4_reader ''10.0.0.0/24'' = Inr (IPv4Network 0x0A000000 24)"
  by (simp_all add: ip_network_def reader_defs netmask_values)

lemma sample_routes_contain:
  "route_contains ipv4_reader (IPv4Address 0x0A010203) (sample_routes ! 0)"
  "\<not> route_contains ipv4_reader (IPv4Address 0x0A010203) (sample_routes ! 1)"
  "route_contains ipv4_reader (IPv4Address 0x0A010203) (sample_routes ! 2)"
  "route_contains ipv4_reader (IPv4Address 0x0A010203) (sample_routes ! 3)"
  "route_contains ipv4_reader (IPv4Address 0x0A010203) (sample_routes ! 4)"
  by (simp_all add: sample_routes_def route_contains_def route_cidr_def reader_networks
        netmask_values)

lemma sample_routes_prefixlen:
  "route_prefixlen ipv4_reader (sample_routes ! 0) = 8"
  "route_prefixlen ipv4_reader (sample_routes ! 2) = 16"
  "route_prefixlen ipv4_reader (sample_routes ! 3) = 16"
  "route_prefixlen ipv4_reader (sample_routes ! 4) = 0"
  by (simp_all add: sample_routes_def route_prefixlen_def route_cidr_def reader_networks)

theorem find_route_matches_longest_prefix_witness:
  "ip_address ipv4_reader ''10.1.2.3'' = Inr (IPv4Address 0x0A010203) \<and>
   snd (find_route_matches ipv4_reader sample_routes ''10.1.2.3'' False) =
     Inr (Some (sample_routes ! 2))"
proof -
  let ?dest = "IPv4Address 0x0A010203"
  have h1: "ip_address ipv4_reader ''10.1.2.3'' = Inr ?dest"
    by (rule reader_addresses)
  have h2: "\<forall>r\<in>set sample_routes. \<forall>s. DestinationCidrBlock r = Some s \<longrightarrow>
              (\<exists>c. ip_network ipv4_reader s = Inr c)"
    by (simp add: sample_routes_def reader_networks)
  from find_route_matches_longest_prefix [OF h1 h2, of False]
  obtain res where res: "snd (find_route_matches ipv4_reader sample_routes ''10.1.2.3'' False) = Inr res"
    and none: "res = None \<longleftrightarrow> (\<forall>r\<in>set sample_routes. \<not> route_contains ipv4_reader ?dest r)"
    and some: "\<forall>r. res = Some r \<longrightarrow>
        (\<exists>i<length sample_routes. sample_routes ! i = r \<and> route_contains ipv4_reader ?dest r \<and>
           (\<forall>j<length sample_routes. route_contains ipv4_reader ?dest (sample_routes ! j) \<longrightarrow>
              route_prefixlen ipv4_reader (sample_routes ! j) \<le> route_prefixlen ipv4_reader r) \<and>
           (\<forall>j<i. route_contains ipv4_reader ?dest (sample_routes ! j) \<longrightarrow>
              route_prefixlen ipv4_reader (sample_routes ! j) < route_prefixlen ipv4_reader r))"
    by blast
  have len: "length sample_routes = 5"
    by (simp add: sample_routes_def)
  have "sample_routes ! 0 \<in> set sample_routes"
    using len by simp
  with none sample_routes_contain(1) have "res \<noteq> None"
    by blast
  then obtain r where r: "res = Some r" by blast
  with some obtain i where i: "i < 5" "sample_routes ! i = r"
      "\<forall>j<5. route_contains ipv4_reader ?dest (sample_routes ! j) \<longrightarrow>
              route_prefixlen ipv4_reader (sample_routes ! j) \<le> route_prefixlen ipv4_reader r"
      "\<forall>j<i. route_contains ipv4_reader ?dest (sample_routes ! j) \<longrightarrow>
              route_prefixlen ipv4_reader (sample_routes ! j) < route_prefixlen ipv4_reader r"
      "route_contains ipv4_reader ?dest r"
    using len by auto
  have "(2::nat) < 5" by simp
  with i(3) have "route_contains ipv4_reader ?dest (sample_routes ! 2) \<longrightarrow>
      route_prefixlen ipv4_reader (sample_routes ! 2) \<le> route_prefixlen ipv4_reader r"
    by blast
  with sample_routes_contain(3) sample_routes_prefixlen(2)
  have ge: "16 \<le> route_prefixlen ipv4_reader r"
    by simp
  from i(1) consider "i = 0" | "i = 1" | "i = 2" | "i = 3" | "i = 4"
    by linarith
  then have "i = 2"
  proof cases
    case 1
    with i(2) ge sample_routes_prefixlen(1) show ?thesis by simp
  next
    case 2
    with i(2) i(5) sample_routes_contain(2) show ?thesis by simp
  next
    case 3
    then show ?thesis .
  next
    case 4
    with i(4) have "route_contains ipv4_reader ?dest (sample_routes ! 2) \<longrightarrow>
        route_prefixlen ipv4_reader (sample_routes ! 2) < route_prefixlen ipv4_reader r"
      by simp
    with 4 i(2) sample_routes_contain(3) sample_routes_prefixlen show ?thesis by simp
  next
    case 5
    with i(2) ge sample_routes_prefixlen(4) show ?thesis by simp
  qed
  with i(2) r res h1 show ?thesis by simp
qed

section \<open>Containment\<close>

lemma ip_int_from_prefix_eq:
  "(ip_int_from_prefix p :: 'a::len word) = NOT (mask (LENGTH('a) - p))"
  unfolding ip_int_from_prefix_def
  by (rule bit_word_eqI) (auto simp add: bit_simps)

lemma and_netmask:
  "(a :: 'a::len word) AND ip_int_from_prefix p = masked_by_prefix p a"
  unfolding ip_int_from_prefix_eq masked_by_prefix_def
  by (rule bit_word_eqI) (auto simp add: bit_simps)

lemma ip_network_IPv4_D:
  assumes "ip_network P s = Inr (IPv4Network n p)"
  shows "p \<le> 32" and "masked_by_prefix p n = n"
  using assms
  by (auto simp add: ip_network_def and_netmask
        split: option.splits prod.splits ip_address.splits if_splits)

lemma contains_masked:
  assumes "ip_network P s = Inr (IPv4Network n p)"
  shows "contains (IPv4Network n p) (IPv4Address a) \<longleftrightarrow>
         masked_by_prefix p a = masked_by_prefix p n"
  using ip_network_IPv4_D(2) [OF assms] by (simp add: and_netmask)

lemma contains_match_all: "contains (IPv4Network 0 0) (IPv4Address a)"
  by (simp add: ip_int_from_prefix_def)

section \<open>Network ACL entries\<close>

lemma find_nacl_step_value:
  assumes "CidrBlock e = Some s" and "ip_network P s = Inr c"
  shows "find_nacl_step P dest e (inb, outb) =
     ([], Inr (inb @ (if entry_contains P dest e \<and> \<not> Egress e then [e] else []),
               outb @ (if entry_contains P dest e \<and> Egress e then [e] else [])))"
  using assms by (simp add: find_nacl_step_def entry_contains_def io_return_def)

lemma find_nacl_loop_value:
  assumes "\<forall>e\<in>set es. \<exists>s c. CidrBlock e = Some s \<and> ip_network P s = Inr c"
  shows "for_loop es (inb, outb) (find_nacl_step P dest) =
     ([], Inr (inb @ filter (\<lambda>e. entry_contains P dest e \<and> \<not> Egress e) es,
               outb @ filter (\<lambda>e. entry_contains P dest e \<and> Egress e) es))"
  using assms
proof (induction es arbitrary: inb outb)
  case Nil
  show ?case by (simp add: io_return_def)
next
  case (Cons e es)
  from Cons.prems obtain s c where e: "CidrBlock e = Some s" "ip_network P s = Inr c"
    by auto
  have rest: "\<forall>e\<in>set es. \<exists>s c. CidrBlock e = Some s \<and> ip_network P s = Inr c"
    using Cons.prems by simp
  show ?case
    by (simp add: find_nacl_step_value [OF e] Cons.IH [OF rest])
qed

lemma find_nacl_rule_matches_value:
  assumes "ip_address P dest_ip_str = Inr dest"
    and "\<forall>e\<in>set es. \<exists>s c. CidrBlock e = Some s \<and> ip_network P s = Inr c"
  shows "find_nacl_rule_matches P es dest_ip_str =
     ([], Inr (filter (\<lambda>e. entry_contains P dest e \<and> \<not> Egress e) es,
               filter (\<lambda>e. entry_contains P dest e \<and> Egress e) es))"
  using assms(1) find_nacl_loop_value [OF assms(2), of "[]" "[]" dest]
  by (simp add: find_nacl_rule_matches_def)

section \<open>Security-group permissions\<close>

lemma ip_ranges_loop_value:
  assumes "\<forall>r\<in>set rs. CidrIp r = ALL_IPV4 \<or> (\<exists>c. ip_network P (CidrIp r) = Inr c)"
  shows "ip_ranges_loop P dest p rs =
         Inr (if \<exists>r\<in>set rs. range_matches P dest r then Some p else None)"
  using assms
proof (induction rs)
  case Nil
  show ?case by simp
next
  case (Cons r rs)
  then have IH: "ip_ranges_loop P dest p rs =
         Inr (if \<exists>r\<in>set rs. range_matches P dest r then Some p else None)"
    by simp
  show ?case
  proof (cases "CidrIp r = ALL_IPV4")
    case True
    then show ?thesis by (simp add: range_matches_def)
  next
    case False
    with Cons.prems obtain c where "ip_network P (CidrIp r) = Inr c" by auto
    with False IH show ?thesis by (simp add: range_matches_def)
  qed
qed

lemma find_security_group_step_value:
  assumes "ranges_readable P p"
  shows "find_security_group_step P dest p ms =
     (shape_warnings p, Inr (if permission_matches P dest p then ms @ [p] else ms))"
proof -
  have loop: "ip_ranges_loop P dest p (IpRanges p) =
         Inr (if \<exists>r\<in>set (IpRanges p). range_matches P dest r then Some p else None)"
    using assms unfolding ranges_readable_def by (rule ip_ranges_loop_value)
  show ?thesis
    by (cases "IpRanges p = []")
       (auto simp add: find_security_group_step_def loop shape_warnings_def
          permission_matches_def io_then_def io_when_def io_return_def print_def)
qed

lemma find_security_group_loop_value:
  assumes "\<forall>p\<in>set ps. ranges_readable P p"
  shows "for_loop ps ms (find_security_group_step P dest) =
     (concat (map shape_warnings ps), Inr (ms @ filter (permission_matches P dest) ps))"
  using assms
proof (induction ps arbitrary: ms)
  case Nil
  show ?case by (simp add: io_return_def)
next
  case (Cons p ps)
  have p: "ranges_readable P p" and rest: "\<forall>p\<in>set ps. ranges_readable P p"
    using Cons.prems by simp_all
  show ?case
    by (simp add: find_security_group_step_value [OF p] Cons.IH [OF rest])
qed

lemma find_security_group_matches_value:
  assumes "ip_address P dest_ip_str = Inr dest"
    and "\<forall>p\<in>set ps. ranges_readable P p"
  shows "find_security_group_matches P ps dest_ip_str =
     (concat (map shape_warnings ps), Inr (filter (permission_matches P dest) ps))"
  using assms(1) find_security_group_loop_value [OF assms(2), of "[]" dest]
  by (simp add: find_security_group_matches_def)

lemma ip_ranges_loop_Some:
  "ip_ranges_loop P dest p rs = Inr (Some q) \<Longrightarrow> q = p"
  by (induction rs) (auto split: if_splits sum.splits)

lemma find_security_group_step_Inr:
  assumes "find_security_group_step P dest p ms = (out, Inr ms')"
  shows "ms' = ms \<or> ms' = ms @ [p]"
  using assms unfolding find_security_group_step_def
  by (elim io_bind_Inr_D io_then_Inr_D)
     (auto simp add: io_return_def io_lift_def split: option.splits if_splits
        dest: ip_ranges_loop_Some)

lemma find_security_group_loop_subseq:
  assumes "for_loop ps ms (find_security_group_step P dest) = (out, Inr ms')"
  shows "\<exists>xs. ms' = ms @ xs \<and> subseq xs ps"
  using assms
proof (induction ps arbitrary: ms out)
  case Nil
  then show ?case by (simp add: io_return_def)
next
  case (Cons p ps)
  from Cons.prems obtain o1 ms1 o2 where
    step: "find_security_group_step P dest p ms = (o1, Inr ms1)"
    and rest: "for_loop ps ms1 (find_security_group_step P dest) = (o2, Inr ms')"
    unfolding for_loop_Cons by (elim io_bind_Inr_D)
  from Cons.IH [OF rest] obtain xs where xs: "ms' = ms1 @ xs" "subseq xs ps"
    by blast
  from find_security_group_step_Inr [OF step] show ?case
  proof
    assume "ms1 = ms"
    with xs show ?thesis by auto
  next
    assume "ms1 = ms @ [p]"
    with xs have "ms' = ms @ (p # xs)" "subseq (p # xs) (p # ps)"
      by simp_all
    then show ?thesis by blast
  qed
qed

section \<open>The reports on the network ACL and on the security groups\<close>

lemma not_problem_simps [simp]:
  "\<not> is_problem (PPrint x)"
  "\<not> is_problem (PrintF s x)"
  "\<not> is_problem (Print separator)"
  by (simp_all add: is_problem_def separator_def)

lemma report_nacl_value:
  assumes "find_nacl_rule_matches P (Entries source_nacl) dest_ip_address =
             (o1, Inr (inbound_rules, outbound_rules))"
  shows "report_nacl P source_nacl source_ip_address dest_ip_address verbose =
     ([Print separator, Print ''Network ACL analysis'',
       Print (''NACL entries applied on source IP '' @ source_ip_address @
              '' relevant to destination IP '' @ dest_ip_address)] @ o1 @
      [Print ''Inbound Rules:'', PPrint (PyNaclEntries inbound_rules)] @
      (if inbound_rules = []
       then [Print ''NETWORK CONNECTIVITY ERROR. No relevant inbound rules for NACL.'']
       else []) @
      [Print ''Outbound Rules:'', PPrint (PyNaclEntries outbound_rules)] @
      (if outbound_rules = []
       then [Print ''NETWORK CONNECTIVITY ERROR. No relevant outbound rules for NACL.'']
       else []),
      Inr (inbound_rules = [] \<or> outbound_rules = []))"
  using assms
  by (simp add: report_nacl_def io_then_def print_def pprint_def io_return_def)

lemma get_security_groups_loop_value:
  assumes "ip_address P dest_ip_str = Inr dest"
    and "\<forall>g\<in>set gs. \<forall>p\<in>set (IpPermissions g @ IpPermissionsEgress g). ranges_readable P p"
  shows "for_loop gs (ing, eg) (get_security_groups_step P dest_ip_str) =
     (concat (map (\<lambda>g. concat (map shape_warnings (IpPermissions g @ IpPermissionsEgress g))) gs),
      Inr (ing @ concat (map (\<lambda>g. filter (permission_matches P dest) (IpPermissions g)) gs),
           eg @ concat (map (\<lambda>g. filter (permission_matches P dest) (IpPermissionsEgress g)) gs)))"
  using assms(2)
proof (induction gs arbitrary: ing eg)
  case Nil
  show ?case by (simp add: io_return_def)
next
  case (Cons g gs)
  have a: "\<forall>p\<in>set (IpPermissions g). ranges_readable P p"
    and b: "\<forall>p\<in>set (IpPermissionsEgress g). ranges_readable P p"
    and rest: "\<forall>g\<in>set gs. \<forall>p\<in>set (IpPermissions g @ IpPermissionsEgress g). ranges_readable P p"
    using Cons.prems by simp_all
  have "get_security_groups_step P dest_ip_str g (ing, eg) =
     (concat (map shape_warnings (IpPermissions g @ IpPermissionsEgress g)),
      Inr (ing @ filter (permission_matches P dest) (IpPermissions g),
           eg @ filter (permission_matches P dest) (IpPermissionsEgress g)))"
    by (simp add: get_security_groups_step_def
          find_security_group_matches_value [OF assms(1) a]
          find_security_group_matches_value [OF assms(1) b] io_return_def)
  then show ?case
    by (simp add: Cons.IH [OF rest])
qed

lemma get_security_groups_value:
  assumes "ip_address P dest_ip_str = Inr dest"
    and "describe_security_groups client ids = Inr gs"
    and "length gs = length ids"
    and "\<forall>g\<in>set gs. \<forall>p\<in>set (IpPermissions g @ IpPermissionsEgress g). ranges_readable P p"
  shows "get_security_groups client P ids dest_ip_str verbose =
     ((if verbose then [PPrint (PySecurityGroups gs)] else []) @
      concat (map (\<lambda>g. concat (map shape_warnings (IpPermissions g @ IpPermissionsEgress g))) gs),
      Inr (concat (map (\<lambda>g. filter (permission_matches P dest) (IpPermissions g)) gs),
           concat (map (\<lambda>g. filter (permission_matches P dest) (IpPermissionsEgress g)) gs)))"
  using assms(2,3) get_security_groups_loop_value [OF assms(1) assms(4), of "[]" "[]"]
  by (simp add: get_security_groups_def io_then_def io_assert_def io_when_def pprint_def
        io_return_def)

lemma report_security_groups_value:
  assumes "get_security_groups client P ids dest_ip_address verbose = (o1, Inr (ing, eg))"
  shows "report_security_groups client P ids source_ip_address dest_ip_address verbose =
     (o1 @
      [Print separator,
       Print (''Analysis of Security Group ingress/egress applied on source IP '' @
              source_ip_address @ '' to/from destination IP '' @ dest_ip_address),
       Print ''Potential Ingress Matches'', PPrint (PyPermissions ing)] @
      (if ing = []
       then [Print (''NETWORK CONNECTIVITY ERROR. No ingress is allowed by source Security Groups for '' @ dest_ip_address),
             Print (CHR 0x09 # ''Perhaps access to this AWS resource is indirect, through a loadbalancer? '')]
       else []) @
      [Print ''Potential Egress Matches:'', PPrint (PyPermissions eg)] @
      (if eg = []
       then [Print (''NETWORK CONNECTIVITY ERROR. No egress is allowed by source Security Groups for '' @ dest_ip_address),
             Print (CHR 0x09 # ''Perhaps access to this AWS resource is indirect, through a loadbalancer? '')]
       else []),
      Inr (ing = [] \<or> eg = []))"
  using assms
  by (simp add: report_security_groups_def io_then_def print_def pprint_def io_return_def)

lemma shape_warnings_no_problem: "\<forall>l\<in>set (shape_warnings p). \<not> is_problem l"
  by (auto simp add: shape_warnings_def is_problem_def)

lemma shape_warnings_are_warnings: "\<forall>l\<in>set (shape_warnings p). is_warning l"
  by (auto simp add: shape_warnings_def is_warning_def)

lemma filter_problem_shape_warnings [simp]:
  "filter is_problem (concat (map shape_warnings ps)) = []"
  using shape_warnings_no_problem by (induction ps) (simp_all add: filter_empty_conv)

section \<open>The claims on matching\<close>

lemma sample_ranges_readable: "\<forall>p\<in>set sample_permissions. ranges_readable ipv4_reader p"
  by (simp add: sample_permissions_def ranges_readable_def reader_networks ALL_IPV4_def)

lemma sample_permission_matches:
  "permission_matches ipv4_reader (IPv4Address 0x0A010203) (sample_permissions ! 0)"
  "\<not> permission_matches ipv4_reader (IPv4Address 0x0A010203) (sample_permissions ! 1)"
  "permission_matches ipv4_reader (IPv4Address 0x0A010203) (sample_permissions ! 2)"
  "permission_matches ipv4_reader (IPv4Address 0x0A010203) (sample_permissions ! 3)"
  by (simp_all add: sample_permissions_def permission_matches_def range_matches_def
        reader_networks netmask_values ALL_IPV4_def)

lemma sample_permissions_filter:
  "filter (permission_matches ipv4_reader (IPv4Address 0x0A010203)) sample_permissions =
     [sample_permissions ! 0, sample_permissions ! 2, sample_permissions ! 3]"
proof -
  have "sample_permissions =
      [sample_permissions ! 0, sample_permissions ! 1, sample_permissions ! 2,
       sample_permissions ! 3]"
    by (simp add: sample_permissions_def)
  then have "filter (permission_matches ipv4_reader (IPv4Address 0x0A010203)) sample_permissions =
      filter (permission_matches ipv4_reader (IPv4Address 0x0A010203))
        [sample_permissions ! 0, sample_permissions ! 1, sample_permissions ! 2,
         sample_permissions ! 3]"
    by simp
  then show ?thesis
    using sample_permission_matches by simp
qed

text \<open>
  C10. The matches that \<^verbatim>\<open>find_security_group_matches\<close> returns are a subsequence of
  the permissions it is given, in their order, each position of the input taken at most
  once, however many of its ranges contain the destination and whether or not it also
  carries a peer group; and it does return when the destination and the ranges are read
  by the library.
\<close>

theorem find_security_group_matches_subseq:
  "(\<forall>out ms. find_security_group_matches P permissions dest_ip_str = (out, Inr ms) \<longrightarrow>
      subseq ms permissions \<and> length ms \<le> length permissions) \<and>
   (\<forall>dest. ip_address P dest_ip_str = Inr dest \<and> (\<forall>p\<in>set permissions. ranges_readable P p) \<longrightarrow>
      (\<exists>out ms. find_security_group_matches P permissions dest_ip_str = (out, Inr ms)))"
proof (intro conjI allI impI)
  fix out ms
  assume run: "find_security_group_matches P permissions dest_ip_str = (out, Inr ms)"
  then obtain dest o2 where
    "for_loop permissions [] (find_security_group_step P dest) = (o2, Inr ms)"
    unfolding find_security_group_matches_def
    by (elim io_bind_Inr_D) (auto simp add: io_lift_def)
  from find_security_group_loop_subseq [OF this]
  show "subseq ms permissions" by simp
  then show "length ms \<le> length permissions"
    by (rule list_emb_length)
next
  fix dest
  assume "ip_address P dest_ip_str = Inr dest \<and> (\<forall>p\<in>set permissions. ranges_readable P p)"
  then show "\<exists>out ms. find_security_group_matches P permissions dest_ip_str = (out, Inr ms)"
    using find_security_group_matches_value [of P dest_ip_str dest permissions] by blast
qed

theorem find_security_group_matches_subseq_witness:
  "snd (find_security_group_matches ipv4_reader sample_permissions ''10.1.2.3'') =
     Inr [sample_permissions ! 0, sample_permissions ! 2, sample_permissions ! 3] \<and>
   subseq [sample_permissions ! 0, sample_permissions ! 2, sample_permissions ! 3]
     sample_permissions"
proof -
  have run: "find_security_group_matches ipv4_reader sample_permissions ''10.1.2.3'' =
      (concat (map shape_warnings sample_permissions),
       Inr [sample_permissions ! 0, sample_permissions ! 2, sample_permissions ! 3])"
    using find_security_group_matches_value [OF reader_addresses(1) sample_ranges_readable]
    by (simp add: sample_permissions_filter)
  with find_security_group_matches_subseq [of ipv4_reader sample_permissions "''10.1.2.3''"]
  show ?thesis by simp
qed

text \<open>
  C4. Security-group matching. When the destination and the ranges are read by the
  library, the permissions returned are exactly those that match: one of the ranges is
  the match-all text or denotes a network that contains the destination, or the
  permission carries a peer-group reference (which matches whatever the destination and
  the ranges are). And in the report over the groups of the source, a direction with no
  match over all permissions of all groups is a problem of its own: the result is a
  problem exactly when the ingress or the egress matches are empty, and the problem
  lines printed are the ingress line when there is no ingress match and the egress line
  when there is no egress match.
\<close>

theorem security_group_matching:
  assumes "ip_address P dest_ip_str = Inr dest"
  shows
   "(\<forall>ps. (\<forall>p\<in>set ps. ranges_readable P p) \<longrightarrow>
       snd (find_security_group_matches P ps dest_ip_str) =
         Inr (filter (\<lambda>p. (\<exists>r\<in>set (IpRanges p). CidrIp r = ALL_IPV4 \<or>
                               (\<exists>c. ip_network P (CidrIp r) = Inr c \<and> contains c dest)) \<or>
                            UserIdGroupPairs p \<noteq> []) ps)) \<and>
    (\<forall>gs. describe_security_groups client ids = Inr gs \<and> length gs = length ids \<and>
        (\<forall>g\<in>set gs. \<forall>p\<in>set (IpPermissions g @ IpPermissionsEgress g). ranges_readable P p) \<longrightarrow>
        (let ingress = concat (map (\<lambda>g. filter (permission_matches P dest) (IpPermissions g)) gs);
             egress = concat (map (\<lambda>g. filter (permission_matches P dest) (IpPermissionsEgress g)) gs);
             rep = report_security_groups client P ids source_ip_address dest_ip_str verbose
         in snd rep = Inr (ingress = [] \<or> egress = []) \<and>
            filter is_problem (fst rep) =
              (if ingress = []
               then [Print (''NETWORK CONNECTIVITY ERROR. No ingress is allowed by source Security Groups for '' @ dest_ip_str)]
               else []) @
              (if egress = []
               then [Print (''NETWORK CONNECTIVITY ERROR. No egress is allowed by source Security Groups for '' @ dest_ip_str)]
               else [])))"
proof (intro conjI allI impI)
  fix ps
  assume ok: "\<forall>p\<in>set ps. ranges_readable P p"
  have "range_matches P dest r \<longleftrightarrow>
      CidrIp r = ALL_IPV4 \<or> (\<exists>c. ip_network P (CidrIp r) = Inr c \<and> contains c dest)" for r
    by (cases "ip_network P (CidrIp r)") (simp_all add: range_matches_def)
  then have "permission_matches P dest =
      (\<lambda>p. (\<exists>r\<in>set (IpRanges p). CidrIp r = ALL_IPV4 \<or>
                 (\<exists>c. ip_network P (CidrIp r) = Inr c \<and> contains c dest)) \<or>
            UserIdGroupPairs p \<noteq> [])"
    by (intro ext) (simp add: permission_matches_def)
  with find_security_group_matches_value [OF assms ok]
  show "snd (find_security_group_matches P ps dest_ip_str) =
         Inr (filter (\<lambda>p. (\<exists>r\<in>set (IpRanges p). CidrIp r = ALL_IPV4 \<or>
                               (\<exists>c. ip_network P (CidrIp r) = Inr c \<and> contains c dest)) \<or>
                            UserIdGroupPairs p \<noteq> []) ps)"
    by simp
next
  fix gs
  assume h: "describe_security_groups client ids = Inr gs \<and> length gs = length ids \<and>
        (\<forall>g\<in>set gs. \<forall>p\<in>set (IpPermissions g @ IpPermissionsEgress g). ranges_readable P p)"
  then have a: "describe_security_groups client ids = Inr gs" and b: "length gs = length ids"
    and c: "\<forall>g\<in>set gs. \<forall>p\<in>set (IpPermissions g @ IpPermissionsEgress g). ranges_readable P p"
    by blast+
  have warn: "filter is_problem
      (concat (map (\<lambda>g. concat (map shape_warnings (IpPermissions g @ IpPermissionsEgress g))) gs)) = []"
    by (induction gs) simp_all
  show "let ingress = concat (map (\<lambda>g. filter (permission_matches P dest) (IpPermissions g)) gs);
             egress = concat (map (\<lambda>g. filter (permission_matches P dest) (IpPermissionsEgress g)) gs);
             rep = report_security_groups client P ids source_ip_address dest_ip_str verbose
         in snd rep = Inr (ingress = [] \<or> egress = []) \<and>
            filter is_problem (fst rep) =
              (if ingress = []
               then [Print (''NETWORK CONNECTIVITY ERROR. No ingress is allowed by source Security Groups for '' @ dest_ip_str)]
               else []) @
              (if egress = []
               then [Print (''NETWORK CONNECTIVITY ERROR. No egress is allowed by source Security Groups for '' @ dest_ip_str)]
               else [])"
    unfolding Let_def
      report_security_groups_value [OF get_security_groups_value [OF assms a b c]]
    using warn by (simp add: is_problem_def separator_def)
qed

theorem security_group_matching_witness:
  "ip_address ipv4_reader ''10.1.2.3'' = Inr (IPv4Address 0x0A010203) \<and>
   snd (find_security_group_matches ipv4_reader sample_permissions ''10.1.2.3'') =
     Inr [sample_permissions ! 0, sample_permissions ! 2, sample_permissions ! 3] \<and>
   snd (report_security_groups sample_aws ipv4_reader [''sg-1''] ''10.0.1.5'' ''10.1.2.3'' False) =
     Inr False \<and>
   filter is_problem
     (fst (report_security_groups sample_aws ipv4_reader [''sg-1''] ''10.0.1.5'' ''10.1.2.3'' False)) = []"
proof -
  let ?dest = "IPv4Address 0x0A010203"
  note inst = security_group_matching [OF reader_addresses(1),
      of sample_aws "[''sg-1'']" "''10.0.1.5''" False]
  have pred: "(\<lambda>p. (\<exists>r\<in>set (IpRanges p). CidrIp r = ALL_IPV4 \<or>
                      (\<exists>c. ip_network ipv4_reader (CidrIp r) = Inr c \<and> contains c ?dest)) \<or>
                   UserIdGroupPairs p \<noteq> []) = permission_matches ipv4_reader ?dest"
  proof (intro ext)
    fix p
    have "range_matches ipv4_reader ?dest r \<longleftrightarrow>
        CidrIp r = ALL_IPV4 \<or>
        (\<exists>c. ip_network ipv4_reader (CidrIp r) = Inr c \<and> contains c ?dest)" for r
      by (cases "ip_network ipv4_reader (CidrIp r)") (simp_all add: range_matches_def)
    then show "((\<exists>r\<in>set (IpRanges p). CidrIp r = ALL_IPV4 \<or>
                      (\<exists>c. ip_network ipv4_reader (CidrIp r) = Inr c \<and> contains c ?dest)) \<or>
                   UserIdGroupPairs p \<noteq> []) = permission_matches ipv4_reader ?dest p"
      by (simp add: permission_matches_def)
  qed
  from inst sample_ranges_readable
  have one: "snd (find_security_group_matches ipv4_reader sample_permissions ''10.1.2.3'') =
     Inr [sample_permissions ! 0, sample_permissions ! 2, sample_permissions ! 3]"
    unfolding pred by (simp add: sample_permissions_filter)
  have groups: "describe_security_groups sample_aws [''sg-1''] = Inr [sample_group]"
    by (simp add: sample_aws_def)
  have readable: "\<forall>g\<in>set [sample_group].
      \<forall>p\<in>set (IpPermissions g @ IpPermissionsEgress g). ranges_readable ipv4_reader p"
    using sample_ranges_readable by (simp add: sample_group_def sample_permissions_def)
  have ingress: "concat (map (\<lambda>g. filter (permission_matches ipv4_reader ?dest) (IpPermissions g))
      [sample_group]) \<noteq> []"
    by (simp add: sample_group_def sample_permissions_filter)
  have egress: "concat (map (\<lambda>g. filter (permission_matches ipv4_reader ?dest)
      (IpPermissionsEgress g)) [sample_group]) \<noteq> []"
    using sample_permission_matches(4) by (simp add: sample_group_def)
  from inst groups readable
  have "let ingress = concat (map (\<lambda>g. filter (permission_matches ipv4_reader ?dest) (IpPermissions g)) [sample_group]);
             egress = concat (map (\<lambda>g. filter (permission_matches ipv4_reader ?dest) (IpPermissionsEgress g)) [sample_group]);
             rep = report_security_groups sample_aws ipv4_reader [''sg-1''] ''10.0.1.5'' ''10.1.2.3'' False
         in snd rep = Inr (ingress = [] \<or> egress = []) \<and>
            filter is_problem (fst rep) =
              (if ingress = []
               then [Print (''NETWORK CONNECTIVITY ERROR. No ingress is allowed by source Security Groups for '' @ ''10.1.2.3'')]
               else []) @
              (if egress = []
               then [Print (''NETWORK CONNECTIVITY ERROR. No egress is allowed by source Security Groups for '' @ ''10.1.2.3'')]
               else [])"
    by simp
  with ingress egress
  have two: "snd (report_security_groups sample_aws ipv4_reader [''sg-1''] ''10.0.1.5'' ''10.1.2.3'' False) =
       Inr False \<and>
     filter is_problem
       (fst (report_security_groups sample_aws ipv4_reader [''sg-1''] ''10.0.1.5'' ''10.1.2.3'' False)) = []"
    unfolding Let_def by simp
  from one two reader_addresses(1) show ?thesis by simp
qed

text \<open>
  C5. NACL evaluation. When the destination and the CIDR blocks of the entries are read
  by the library, \<^verbatim>\<open>find_nacl_rule_matches\<close> returns exactly the entries whose CIDR
  block contains the destination, in their order: those with the egress flag false as
  the inbound list, those with it true as the outbound list. In \<^verbatim>\<open>report_nacl\<close> an
  empty inbound list is a problem and an empty outbound list is another one, each with
  its own line, so that a network ACL that covers neither direction draws two problem
  lines.
\<close>

theorem nacl_evaluation:
  assumes "ip_address P dest_ip_str = Inr dest"
    and "\<forall>e\<in>set (Entries nacl). \<exists>s c. CidrBlock e = Some s \<and> ip_network P s = Inr c"
  shows
   "(let inbound = filter (\<lambda>e. entry_contains P dest e \<and> \<not> Egress e) (Entries nacl);
         outbound = filter (\<lambda>e. entry_contains P dest e \<and> Egress e) (Entries nacl);
         rep = report_nacl P nacl source_ip_address dest_ip_str verbose
     in snd (find_nacl_rule_matches P (Entries nacl) dest_ip_str) = Inr (inbound, outbound) \<and>
        snd rep = Inr (inbound = [] \<or> outbound = []) \<and>
        filter is_problem (fst rep) =
          (if inbound = []
           then [Print ''NETWORK CONNECTIVITY ERROR. No relevant inbound rules for NACL.'']
           else []) @
          (if outbound = []
           then [Print ''NETWORK CONNECTIVITY ERROR. No relevant outbound rules for NACL.'']
           else []))"
  unfolding Let_def
    report_nacl_value [OF find_nacl_rule_matches_value [OF assms]]
    find_nacl_rule_matches_value [OF assms]
  by (simp add: is_problem_def separator_def)

theorem nacl_evaluation_witness:
  "ip_address ipv4_reader ''192.168.1.1'' = Inr (IPv4Address 0xC0A80101) \<and>
   snd (find_nacl_rule_matches ipv4_reader (Entries sample_nacl) ''192.168.1.1'') = Inr ([], []) \<and>
   snd (report_nacl ipv4_reader sample_nacl ''10.0.1.5'' ''192.168.1.1'' False) = Inr True \<and>
   filter is_problem (fst (report_nacl ipv4_reader sample_nacl ''10.0.1.5'' ''192.168.1.1'' False)) =
     [Print ''NETWORK CONNECTIVITY ERROR. No relevant inbound rules for NACL.'',
      Print ''NETWORK CONNECTIVITY ERROR. No relevant outbound rules for NACL.'']"
proof -
  have h2: "\<forall>e\<in>set (Entries sample_nacl).
      \<exists>s c. CidrBlock e = Some s \<and> ip_network ipv4_reader s = Inr c"
    by (simp add: sample_nacl_def reader_networks)
  have none: "\<forall>e\<in>set (Entries sample_nacl).
      \<not> entry_contains ipv4_reader (IPv4Address 0xC0A80101) e"
    by (simp add: sample_nacl_def entry_contains_def reader_networks netmask_values)
  then have empty:
    "filter (\<lambda>e. entry_contains ipv4_reader (IPv4Address 0xC0A80101) e \<and> \<not> Egress e)
       (Entries sample_nacl) = []"
    "filter (\<lambda>e. entry_contains ipv4_reader (IPv4Address 0xC0A80101) e \<and> Egress e)
       (Entries sample_nacl) = []"
    by (simp_all add: filter_empty_conv)
  from nacl_evaluation [OF reader_addresses(2) h2, of "''10.0.1.5''" False]
  show ?thesis
    unfolding Let_def empty using reader_addresses(2) by simp
qed

text \<open>
  C9. IPv6 ranges and prefix-list references of a permission are not evaluated. When
  the destination and the ranges are read by the library, what
  \<^verbatim>\<open>find_security_group_matches\<close> prints is, for each permission in turn, one warning
  when it carries IPv6 ranges and one when it carries prefix lists; every line printed
  is a warning and none is a problem; the evaluation goes on over the whole list; and
  replacing the IPv6 ranges and the prefix lists of the permissions by anything else
  leaves the same permissions matched.
\<close>

theorem unsupported_rule_shapes_only_warn:
  assumes "ip_address P dest_ip_str = Inr dest"
    and "\<forall>p\<in>set ps. ranges_readable P p"
  shows
   "fst (find_security_group_matches P ps dest_ip_str) = concat (map shape_warnings ps) \<and>
    (\<forall>l\<in>set (fst (find_security_group_matches P ps dest_ip_str)). is_warning l \<and> \<not> is_problem l) \<and>
    (\<forall>p\<in>set ps. Ipv6Ranges p \<noteq> [] \<longrightarrow>
       Print ''WARNING. Ignoring IPv6 rules in Security Group.''
         \<in> set (fst (find_security_group_matches P ps dest_ip_str))) \<and>
    (\<forall>p\<in>set ps. PrefixListIds p \<noteq> [] \<longrightarrow>
       Print ''WARNING. Ignoring Perfix List rules in Security Group.''
         \<in> set (fst (find_security_group_matches P ps dest_ip_str))) \<and>
    snd (find_security_group_matches P ps dest_ip_str) =
      Inr (filter (permission_matches P dest) ps) \<and>
    (\<forall>v6 pl.
       snd (find_security_group_matches P
              (map (\<lambda>p. p\<lparr>Ipv6Ranges := v6 p, PrefixListIds := pl p\<rparr>) ps) dest_ip_str) =
       Inr (map (\<lambda>p. p\<lparr>Ipv6Ranges := v6 p, PrefixListIds := pl p\<rparr>)
              (filter (permission_matches P dest) ps)))"
proof -
  note run = find_security_group_matches_value [OF assms]
  have lines: "\<forall>l\<in>set (concat (map shape_warnings ps)). is_warning l \<and> \<not> is_problem l"
    using shape_warnings_are_warnings shape_warnings_no_problem by auto
  have v6: "\<forall>p\<in>set ps. Ipv6Ranges p \<noteq> [] \<longrightarrow>
       Print ''WARNING. Ignoring IPv6 rules in Security Group.''
         \<in> set (concat (map shape_warnings ps))"
    by (auto simp add: shape_warnings_def)
  have pl: "\<forall>p\<in>set ps. PrefixListIds p \<noteq> [] \<longrightarrow>
       Print ''WARNING. Ignoring Perfix List rules in Security Group.''
         \<in> set (concat (map shape_warnings ps))"
    by (auto simp add: shape_warnings_def)
  have upd: "snd (find_security_group_matches P
              (map (\<lambda>p. p\<lparr>Ipv6Ranges := v6 p, PrefixListIds := pl p\<rparr>) ps) dest_ip_str) =
       Inr (map (\<lambda>p. p\<lparr>Ipv6Ranges := v6 p, PrefixListIds := pl p\<rparr>)
              (filter (permission_matches P dest) ps))" for v6 pl
  proof -
    let ?u = "\<lambda>p. p\<lparr>Ipv6Ranges := v6 p, PrefixListIds := pl p\<rparr>"
    have r: "\<forall>p\<in>set (map ?u ps). ranges_readable P p"
      using assms(2) by (simp add: ranges_readable_def)
    have m: "permission_matches P dest \<circ> ?u = permission_matches P dest"
      by (rule ext) (simp add: permission_matches_def)
    show ?thesis
      unfolding find_security_group_matches_value [OF assms(1) r]
      by (simp add: filter_map m)
  qed
  show ?thesis
    unfolding run using lines v6 pl upd by simp
qed

theorem unsupported_rule_shapes_only_warn_witness:
  "fst (find_security_group_matches ipv4_reader sample_permissions ''10.1.2.3'') =
     [Print ''WARNING. Ignoring IPv6 rules in Security Group.'',
      Print ''WARNING. Ignoring Perfix List rules in Security Group.''] \<and>
   snd (find_security_group_matches ipv4_reader sample_permissions ''10.1.2.3'') =
     Inr [sample_permissions ! 0, sample_permissions ! 2, sample_permissions ! 3]"
proof -
  have "concat (map shape_warnings sample_permissions) =
     [Print ''WARNING. Ignoring IPv6 rules in Security Group.'',
      Print ''WARNING. Ignoring Perfix List rules in Security Group.'']"
    by (simp add: sample_permissions_def shape_warnings_def)
  with unsupported_rule_shapes_only_warn [OF reader_addresses(1) sample_ranges_readable]
  show ?thesis
    by (simp add: sample_permissions_filter)
qed

text \<open>
  C2. CIDR containment has mask semantics. For every IPv4 network that the constructor
  builds, the prefix length is at most 32, and the network contains an IPv4 address
  exactly when the address masked by the prefix length equals the network address masked
  the same way. The network \<^verbatim>\<open>0.0.0.0/0\<close> contains every IPv4 address; so a route whose
  destination CIDR block is that network contains every IPv4 destination and the
  resolver finds a route, a NACL entry whose CIDR block is that network is among the
  relevant entries of its direction, and a permission with the match-all range is among
  the matches.
\<close>

theorem cidr_containment_mask_semantics:
  "(\<forall>s n p a. ip_network P s = Inr (IPv4Network n p) \<longrightarrow>
      p \<le> 32 \<and>
      (contains (IPv4Network n p) (IPv4Address a) \<longleftrightarrow>
         masked_by_prefix p a = masked_by_prefix p n)) \<and>
   (\<forall>a. contains (IPv4Network 0 0) (IPv4Address a)) \<and>
   (\<forall>routes dest_ip_str a r s.
      ip_address P dest_ip_str = Inr (IPv4Address a) \<and>
      (\<forall>r\<in>set routes. \<forall>s. DestinationCidrBlock r = Some s \<longrightarrow> (\<exists>c. ip_network P s = Inr c)) \<and>
      r \<in> set routes \<and> DestinationCidrBlock r = Some s \<and>
      ip_network P s = Inr (IPv4Network 0 0) \<longrightarrow>
      route_contains P (IPv4Address a) r \<and>
      (\<exists>r'. snd (find_route_matches P routes dest_ip_str verbose) = Inr (Some r'))) \<and>
   (\<forall>entries dest_ip_str a e s.
      ip_address P dest_ip_str = Inr (IPv4Address a) \<and>
      (\<forall>e\<in>set entries. \<exists>s c. CidrBlock e = Some s \<and> ip_network P s = Inr c) \<and>
      e \<in> set entries \<and> CidrBlock e = Some s \<and> ip_network P s = Inr (IPv4Network 0 0) \<longrightarrow>
      (\<exists>inbound outbound.
         snd (find_nacl_rule_matches P entries dest_ip_str) = Inr (inbound, outbound) \<and>
         e \<in> set (if Egress e then outbound else inbound))) \<and>
   (\<forall>ps dest_ip_str dest p r.
      ip_address P dest_ip_str = Inr dest \<and> (\<forall>p\<in>set ps. ranges_readable P p) \<and>
      p \<in> set ps \<and> r \<in> set (IpRanges p) \<and> CidrIp r = ''0.0.0.0/0'' \<longrightarrow>
      (\<exists>ms. snd (find_security_group_matches P ps dest_ip_str) = Inr ms \<and> p \<in> set ms))"
proof (intro conjI allI impI)
  fix s n p a
  assume "ip_network P s = Inr (IPv4Network n p)"
  then show "p \<le> 32"
    and "contains (IPv4Network n p) (IPv4Address a) \<longleftrightarrow>
         masked_by_prefix p a = masked_by_prefix p n"
    by (rule ip_network_IPv4_D(1), rule contains_masked)
next
  fix a
  show "contains (IPv4Network 0 0) (IPv4Address a)"
    by (rule contains_match_all)
next
  fix routes dest_ip_str a s and r :: route
  assume h: "ip_address P dest_ip_str = Inr (IPv4Address a) \<and>
      (\<forall>r\<in>set routes. \<forall>s. DestinationCidrBlock r = Some s \<longrightarrow> (\<exists>c. ip_network P s = Inr c)) \<and>
      r \<in> set routes \<and> DestinationCidrBlock r = Some s \<and>
      ip_network P s = Inr (IPv4Network 0 0)"
  then show rc: "route_contains P (IPv4Address a) r"
    using contains_match_all [of a]
    by (simp add: route_contains_def route_cidr_def del: contains.simps)
  from h have d: "ip_address P dest_ip_str = Inr (IPv4Address a)"
    and ok: "\<forall>r\<in>set routes. \<forall>s. DestinationCidrBlock r = Some s \<longrightarrow> (\<exists>c. ip_network P s = Inr c)"
    and mem: "r \<in> set routes"
    by blast+
  from find_route_matches_resolves [OF d ok, of verbose]
  obtain m where m: "snd (find_route_matches P routes dest_ip_str verbose) =
      Inr (map_option match_route m)" "lpm_inv P (IPv4Address a) routes m"
    by blast
  from m(2) rc mem have "m \<noteq> None"
    by (cases m) (auto simp add: lpm_inv_def)
  with m(1) show "\<exists>r'. snd (find_route_matches P routes dest_ip_str verbose) = Inr (Some r')"
    by auto
next
  fix entries dest_ip_str a s and e :: nacl_entry
  assume h: "ip_address P dest_ip_str = Inr (IPv4Address a) \<and>
      (\<forall>e\<in>set entries. \<exists>s c. CidrBlock e = Some s \<and> ip_network P s = Inr c) \<and>
      e \<in> set entries \<and> CidrBlock e = Some s \<and> ip_network P s = Inr (IPv4Network 0 0)"
  then have d: "ip_address P dest_ip_str = Inr (IPv4Address a)"
    and ok: "\<forall>e\<in>set entries. \<exists>s c. CidrBlock e = Some s \<and> ip_network P s = Inr c"
    and mem: "e \<in> set entries"
    and ec: "entry_contains P (IPv4Address a) e"
    using contains_match_all [of a]
    by (simp_all add: entry_contains_def del: contains.simps)
  show "\<exists>inbound outbound.
         snd (find_nacl_rule_matches P entries dest_ip_str) = Inr (inbound, outbound) \<and>
         e \<in> set (if Egress e then outbound else inbound)"
    unfolding find_nacl_rule_matches_value [OF d ok] using mem ec by simp
next
  fix ps dest_ip_str dest and p :: permission and r :: ip_range
  assume h: "ip_address P dest_ip_str = Inr dest \<and> (\<forall>p\<in>set ps. ranges_readable P p) \<and>
      p \<in> set ps \<and> r \<in> set (IpRanges p) \<and> CidrIp r = ''0.0.0.0/0''"
  then have d: "ip_address P dest_ip_str = Inr dest"
    and ok: "\<forall>p\<in>set ps. ranges_readable P p" and mem: "p \<in> set ps"
    and pm: "permission_matches P dest p"
    by (auto simp add: permission_matches_def range_matches_def ALL_IPV4_def)
  show "\<exists>ms. snd (find_security_group_matches P ps dest_ip_str) = Inr ms \<and> p \<in> set ms"
    unfolding find_security_group_matches_value [OF d ok] using mem pm by simp
qed

theorem cidr_containment_mask_semantics_witness:
  "ip_network ipv4_reader ''10.1.0.0/16'' = Inr (IPv4Network 0x0A010000 16) \<and>
   (contains (IPv4Network 0x0A010000 16) (IPv4Address 0x0A010203) \<longleftrightarrow>
      masked_by_prefix 16 (0x0A010203 :: 32 word) = masked_by_prefix 16 0x0A010000) \<and>
   contains (IPv4Network 0x0A010000 16) (IPv4Address 0x0A010203) \<and>
   \<not> contains (IPv4Network 0x0A010000 16) (IPv4Address 0xC0A80101) \<and>
   (\<exists>r'. snd (find_route_matches ipv4_reader sample_routes ''192.168.1.1'' False) = Inr (Some r')) \<and>
   (\<exists>ms. snd (find_security_group_matches ipv4_reader sample_permissions ''192.168.1.1'') = Inr ms \<and>
         sample_permissions ! 3 \<in> set ms)"
proof -
  note inst = cidr_containment_mask_semantics [of ipv4_reader False]
  have routes: "\<forall>r\<in>set sample_routes. \<forall>s. DestinationCidrBlock r = Some s \<longrightarrow>
              (\<exists>c. ip_network ipv4_reader s = Inr c)"
    by (simp add: sample_routes_def reader_networks)
  have r4: "sample_routes ! 4 \<in> set sample_routes"
      "DestinationCidrBlock (sample_routes ! 4) = Some ''0.0.0.0/0''"
    by (simp_all add: sample_routes_def)
  have p3: "sample_permissions ! 3 \<in> set sample_permissions"
      "\<lparr>CidrIp = ''0.0.0.0/0''\<rparr> \<in> set (IpRanges (sample_permissions ! 3))"
    by (simp_all add: sample_permissions_def)
  have one: "contains (IPv4Network 0x0A010000 16) (IPv4Address 0x0A010203) \<longleftrightarrow>
      masked_by_prefix 16 (0x0A010203 :: 32 word) = masked_by_prefix 16 0x0A010000"
    using inst [THEN conjunct1, rule_format, OF reader_networks(3)] by simp
  have "ip_address ipv4_reader ''192.168.1.1'' = Inr (IPv4Address 0xC0A80101) \<and>
      (\<forall>r\<in>set sample_routes. \<forall>s. DestinationCidrBlock r = Some s \<longrightarrow>
              (\<exists>c. ip_network ipv4_reader s = Inr c)) \<and>
      sample_routes ! 4 \<in> set sample_routes \<and>
      DestinationCidrBlock (sample_routes ! 4) = Some ''0.0.0.0/0'' \<and>
      ip_network ipv4_reader ''0.0.0.0/0'' = Inr (IPv4Network 0 0)"
    using reader_addresses(2) routes r4 reader_networks(1) by simp
  from inst [THEN conjunct2, THEN conjunct2, THEN conjunct1, rule_format, OF this]
  have two: "\<exists>r'. snd (find_route_matches ipv4_reader sample_routes ''192.168.1.1'' False) =
      Inr (Some r')"
    by simp
  have "ip_address ipv4_reader ''192.168.1.1'' = Inr (IPv4Address 0xC0A80101) \<and>
      (\<forall>p\<in>set sample_permissions. ranges_readable ipv4_reader p) \<and>
      sample_permissions ! 3 \<in> set sample_permissions \<and>
      \<lparr>CidrIp = ''0.0.0.0/0''\<rparr> \<in> set (IpRanges (sample_permissions ! 3)) \<and>
      CidrIp \<lparr>CidrIp = ''0.0.0.0/0''\<rparr> = ''0.0.0.0/0''"
    using reader_addresses(2) sample_ranges_readable p3 by simp
  from inst [THEN conjunct2, THEN conjunct2, THEN conjunct2, THEN conjunct2, rule_format, OF this]
  have three: "\<exists>ms. snd (find_security_group_matches ipv4_reader sample_permissions
      ''192.168.1.1'') = Inr ms \<and> sample_permissions ! 3 \<in> set ms"
    by simp
  have four: "contains (IPv4Network 0x0A010000 16) (IPv4Address 0x0A010203)"
      "\<not> contains (IPv4Network 0x0A010000 16) (IPv4Address 0xC0A80101)"
    by (simp_all add: netmask_values)
  from one two three four reader_networks(3) show ?thesis
    by blast
qed

section \<open>The gateway chain\<close>

lemma bgp_peer_step_value:
  "bgp_peer_step b (npe, tip) =
     (if bgp_peer_ok b
      then [Print (''DC Virtual Interface BGP peer '' @ bgpPeerId b @ '' appears OK.'')]
      else [Print ''NETWORK CONNECTIVITY ERROR. DC Virtual Interface BGP Peer issue:'',
            PPrint (PyBgpPeer b)],
      Inr (npe \<or> \<not> bgp_peer_ok b, tip \<or> \<not> bgp_peer_ok b))"
  by (auto simp add: bgp_peer_step_def bgp_peer_ok_def io_then_def print_def pprint_def
        io_return_def)

lemma bgp_peers_loop_value:
  "for_loop bs (npe, tip) bgp_peer_step =
     (concat (map (\<lambda>b. fst (bgp_peer_step b (False, False))) bs),
      Inr (npe \<or> (\<exists>b\<in>set bs. \<not> bgp_peer_ok b), tip \<or> (\<exists>b\<in>set bs. \<not> bgp_peer_ok b)))"
proof (induction bs arbitrary: npe tip)
  case Nil
  show ?case by (simp add: io_return_def)
next
  case (Cons b bs)
  show ?case
    by (auto simp add: bgp_peer_step_value Cons.IH)
qed

lemma virtual_interface_step_value:
  "virtual_interface_step i npe =
     ((if virtualInterfaceState i \<noteq> ''available''
       then [Print ''NETWORK CONNECTIVITY ERROR. DC Virtual Interface is not in 'available' state:'',
             PPrint (PyVirtualInterface i)]
       else []) @
      concat (map (\<lambda>b. fst (bgp_peer_step b (False, False))) (bgpPeers i)) @
      (if vif_ok i
       then [Print (''DC Virtual Interface '' @ virtualInterfaceName i @ '' ('' @
                    virtualInterfaceId i @ '') appears OK.'')]
       else []),
      Inr (npe \<or> \<not> vif_ok i))"
  by (auto simp add: virtual_interface_step_def bgp_peers_loop_value vif_ok_def io_then_def
        print_def pprint_def io_return_def io_when_def)

lemma vif_report_eq: "fst (virtual_interface_step i npe) = vif_report i"
  by (simp add: vif_report_def virtual_interface_step_value)

lemma virtual_interfaces_loop_value:
  "for_loop vifs npe virtual_interface_step =
     (concat (map vif_report vifs), Inr (npe \<or> (\<exists>i\<in>set vifs. \<not> vif_ok i)))"
proof (induction vifs arbitrary: npe)
  case Nil
  show ?case by (simp add: io_return_def)
next
  case (Cons i vifs)
  have "virtual_interface_step i npe = (vif_report i, Inr (npe \<or> \<not> vif_ok i))"
    using vif_report_eq [of i npe] by (simp add: virtual_interface_step_value)
  then show ?case
    by (auto simp add: Cons.IH)
qed

lemma report_dc_virtual_interfaces_value:
  "report_dc_virtual_interfaces dc_vifs verbose =
     (Print ''Checking Direct Connect Virtual Interfaces:'' #
      (if verbose then [PPrint (PyVirtualInterfaces dc_vifs)] else []) @
      (if dc_vifs = []
       then [Print ''NETWORK CONNECTIVITY ERROR. No DC Virtual Interfaces present.'']
       else concat (map vif_report dc_vifs)),
      Inr (dc_vifs = [] \<or> (\<exists>i\<in>set dc_vifs. \<not> vif_ok i)))"
  by (simp add: report_dc_virtual_interfaces_def virtual_interfaces_loop_value io_then_def
        print_def pprint_def io_return_def io_when_def)

lemma is_problem_Print:
  "is_problem (Print s) \<longleftrightarrow> prefix ''NETWORK CONNECTIVITY ERROR.'' s \<or> prefix ''ERROR.'' s"
  by (simp add: is_problem_def)

lemma bgp_lines_problem:
  "(\<exists>l\<in>set (fst (bgp_peer_step b (False, False))). is_problem l) \<longleftrightarrow> \<not> bgp_peer_ok b"
  by (simp add: bgp_peer_step_value is_problem_Print)

lemma vif_report_problem: "(\<exists>l\<in>set (vif_report i). is_problem l) \<longleftrightarrow> \<not> vif_ok i"
proof -
  let ?A = "if virtualInterfaceState i \<noteq> ''available''
       then [Print ''NETWORK CONNECTIVITY ERROR. DC Virtual Interface is not in 'available' state:'',
             PPrint (PyVirtualInterface i)]
       else []"
  let ?B = "concat (map (\<lambda>b. fst (bgp_peer_step b (False, False))) (bgpPeers i))"
  let ?C = "if vif_ok i
       then [Print (''DC Virtual Interface '' @ virtualInterfaceName i @ '' ('' @
                    virtualInterfaceId i @ '') appears OK.'')]
       else []"
  have r: "vif_report i = ?A @ ?B @ ?C"
    by (simp add: vif_report_def virtual_interface_step_value)
  have A: "(\<exists>l\<in>set ?A. is_problem l) \<longleftrightarrow> virtualInterfaceState i \<noteq> ''available''"
    by (auto simp add: is_problem_Print)
  have B: "(\<exists>l\<in>set ?B. is_problem l) \<longleftrightarrow> (\<exists>b\<in>set (bgpPeers i). \<not> bgp_peer_ok b)"
    using bgp_lines_problem by auto
  have C: "\<not> (\<exists>l\<in>set ?C. is_problem l)"
    by (simp add: is_problem_Print)
  have "(\<exists>l\<in>set (vif_report i). is_problem l) \<longleftrightarrow>
      (\<exists>l\<in>set ?A. is_problem l) \<or> (\<exists>l\<in>set ?B. is_problem l) \<or> (\<exists>l\<in>set ?C. is_problem l)"
    unfolding r set_append by blast
  with A B C show ?thesis
    by (simp add: vif_ok_def) blast
qed

lemma report_dc_virtual_interfaces_problem:
  "(\<exists>l\<in>set (fst (report_dc_virtual_interfaces dc_vifs verbose)). is_problem l) \<longleftrightarrow>
   dc_vifs = [] \<or> (\<exists>i\<in>set dc_vifs. \<not> vif_ok i)"
proof (cases "dc_vifs = []")
  case True
  then show ?thesis
    by (simp add: report_dc_virtual_interfaces_value is_problem_Print)
next
  case False
  have "(\<exists>l\<in>set (concat (map vif_report dc_vifs)). is_problem l) \<longleftrightarrow>
      (\<exists>i\<in>set dc_vifs. \<not> vif_ok i)"
    using vif_report_problem by auto
  moreover have "fst (report_dc_virtual_interfaces dc_vifs verbose) =
      [Print ''Checking Direct Connect Virtual Interfaces:''] @
      (if verbose then [PPrint (PyVirtualInterfaces dc_vifs)] else []) @
      concat (map vif_report dc_vifs)"
    using False by (simp add: report_dc_virtual_interfaces_value)
  moreover have "\<not> is_problem (Print ''Checking Direct Connect Virtual Interfaces:'')"
    by (simp add: is_problem_Print)
  ultimately show ?thesis
    using False by auto
qed

text \<open>
  C8. Cross-connect virtual-interface validation. For every list of virtual interfaces,
  the check returns no problem exactly when the list is not empty and every interface is
  in order (its state \<^verbatim>\<open>available\<close>, each of its BGP peers \<^verbatim>\<open>available\<close> and \<^verbatim>\<open>up\<close>).
  An empty list draws the problem line of its own. Otherwise the report of every
  interface is printed, one after the other, whatever the interfaces before it did; the
  report of an interface holds a problem line exactly when that interface is not in
  order, with the interface printed under a state that is not \<^verbatim>\<open>available\<close> and the
  peer printed under a peer that is not in order.
\<close>

theorem virtual_interface_validation:
  "snd (report_dc_virtual_interfaces dc_vifs verbose) =
     Inr (\<not> (dc_vifs \<noteq> [] \<and> (\<forall>i\<in>set dc_vifs. vif_ok i))) \<and>
   (dc_vifs = [] \<longrightarrow>
      filter is_problem (fst (report_dc_virtual_interfaces dc_vifs verbose)) =
        [Print ''NETWORK CONNECTIVITY ERROR. No DC Virtual Interfaces present.'']) \<and>
   (dc_vifs \<noteq> [] \<longrightarrow>
      fst (report_dc_virtual_interfaces dc_vifs verbose) =
        Print ''Checking Direct Connect Virtual Interfaces:'' #
        (if verbose then [PPrint (PyVirtualInterfaces dc_vifs)] else []) @
        concat (map vif_report dc_vifs)) \<and>
   (\<forall>i. (\<exists>l\<in>set (vif_report i). is_problem l) \<longleftrightarrow>
        \<not> (virtualInterfaceState i = ''available'' \<and>
           (\<forall>b\<in>set (bgpPeers i). bgpPeerState b = ''available'' \<and> bgpStatus b = ''up''))) \<and>
   (\<forall>i. virtualInterfaceState i \<noteq> ''available'' \<longrightarrow>
        PPrint (PyVirtualInterface i) \<in> set (vif_report i)) \<and>
   (\<forall>i. \<forall>b\<in>set (bgpPeers i).
        \<not> (bgpPeerState b = ''available'' \<and> bgpStatus b = ''up'') \<longrightarrow>
        PPrint (PyBgpPeer b) \<in> set (vif_report i))"
proof (intro conjI allI impI ballI)
  show "snd (report_dc_virtual_interfaces dc_vifs verbose) =
     Inr (\<not> (dc_vifs \<noteq> [] \<and> (\<forall>i\<in>set dc_vifs. vif_ok i)))"
    by (simp add: report_dc_virtual_interfaces_value)
next
  assume "dc_vifs = []"
  then show "filter is_problem (fst (report_dc_virtual_interfaces dc_vifs verbose)) =
        [Print ''NETWORK CONNECTIVITY ERROR. No DC Virtual Interfaces present.'']"
    by (simp add: report_dc_virtual_interfaces_value is_problem_Print)
next
  assume "dc_vifs \<noteq> []"
  then show "fst (report_dc_virtual_interfaces dc_vifs verbose) =
        Print ''Checking Direct Connect Virtual Interfaces:'' #
        (if verbose then [PPrint (PyVirtualInterfaces dc_vifs)] else []) @
        concat (map vif_report dc_vifs)"
    by (simp add: report_dc_virtual_interfaces_value)
next
  fix i :: virtual_interface
  show "(\<exists>l\<in>set (vif_report i). is_problem l) \<longleftrightarrow>
        \<not> (virtualInterfaceState i = ''available'' \<and>
           (\<forall>b\<in>set (bgpPeers i). bgpPeerState b = ''available'' \<and> bgpStatus b = ''up''))"
    unfolding vif_report_problem by (simp add: vif_ok_def bgp_peer_ok_def)
next
  fix i :: virtual_interface
  assume "virtualInterfaceState i \<noteq> ''available''"
  then show "PPrint (PyVirtualInterface i) \<in> set (vif_report i)"
    by (simp add: vif_report_def virtual_interface_step_value)
next
  fix i :: virtual_interface and b
  assume "b \<in> set (bgpPeers i)"
    and "\<not> (bgpPeerState b = ''available'' \<and> bgpStatus b = ''up'')"
  then have "PPrint (PyBgpPeer b) \<in> set (fst (bgp_peer_step b (False, False)))"
    by (simp add: bgp_peer_step_value bgp_peer_ok_def)
  with \<open>b \<in> set (bgpPeers i)\<close> show "PPrint (PyBgpPeer b) \<in> set (vif_report i)"
    by (auto simp add: vif_report_def virtual_interface_step_value)
qed

lemma sample_vifs_ok:
  "\<not> vif_ok (sample_vifs ! 0)" "vif_ok (sample_vifs ! 1)" "vif_ok (sample_vifs ! 2)"
  by (simp_all add: sample_vifs_def vif_ok_def bgp_peer_ok_def)

lemma sample_vifs_of_gateway:
  "filter (\<lambda>i. virtualGatewayId i = ''vgw-1'') sample_vifs = [sample_vifs ! 0, sample_vifs ! 1]"
  by (simp add: sample_vifs_def)

lemma sample_vif_reports:
  "vif_report (sample_vifs ! 0) =
     [Print ''NETWORK CONNECTIVITY ERROR. DC Virtual Interface is not in 'available' state:'',
      PPrint (PyVirtualInterface (sample_vifs ! 0)),
      Print ''DC Virtual Interface BGP peer dxpeer-1 appears OK.'']"
  "vif_report (sample_vifs ! 1) =
     [Print ''DC Virtual Interface BGP peer dxpeer-2 appears OK.'',
      Print ''DC Virtual Interface BGP peer dxpeer-3 appears OK.'',
      Print ''DC Virtual Interface secondary (dxvif-2) appears OK.'']"
  by (simp_all add: vif_report_def virtual_interface_step_value bgp_peer_step_value
        sample_vifs_def vif_ok_def bgp_peer_ok_def)

theorem virtual_interface_validation_witness:
  "snd (report_dc_virtual_interfaces [] False) = Inr True \<and>
   filter is_problem (fst (report_dc_virtual_interfaces [] False)) =
     [Print ''NETWORK CONNECTIVITY ERROR. No DC Virtual Interfaces present.''] \<and>
   snd (report_dc_virtual_interfaces [sample_vifs ! 0, sample_vifs ! 1] False) = Inr True \<and>
   fst (report_dc_virtual_interfaces [sample_vifs ! 0, sample_vifs ! 1] False) =
     [Print ''Checking Direct Connect Virtual Interfaces:'',
      Print ''NETWORK CONNECTIVITY ERROR. DC Virtual Interface is not in 'available' state:'',
      PPrint (PyVirtualInterface (sample_vifs ! 0)),
      Print ''DC Virtual Interface BGP peer dxpeer-1 appears OK.'',
      Print ''DC Virtual Interface BGP peer dxpeer-2 appears OK.'',
      Print ''DC Virtual Interface BGP peer dxpeer-3 appears OK.'',
      Print ''DC Virtual Interface secondary (dxvif-2) appears OK.''] \<and>
   snd (report_dc_virtual_interfaces [sample_vifs ! 1] False) = Inr False"
proof -
  have a: "snd (report_dc_virtual_interfaces [] False) = Inr True \<and>
      filter is_problem (fst (report_dc_virtual_interfaces [] False)) =
        [Print ''NETWORK CONNECTIVITY ERROR. No DC Virtual Interfaces present.'']"
    using virtual_interface_validation [of "[]" False] by simp
  have b: "snd (report_dc_virtual_interfaces [sample_vifs ! 0, sample_vifs ! 1] False) = Inr True \<and>
      fst (report_dc_virtual_interfaces [sample_vifs ! 0, sample_vifs ! 1] False) =
        Print ''Checking Direct Connect Virtual Interfaces:'' #
        concat (map vif_report [sample_vifs ! 0, sample_vifs ! 1])"
    using virtual_interface_validation [of "[sample_vifs ! 0, sample_vifs ! 1]" False]
      sample_vifs_ok by simp
  have c: "snd (report_dc_virtual_interfaces [sample_vifs ! 1] False) = Inr False"
    using virtual_interface_validation [of "[sample_vifs ! 1]" False] sample_vifs_ok by simp
  from a b c sample_vif_reports show ?thesis
    by simp
qed

lemma report_vpn_gateway_value:
  assumes "describe_vpn_gateways client gateway_id = Inr [gw]"
    and "VpcAttachments gw = [st]"
    and "describe_virtual_interfaces client = Inr vifs"
  shows "report_vpn_gateway client gateway_id verbose =
     ([Print ''Virtual Private Gateway:'', PPrint (PyVpnGateway gw)] @
      (if vgw_State gw \<noteq> ''available''
       then [Print ''NETWORK CONNECTIVITY ERROR. Virtual Gateway is NOT available.'']
       else []) @
      (if st \<noteq> ''attached''
       then [Print ''NETWORK CONNECTIVITY ERROR. Virtual Gateway is NOT attached.'']
       else []) @
      fst (report_dc_virtual_interfaces
             (filter (\<lambda>i. virtualGatewayId i = gateway_id) vifs) verbose),
      Inr ((vgw_State gw \<noteq> ''available'' \<or> st \<noteq> ''attached'') \<or>
           snd (report_dc_virtual_interfaces
                  (filter (\<lambda>i. virtualGatewayId i = gateway_id) vifs) verbose) = Inr True))"
proof -
  obtain o1 b where dc: "report_dc_virtual_interfaces
      (filter (\<lambda>i. virtualGatewayId i = gateway_id) vifs) verbose = (o1, Inr b)"
    using report_dc_virtual_interfaces_value by blast
  show ?thesis
    using assms
    by (simp add: report_vpn_gateway_def get_dc_virtual_interface_def dc io_then_def
          print_def pprint_def io_return_def)
qed

text \<open>
  C7, as the code has it. For a route through a virtual private gateway whose
  description holds one gateway with one VPC attachment, the gateway draws one problem
  line when its state is not \<^verbatim>\<open>available\<close> and another when its attachment is not
  \<^verbatim>\<open>attached\<close>, and none otherwise; the virtual interfaces bound to the identifier of
  the gateway are then fetched and checked in every case, whether the gateway is valid or
  not; and the result is a problem exactly when the gateway is not valid or the check of
  the virtual interfaces reports a problem.
\<close>

theorem vpn_gateway_check:
  assumes "describe_vpn_gateways client gateway_id = Inr [gw]"
    and "VpcAttachments gw = [st]"
    and "describe_virtual_interfaces client = Inr vifs"
  shows
   "(let dc_vifs = filter (\<lambda>i. virtualGatewayId i = gateway_id) vifs;
         dc = report_dc_virtual_interfaces dc_vifs verbose;
         rep = report_vpn_gateway client gateway_id verbose
     in get_dc_virtual_interface client gateway_id verbose = ([], Inr dc_vifs) \<and>
        fst rep =
          [Print ''Virtual Private Gateway:'', PPrint (PyVpnGateway gw)] @
          (if vgw_State gw \<noteq> ''available''
           then [Print ''NETWORK CONNECTIVITY ERROR. Virtual Gateway is NOT available.'']
           else []) @
          (if st \<noteq> ''attached''
           then [Print ''NETWORK CONNECTIVITY ERROR. Virtual Gateway is NOT attached.'']
           else []) @
          fst dc \<and>
        snd rep =
          Inr (\<not> (vgw_State gw = ''available'' \<and> st = ''attached'') \<or> snd dc = Inr True))"
  unfolding Let_def report_vpn_gateway_value [OF assms]
  using assms(3) by (simp add: get_dc_virtual_interface_def io_return_def)

lemma sample_vpn_gateway_facts:
  "describe_vpn_gateways sample_aws ''vgw-1'' = Inr [sample_vpn_gateway]"
  "VpcAttachments sample_vpn_gateway = [''attached'']"
  "describe_virtual_interfaces sample_aws = Inr sample_vifs"
  "vgw_State sample_vpn_gateway = ''pending''"
  by (simp_all add: sample_aws_def sample_vpn_gateway_def)

lemma sample_dc_report:
  "report_dc_virtual_interfaces [sample_vifs ! 0, sample_vifs ! 1] False =
     ([Print ''Checking Direct Connect Virtual Interfaces:'',
       Print ''NETWORK CONNECTIVITY ERROR. DC Virtual Interface is not in 'available' state:'',
       PPrint (PyVirtualInterface (sample_vifs ! 0)),
       Print ''DC Virtual Interface BGP peer dxpeer-1 appears OK.'',
       Print ''DC Virtual Interface BGP peer dxpeer-2 appears OK.'',
       Print ''DC Virtual Interface BGP peer dxpeer-3 appears OK.'',
       Print ''DC Virtual Interface secondary (dxvif-2) appears OK.''],
      Inr True)"
  using sample_vif_reports sample_vifs_ok
  by (simp add: report_dc_virtual_interfaces_value)

theorem vpn_gateway_check_witness:
  "get_dc_virtual_interface sample_aws ''vgw-1'' False =
     ([], Inr [sample_vifs ! 0, sample_vifs ! 1]) \<and>
   report_vpn_gateway sample_aws ''vgw-1'' False =
     ([Print ''Virtual Private Gateway:'', PPrint (PyVpnGateway sample_vpn_gateway),
       Print ''NETWORK CONNECTIVITY ERROR. Virtual Gateway is NOT available.'',
       Print ''Checking Direct Connect Virtual Interfaces:'',
       Print ''NETWORK CONNECTIVITY ERROR. DC Virtual Interface is not in 'available' state:'',
       PPrint (PyVirtualInterface (sample_vifs ! 0)),
       Print ''DC Virtual Interface BGP peer dxpeer-1 appears OK.'',
       Print ''DC Virtual Interface BGP peer dxpeer-2 appears OK.'',
       Print ''DC Virtual Interface BGP peer dxpeer-3 appears OK.'',
       Print ''DC Virtual Interface secondary (dxvif-2) appears OK.''],
      Inr True)"
proof -
  from vpn_gateway_check [OF sample_vpn_gateway_facts(1-3), of False]
  have "get_dc_virtual_interface sample_aws ''vgw-1'' False =
       ([], Inr [sample_vifs ! 0, sample_vifs ! 1]) \<and>
     fst (report_vpn_gateway sample_aws ''vgw-1'' False) =
       [Print ''Virtual Private Gateway:'', PPrint (PyVpnGateway sample_vpn_gateway),
        Print ''NETWORK CONNECTIVITY ERROR. Virtual Gateway is NOT available.''] @
       fst (report_dc_virtual_interfaces [sample_vifs ! 0, sample_vifs ! 1] False) \<and>
     snd (report_vpn_gateway sample_aws ''vgw-1'' False) = Inr True"
    unfolding Let_def sample_vifs_of_gateway
    by (simp add: sample_vpn_gateway_facts(4))
  then show ?thesis
    unfolding sample_dc_report by (simp add: prod_eq_iff)
qed

text \<open>
  The claim C7 fails as stated: the sample gateway is \<^verbatim>\<open>pending\<close>, hence not valid, and
  the report on the route through it still fetches and checks its virtual interfaces.
\<close>

theorem vpn_gateway_recursion_counterexample:
  "vgw_State sample_vpn_gateway \<noteq> ''available'' \<and>
   report_gateway sample_aws ''vgw-1'' False =
     ([Print ''Via gateway: vgw-1'',
       Print ''Virtual Private Gateway:'', PPrint (PyVpnGateway sample_vpn_gateway),
       Print ''NETWORK CONNECTIVITY ERROR. Virtual Gateway is NOT available.'',
       Print ''Checking Direct Connect Virtual Interfaces:'',
       Print ''NETWORK CONNECTIVITY ERROR. DC Virtual Interface is not in 'available' state:'',
       PPrint (PyVirtualInterface (sample_vifs ! 0)),
       Print ''DC Virtual Interface BGP peer dxpeer-1 appears OK.'',
       Print ''DC Virtual Interface BGP peer dxpeer-2 appears OK.'',
       Print ''DC Virtual Interface BGP peer dxpeer-3 appears OK.'',
       Print ''DC Virtual Interface secondary (dxvif-2) appears OK.''],
      Inr True)"
proof -
  have "report_vpn_gateway sample_aws ''vgw-1'' False =
     ([Print ''Virtual Private Gateway:'', PPrint (PyVpnGateway sample_vpn_gateway),
       Print ''NETWORK CONNECTIVITY ERROR. Virtual Gateway is NOT available.''] @
      fst (report_dc_virtual_interfaces [sample_vifs ! 0, sample_vifs ! 1] False),
      Inr True)"
    unfolding report_vpn_gateway_value [OF sample_vpn_gateway_facts(1-3)] sample_vifs_of_gateway
    by (simp add: sample_vpn_gateway_facts(4))
  then show ?thesis
    unfolding sample_dc_report
    by (simp add: report_gateway_def sample_vpn_gateway_facts(4) io_then_def print_def)
qed

text \<open>
  C6, as the code has it. A resolved route that carries neither a gateway, nor a NAT
  gateway, nor a peering connection is reported as a problem, under the line
  \<^verbatim>\<open>ERROR. Unknown route type:\<close>. A resolved route whose gateway identifier starts
  neither with \<^verbatim>\<open>igw-\<close> nor with \<^verbatim>\<open>vgw-\<close> draws the warning that this type of gateway
  is not being analyzed, and the check returns no problem for it.
\<close>

theorem unknown_target_reporting:
  "(GatewayId r = None \<and> NatGatewayId r = None \<and> VpcPeeringConnectionId r = None \<longrightarrow>
      report_route client (Some r) source_vpc_id dest_ip_address verbose =
        ([Print ''ERROR. Unknown route type:'', PPrint (PyRoute r)], Inr True)) \<and>
   (\<forall>g. GatewayId r = Some g \<and> \<not> prefix ''igw-'' g \<and> \<not> prefix ''vgw-'' g \<longrightarrow>
      report_route client (Some r) source_vpc_id dest_ip_address verbose =
        ([Print (''Via gateway: '' @ g),
          Print ''WARNING. Some other type of gateway is NOT being analyzed.''], Inr False))"
  by (simp add: report_route_def report_gateway_def io_then_def print_def pprint_def
        io_return_def)

theorem unknown_target_reporting_witness:
  "report_route sample_aws
     (Some \<lparr>DestinationCidrBlock = Some ''10.0.0.0/8'', GatewayId = None,
            NatGatewayId = None, VpcPeeringConnectionId = None\<rparr>) ''vpc-1'' ''10.2.0.1'' False =
     ([Print ''ERROR. Unknown route type:'',
       PPrint (PyRoute \<lparr>DestinationCidrBlock = Some ''10.0.0.0/8'', GatewayId = None,
                       NatGatewayId = None, VpcPeeringConnectionId = None\<rparr>)], Inr True) \<and>
   report_route sample_aws (Some (sample_routes ! 0)) ''vpc-1'' ''10.2.0.1'' False =
     ([Print ''Via gateway: local'',
       Print ''WARNING. Some other type of gateway is NOT being analyzed.''], Inr False)"
proof -
  have "GatewayId (sample_routes ! 0) = Some ''local''"
    by (simp add: sample_routes_def)
  moreover have "\<not> prefix ''igw-'' ''local''" "\<not> prefix ''vgw-'' ''local''"
    by simp_all
  ultimately show ?thesis
    using unknown_target_reporting [of "sample_routes ! 0" sample_aws "''vpc-1''" "''10.2.0.1''" False]
      unknown_target_reporting [of "\<lparr>DestinationCidrBlock = Some ''10.0.0.0/8'', GatewayId = None,
            NatGatewayId = None, VpcPeeringConnectionId = None\<rparr>" sample_aws "''vpc-1''"
            "''10.2.0.1''" False]
    by simp
qed

lemma sample_route_resolution:
  "find_route_matches ipv4_reader sample_routes ''10.2.0.1'' False =
     ([], Inr (Some (sample_routes ! 0)))"
  "find_route_matches ipv4_reader sample_routes ''192.168.1.1'' False =
     ([], Inr (Some (sample_routes ! 4)))"
  by (simp_all add: find_route_matches_def find_route_step_def sample_routes_def
        reader_addresses reader_networks netmask_values io_then_def io_when_def io_return_def)

text \<open>
  The claim C6 fails as stated: for the destination \<^verbatim>\<open>10.2.0.1\<close> the sample route
  table resolves to the local route, whose gateway is none of the analyzed kinds, and the
  report on the route table prints a warning and returns no problem.
\<close>

theorem unknown_gateway_counterexample:
  "report_route_table sample_aws ipv4_reader sample_route_table ''vpc-1'' ''10.0.1.5''
     ''10.2.0.1'' False =
     ([Print separator,
       Print ''Analysis of Route Table applied on source IP 10.0.1.5 relevant to destination IP 10.2.0.1'',
       Print ''Route Table in use for source: rtb-1'',
       Print ''Finding route to 10.2.0.1'',
       Print ''Matching route:'', PPrint (PyRoute (sample_routes ! 0)),
       Print ''Via gateway: local'',
       Print ''WARNING. Some other type of gateway is NOT being analyzed.''],
      Inr False)"
proof -
  have "GatewayId (sample_routes ! 0) = Some ''local''"
    by (simp add: sample_routes_def)
  then have "report_route sample_aws (Some (sample_routes ! 0)) ''vpc-1'' ''10.2.0.1'' False =
     ([Print ''Via gateway: local'',
       Print ''WARNING. Some other type of gateway is NOT being analyzed.''], Inr False)"
    by (simp add: report_route_def report_gateway_def io_then_def print_def io_return_def)
  then show ?thesis
    by (simp add: report_route_table_def sample_route_table_def sample_route_resolution
          io_then_def io_when_def print_def pprint_def io_return_def)
qed

section \<open>Computations that print no problem line\<close>

lemma npl_return [simp]: "no_problem_lines (io_return x)"
  by (simp add: no_problem_lines_def)

lemma npl_raise [simp]: "no_problem_lines (io_raise e)"
  by (simp add: no_problem_lines_def)

lemma npl_lift [simp]: "no_problem_lines (io_lift r)"
  by (simp add: no_problem_lines_def io_lift_def)

lemma npl_assert [simp]: "no_problem_lines (io_assert b)"
  by (simp add: io_assert_def)

lemma npl_pprint [simp]: "no_problem_lines (pprint x)"
  by (simp add: no_problem_lines_def)

lemma npl_printf [simp]: "no_problem_lines (printf s x)"
  by (simp add: no_problem_lines_def)

lemma npl_print: "no_problem_lines (print s) \<longleftrightarrow> \<not> is_problem (Print s)"
  by (simp add: no_problem_lines_def)

lemma npl_bind:
  assumes "no_problem_lines m" and "\<And>x. no_problem_lines (f x)"
  shows "no_problem_lines (io_bind m f)"
proof (cases "snd m")
  case (Inl e)
  then show ?thesis
    using assms(1) by (simp add: no_problem_lines_def fst_io_bind)
next
  case (Inr x)
  then show ?thesis
    using assms(1) assms(2) [of x] by (auto simp add: no_problem_lines_def fst_io_bind)
qed

lemma npl_then:
  assumes "no_problem_lines m" and "no_problem_lines k"
  shows "no_problem_lines (io_then m k)"
  unfolding io_then_def using assms by (intro npl_bind)

lemma npl_when: "no_problem_lines m \<Longrightarrow> no_problem_lines (io_when b m)"
  by (simp add: io_when_def)

lemma npl_block: "\<forall>m\<in>set ms. no_problem_lines m \<Longrightarrow> no_problem_lines (io_block ms)"
  by (induction ms) (simp_all add: npl_then)

lemma npl_for_loop:
  assumes "\<And>x s. no_problem_lines (body x s)"
  shows "no_problem_lines (for_loop xs s body)"
proof (induction xs arbitrary: s)
  case Nil
  show ?case by simp
next
  case (Cons x xs)
  show ?case
    unfolding for_loop_Cons by (intro npl_bind assms Cons.IH)
qed

lemma npl_pair_D:
  "no_problem_lines m \<Longrightarrow> m = (out, r) \<Longrightarrow> \<forall>l\<in>set out. \<not> is_problem l"
  by (simp add: no_problem_lines_def)

lemmas npl_intros = npl_bind npl_then npl_when npl_block npl_for_loop

lemma npl_find_route_matches: "no_problem_lines (find_route_matches P routes dest_ip_str verbose)"
proof -
  have step: "no_problem_lines (find_route_step P dest verbose r m)" for dest r m
    unfolding find_route_step_def Let_def
    by (intro npl_intros)
       (auto simp add: npl_print is_problem_Print intro!: npl_intros split: option.splits)
  show ?thesis
    unfolding find_route_matches_def
    by (intro npl_intros step) simp_all
qed

lemma npl_find_nacl_rule_matches: "no_problem_lines (find_nacl_rule_matches P es dest_ip_str)"
proof -
  have step: "no_problem_lines (find_nacl_step P dest e rules)" for dest e rules
    unfolding find_nacl_step_def
    by (auto intro!: npl_intros split: option.splits prod.splits)
  show ?thesis
    unfolding find_nacl_rule_matches_def
    by (intro npl_intros step) simp_all
qed

lemma npl_find_security_group_matches:
  "no_problem_lines (find_security_group_matches P ps dest_ip_str)"
proof -
  have step: "no_problem_lines (find_security_group_step P dest p ms)" for dest p ms
    unfolding find_security_group_step_def
    by (auto simp add: npl_print is_problem_Print intro!: npl_intros split: option.splits)
  show ?thesis
    unfolding find_security_group_matches_def
    by (intro npl_intros step) simp_all
qed

lemma npl_get_security_groups:
  "no_problem_lines (get_security_groups client P ids dest_ip_address verbose)"
proof -
  have step: "no_problem_lines (get_security_groups_step P dest_ip_address g ms)" for g ms
    unfolding get_security_groups_step_def
    by (auto intro!: npl_intros npl_find_security_group_matches split: prod.splits)
  show ?thesis
    unfolding get_security_groups_def
    by (intro npl_intros step) simp_all
qed

lemma npl_get_nacls_for_subnets:
  "no_problem_lines (get_nacls_for_subnets client ids verbose)"
  unfolding get_nacls_for_subnets_def
  by (intro npl_intros) simp_all

lemma npl_get_route_table_for_subnet:
  "no_problem_lines (get_route_table_for_subnet client vpc_id subnet_id verbose)"
  unfolding get_route_table_for_subnet_def get_main_route_table_for_vpc_def
  by (auto simp add: npl_print is_problem_Print intro!: npl_intros split: list.splits)

lemma npl_report_db_subnet_groups:
  "no_problem_lines (report_db_subnet_groups client vpc_id ids verbose)"
  unfolding report_db_subnet_groups_def get_route_tables_for_subnets_def
  by (auto simp add: npl_print is_problem_Print
        intro!: npl_intros npl_get_route_table_for_subnet npl_get_nacls_for_subnets)

lemma report_db_subnet_groups_False:
  "report_db_subnet_groups client vpc_id ids verbose = (out, Inr p) \<Longrightarrow> \<not> p"
  unfolding report_db_subnet_groups_def
  by (elim io_bind_Inr_D io_then_Inr_D) (simp add: io_return_def)

section \<open>Reports that return a problem exactly when they print one\<close>

lemmas io_defs =
  io_bind_def io_then_def io_lift_def io_return_def io_raise_def io_when_def io_assert_def
  print_def pprint_def

lemma report_nacl_faithful:
  assumes "report_nacl P source_nacl source_ip_address dest_ip_address verbose = (out, Inr p)"
  shows "p \<longleftrightarrow> (\<exists>l\<in>set out. is_problem l)"
proof -
  obtain o1 r where f: "find_nacl_rule_matches P (Entries source_nacl) dest_ip_address = (o1, r)"
    by force
  have quiet: "\<forall>l\<in>set o1. \<not> is_problem l"
    using npl_find_nacl_rule_matches f by (rule npl_pair_D)
  show ?thesis
  proof (cases r)
    case (Inl e)
    with f assms show ?thesis
      by (simp add: report_nacl_def io_then_def print_def)
  next
    case (Inr rules)
    obtain inb outb where "rules = (inb, outb)" by force
    with f Inr have "find_nacl_rule_matches P (Entries source_nacl) dest_ip_address =
        (o1, Inr (inb, outb))"
      by simp
    from report_nacl_value [OF this, of source_ip_address verbose] assms
    have out: "out = [Print separator, Print ''Network ACL analysis'',
         Print (''NACL entries applied on source IP '' @ source_ip_address @
                '' relevant to destination IP '' @ dest_ip_address)] @ o1 @
        [Print ''Inbound Rules:'', PPrint (PyNaclEntries inb)] @
        (if inb = []
         then [Print ''NETWORK CONNECTIVITY ERROR. No relevant inbound rules for NACL.'']
         else []) @
        [Print ''Outbound Rules:'', PPrint (PyNaclEntries outb)] @
        (if outb = []
         then [Print ''NETWORK CONNECTIVITY ERROR. No relevant outbound rules for NACL.'']
         else [])"
      and p: "p = (inb = [] \<or> outb = [])"
      by simp_all
    show ?thesis
      unfolding out p using quiet by (auto simp add: is_problem_Print separator_def)
  qed
qed

lemma report_security_groups_faithful:
  assumes "report_security_groups client P ids source_ip_address dest_ip_address verbose =
             (out, Inr p)"
  shows "p \<longleftrightarrow> (\<exists>l\<in>set out. is_problem l)"
proof -
  obtain o1 r where f: "get_security_groups client P ids dest_ip_address verbose = (o1, r)"
    by force
  have quiet: "\<forall>l\<in>set o1. \<not> is_problem l"
    using npl_get_security_groups f by (rule npl_pair_D)
  show ?thesis
  proof (cases r)
    case (Inl e)
    with f assms show ?thesis
      by (simp add: report_security_groups_def)
  next
    case (Inr matches)
    obtain ing eg where "matches = (ing, eg)" by force
    with f Inr have "get_security_groups client P ids dest_ip_address verbose =
        (o1, Inr (ing, eg))"
      by simp
    from report_security_groups_value [OF this, of source_ip_address] assms
    have out: "out = o1 @
        [Print separator,
         Print (''Analysis of Security Group ingress/egress applied on source IP '' @
                source_ip_address @ '' to/from destination IP '' @ dest_ip_address),
         Print ''Potential Ingress Matches'', PPrint (PyPermissions ing)] @
        (if ing = []
         then [Print (''NETWORK CONNECTIVITY ERROR. No ingress is allowed by source Security Groups for '' @ dest_ip_address),
               Print (CHR 0x09 # ''Perhaps access to this AWS resource is indirect, through a loadbalancer? '')]
         else []) @
        [Print ''Potential Egress Matches:'', PPrint (PyPermissions eg)] @
        (if eg = []
         then [Print (''NETWORK CONNECTIVITY ERROR. No egress is allowed by source Security Groups for '' @ dest_ip_address),
               Print (CHR 0x09 # ''Perhaps access to this AWS resource is indirect, through a loadbalancer? '')]
         else [])"
      and p: "p = (ing = [] \<or> eg = [])"
      by simp_all
    show ?thesis
      unfolding out p using quiet
      by (cases "ing = []"; cases "eg = []") (simp_all add: is_problem_Print separator_def)
  qed
qed

lemma report_internet_gateway_faithful:
  assumes "report_internet_gateway client gateway_id = (out, Inr p)"
  shows "p \<longleftrightarrow> (\<exists>l\<in>set out. is_problem l)"
  using assms unfolding report_internet_gateway_def
  by (cases "describe_internet_gateways client gateway_id")
     (auto simp add: io_defs is_problem_Print separator_def split: list.splits if_splits)

lemma report_vpn_gateway_faithful:
  assumes "report_vpn_gateway client gateway_id verbose = (out, Inr p)"
  shows "p \<longleftrightarrow> (\<exists>l\<in>set out. is_problem l)"
proof -
  from assms obtain gw st vifs where h: "describe_vpn_gateways client gateway_id = Inr [gw]"
      "VpcAttachments gw = [st]" "describe_virtual_interfaces client = Inr vifs"
    unfolding report_vpn_gateway_def get_dc_virtual_interface_def
    by (cases "describe_vpn_gateways client gateway_id";
        cases "describe_virtual_interfaces client")
       (auto simp add: io_defs split: list.splits if_splits prod.splits sum.splits)
  let ?vifs = "filter (\<lambda>i. virtualGatewayId i = gateway_id) vifs"
  have dc: "snd (report_dc_virtual_interfaces ?vifs verbose) = Inr True \<longleftrightarrow>
      (\<exists>l\<in>set (fst (report_dc_virtual_interfaces ?vifs verbose)). is_problem l)"
    unfolding report_dc_virtual_interfaces_problem
    by (simp add: report_dc_virtual_interfaces_value)
  from assms report_vpn_gateway_value [OF h, of verbose]
  have out: "out = [Print ''Virtual Private Gateway:'', PPrint (PyVpnGateway gw)] @
      (if vgw_State gw \<noteq> ''available''
       then [Print ''NETWORK CONNECTIVITY ERROR. Virtual Gateway is NOT available.'']
       else []) @
      (if st \<noteq> ''attached''
       then [Print ''NETWORK CONNECTIVITY ERROR. Virtual Gateway is NOT attached.'']
       else []) @
      fst (report_dc_virtual_interfaces ?vifs verbose)"
    and p: "p = ((vgw_State gw \<noteq> ''available'' \<or> st \<noteq> ''attached'') \<or>
           snd (report_dc_virtual_interfaces ?vifs verbose) = Inr True)"
    by simp_all
  show ?thesis
    unfolding out p dc by (auto simp add: is_problem_Print separator_def)
qed

lemma report_gateway_faithful:
  assumes "report_gateway client gateway_id verbose = (out, Inr p)"
  shows "p \<longleftrightarrow> (\<exists>l\<in>set out. is_problem l)"
proof -
  have via: "\<not> is_problem (Print (''Via gateway: '' @ gateway_id))"
    by (simp add: is_problem_Print separator_def)
  from assms obtain o2 where o2: "out = Print (''Via gateway: '' @ gateway_id) # o2"
    and rest: "(if prefix ''igw-'' gateway_id then report_internet_gateway client gateway_id
        else if prefix ''vgw-'' gateway_id then report_vpn_gateway client gateway_id verbose
        else io_then (print ''WARNING. Some other type of gateway is NOT being analyzed.'')
               (io_return False)) = (o2, Inr p)"
    unfolding report_gateway_def by (elim io_then_Inr_D) (simp add: print_def)
  have "p \<longleftrightarrow> (\<exists>l\<in>set o2. is_problem l)"
  proof (cases "prefix ''igw-'' gateway_id")
    case True
    with rest show ?thesis
      by (simp add: report_internet_gateway_faithful)
  next
    case False
    show ?thesis
    proof (cases "prefix ''vgw-'' gateway_id")
      case True
      with False rest show ?thesis
        by (simp add: report_vpn_gateway_faithful)
    next
      case no: False
      with False rest show ?thesis
        by (auto simp add: io_defs is_problem_Print separator_def)
    qed
  qed
  with o2 via show ?thesis by simp
qed

lemma report_nat_gateway_faithful:
  assumes "report_nat_gateway client nat_gateway_id verbose = (out, Inr p)"
  shows "p \<longleftrightarrow> (\<exists>l\<in>set out. is_problem l)"
  using assms unfolding report_nat_gateway_def get_nat_gateway_def
  by (cases "describe_nat_gateways client nat_gateway_id")
     (auto simp add: io_defs is_problem_Print separator_def split: list.splits if_splits)

lemma report_peering_connection_faithful:
  assumes "report_peering_connection client peering_connection_id source_vpc_id verbose =
             (out, Inr p)"
  shows "p \<longleftrightarrow> (\<exists>l\<in>set out. is_problem l)"
  using assms unfolding report_peering_connection_def get_vpc_peering_connections_def
  by (cases "describe_vpc_peering_connections client peering_connection_id")
     (auto simp add: io_defs is_problem_Print separator_def split: list.splits if_splits)

lemma report_route_faithful:
  assumes "report_route client r source_vpc_id dest_ip_address verbose = (out, Inr p)"
  shows "p \<longleftrightarrow> (\<exists>l\<in>set out. is_problem l)"
proof (cases r)
  case None
  with assms show ?thesis
    by (auto simp add: report_route_def io_defs is_problem_Print separator_def)
next
  case (Some r')
  show ?thesis
  proof (cases "GatewayId r'")
    case g: (Some gateway_id)
    with Some assms show ?thesis
      by (simp add: report_route_def report_gateway_faithful)
  next
    case g: None
    show ?thesis
    proof (cases "NatGatewayId r'")
      case n: (Some nat_gateway_id)
      with Some g assms show ?thesis
        by (simp add: report_route_def report_nat_gateway_faithful)
    next
      case n: None
      show ?thesis
      proof (cases "VpcPeeringConnectionId r'")
        case c: (Some peering_connection_id)
        with Some g n assms show ?thesis
          by (simp add: report_route_def report_peering_connection_faithful)
      next
        case c: None
        with Some g n assms show ?thesis
          by (auto simp add: report_route_def io_defs is_problem_Print separator_def)
      qed
    qed
  qed
qed

lemma report_route_table_value:
  assumes "find_route_matches P (Routes source_route_table) dest_ip_address verbose =
             (o1, Inr r)"
  shows "report_route_table client P source_route_table source_vpc_id source_ip_address
             dest_ip_address verbose =
     ([Print separator,
       Print (''Analysis of Route Table applied on source IP '' @ source_ip_address @
              '' relevant to destination IP '' @ dest_ip_address),
       Print (''Route Table in use for source: '' @ RouteTableId source_route_table)] @
      (if verbose then [PPrint (PyRouteTable source_route_table)] else []) @
      [Print (''Finding route to '' @ dest_ip_address)] @ o1 @
      (case r of None \<Rightarrow> [] | Some r' \<Rightarrow> [Print ''Matching route:'', PPrint (PyRoute r')]) @
      fst (report_route client r source_vpc_id dest_ip_address verbose),
      snd (report_route client r source_vpc_id dest_ip_address verbose))"
  using assms
  by (cases r)
     (simp_all add: report_route_table_def io_then_def io_when_def print_def pprint_def
        io_return_def)

lemma report_route_table_faithful:
  assumes "report_route_table client P source_route_table source_vpc_id source_ip_address
             dest_ip_address verbose = (out, Inr p)"
  shows "p \<longleftrightarrow> (\<exists>l\<in>set out. is_problem l)"
proof -
  obtain o1 res where f: "find_route_matches P (Routes source_route_table) dest_ip_address
      verbose = (o1, res)"
    by force
  have quiet: "\<forall>l\<in>set o1. \<not> is_problem l"
    using npl_find_route_matches f by (rule npl_pair_D)
  show ?thesis
  proof (cases res)
    case (Inl e)
    with f assms show ?thesis
      by (cases verbose)
         (simp_all add: report_route_table_def io_then_def io_when_def print_def pprint_def
            io_return_def)
  next
    case (Inr r)
    let ?o3 = "fst (report_route client r source_vpc_id dest_ip_address verbose)"
    let ?o2 = "case r of None \<Rightarrow> []
               | Some r' \<Rightarrow> [Print ''Matching route:'', PPrint (PyRoute r')]"
    from f Inr have "find_route_matches P (Routes source_route_table) dest_ip_address verbose =
        (o1, Inr r)"
      by simp
    from report_route_table_value [OF this, of client source_vpc_id source_ip_address] assms
    have out: "out = [Print separator,
         Print (''Analysis of Route Table applied on source IP '' @ source_ip_address @
                '' relevant to destination IP '' @ dest_ip_address),
         Print (''Route Table in use for source: '' @ RouteTableId source_route_table)] @
        (if verbose then [PPrint (PyRouteTable source_route_table)] else []) @
        [Print (''Finding route to '' @ dest_ip_address)] @ o1 @ ?o2 @ ?o3"
      and rep: "report_route client r source_vpc_id dest_ip_address verbose = (?o3, Inr p)"
      by (simp_all add: prod_eq_iff)
    have o2: "\<forall>l\<in>set ?o2. \<not> is_problem l"
      by (cases r) (simp_all add: is_problem_Print)
    have "(\<exists>l\<in>set out. is_problem l) \<longleftrightarrow> (\<exists>l\<in>set ?o3. is_problem l)"
      unfolding out using quiet o2
      by (cases verbose) (auto simp add: is_problem_Print separator_def)
    with report_route_faithful [OF rep] show ?thesis
      by simp
  qed
qed

section \<open>The flag of the command\<close>

lemma main_subnet_group_False:
  assumes "main_subnet_group client P a grp source_ip_address = (out, Inr (sid, problem))"
  shows "\<not> problem"
  using assms unfolding main_subnet_group_def
  by (elim io_bind_Inr_D)
     (auto simp add: io_defs split: prod.splits option.splits sum.splits
        dest: report_db_subnet_groups_False)

lemma main_ec2_flag:
  assumes "main_ec2 client a st = (out, Inr st')"
  shows "v_network_problem_exists st' = v_network_problem_exists st"
  using assms unfolding main_ec2_def
  by (auto simp add: io_defs split: if_splits prod.splits option.splits sum.splits)

lemma main_rds_flag:
  assumes "main_rds client P a st = (out, Inr st')"
  shows "v_network_problem_exists st' = v_network_problem_exists st"
  using assms unfolding main_rds_def
  by (auto simp add: io_defs split: if_splits prod.splits option.splits sum.splits
        dest: main_subnet_group_False)

lemma main_dms_flag:
  assumes "main_dms client P a st = (out, Inr st')"
  shows "v_network_problem_exists st' = v_network_problem_exists st"
  using assms unfolding main_dms_def
  by (auto simp add: io_defs split: if_splits prod.splits option.splits sum.splits
        dest: main_subnet_group_False)

lemma main_sources_flag:
  assumes "main_sources client P a = (out, Inr st)"
  shows "\<not> v_network_problem_exists st"
proof -
  from assms obtain o1 st1 o2 st2 o3 where
    "main_ec2 client a
       \<lparr>v_network_problem_exists = False, v_source_security_group_ids = [],
        v_source = None\<rparr> = (o1, Inr st1)"
    "main_rds client P a st1 = (o2, Inr st2)"
    "main_dms client P a st2 = (o3, Inr st)"
    unfolding main_sources_def by (elim io_then_Inr_D io_bind_Inr_D)
  then show ?thesis
    using main_ec2_flag main_rds_flag main_dms_flag by fastforce
qed

lemma main_checks_D:
  assumes "main_checks client P a st = (out, Inr flag)"
  obtains src o_sg p_sg o1 rt o_rt p_rt o2 nacl o_nacl p_nacl where
    "v_source st = Some src"
    and "report_security_groups client P (v_source_security_group_ids st)
           (v_source_ip_address src) (arg_dest_ip a) (arg_verbose a) = (o_sg, Inr p_sg)"
    and "get_route_table_for_subnet client (v_source_vpc_id src) (v_source_subnet_id src)
           (arg_verbose a) = (o1, Inr rt)"
    and "report_route_table client P rt (v_source_vpc_id src) (v_source_ip_address src)
           (arg_dest_ip a) (arg_verbose a) = (o_rt, Inr p_rt)"
    and "get_nacls_for_subnets client [v_source_subnet_id src] (arg_verbose a) =
           (o2, Inr [nacl])"
    and "report_nacl P nacl (v_source_ip_address src) (arg_dest_ip a) (arg_verbose a) =
           (o_nacl, Inr p_nacl)"
    and "flag = (((v_network_problem_exists st \<or> p_sg) \<or> p_rt) \<or> p_nacl)"
    and "out =
           [Print (''Source IP Address: '' @ v_source_ip_address src),
            Print (''Name: '' @ v_source_name src),
            Print (''DNS Name:'' @ v_source_dns_name src),
            Print (''SubnetId: '' @ v_source_subnet_id src),
            Print (''VpcId: '' @ v_source_vpc_id src),
            Print ''Security Groups: '',
            PPrint (PyGroupIds (v_source_security_groups src))] @
           o_sg @ o1 @ o_rt @ o2 @
           (if arg_verbose a then [PPrint (PyNacl nacl)] else []) @ o_nacl"
proof (cases "v_source st")
  case None
  with assms show ?thesis
    by (simp add: main_checks_def io_raise_def)
next
  case (Some src)
  from assms Some obtain o_sg p_sg o1 rt o_rt p_rt o2 result o3 where
    sg: "report_security_groups client P (v_source_security_group_ids st)
           (v_source_ip_address src) (arg_dest_ip a) (arg_verbose a) = (o_sg, Inr p_sg)"
    and rt: "get_route_table_for_subnet client (v_source_vpc_id src) (v_source_subnet_id src)
           (arg_verbose a) = (o1, Inr rt)"
    and rrt: "report_route_table client P rt (v_source_vpc_id src) (v_source_ip_address src)
           (arg_dest_ip a) (arg_verbose a) = (o_rt, Inr p_rt)"
    and nacls: "get_nacls_for_subnets client [v_source_subnet_id src] (arg_verbose a) =
           (o2, Inr result)"
    and last: "(case result of
               [source_nacl] \<Rightarrow>
                 io_then (io_when (arg_verbose a) (pprint (PyNacl source_nacl)))
                (io_bind (report_nacl P source_nacl (v_source_ip_address src) (arg_dest_ip a)
                            (arg_verbose a)) (\<lambda>problem''.
                 io_return
                   (((v_network_problem_exists st \<or> p_sg) \<or> p_rt) \<or> problem'')))
             | _ \<Rightarrow> io_raise AssertionError) = (o3, Inr flag)"
    and out: "out =
           [Print (''Source IP Address: '' @ v_source_ip_address src),
            Print (''Name: '' @ v_source_name src),
            Print (''DNS Name:'' @ v_source_dns_name src),
            Print (''SubnetId: '' @ v_source_subnet_id src),
            Print (''VpcId: '' @ v_source_vpc_id src),
            Print ''Security Groups: '',
            PPrint (PyGroupIds (v_source_security_groups src))] @
           o_sg @ o1 @ o_rt @ o2 @ o3"
    unfolding main_checks_def
    by (simp only: option.case) (elim io_then_Inr_D io_bind_Inr_D, simp add: print_def pprint_def)
  from last obtain nacl where result: "result = [nacl]"
    by (cases result; cases "tl result") (auto simp add: io_raise_def)
  from last result obtain o_nacl p_nacl where
    rn: "report_nacl P nacl (v_source_ip_address src) (arg_dest_ip a) (arg_verbose a) =
           (o_nacl, Inr p_nacl)"
    and flag: "flag = (((v_network_problem_exists st \<or> p_sg) \<or> p_rt) \<or> p_nacl)"
    and o3: "o3 = (if arg_verbose a then [PPrint (PyNacl nacl)] else []) @ o_nacl"
    by (simp only: list.case)
       (elim io_then_Inr_D io_bind_Inr_D,
        auto simp add: io_return_def io_when_def pprint_def split: if_splits)
  from Some sg rt rrt nacls result rn flag out o3 show ?thesis
    by (intro that [of src o_sg p_sg o1 rt o_rt p_rt o2 nacl o_nacl p_nacl]) simp_all
qed

text \<open>
  C3. The overall outcome is the disjunction of the outcomes of the checks. In every
  run of the analysis that completes, the sources were resolved, the report on the
  security groups, the report on the route table and the gateway chain, and the report
  on the network ACL were all run, in this order, and their output is in the output of
  the run; the final value of \<^verbatim>\<open>network_problem_exists\<close> is the disjunction of what
  the three returned, the check of the subnet group never adding a problem; each report
  returns a problem exactly when it printed a problem line; and the summary of
  \<^verbatim>\<open>main\<close> prints the error line exactly when the flag is set. Conversely, no
  problem stops the analysis: once the sources are resolved, whenever the three reports
  and the two fetches between them return, each taken on its own, the analysis returns,
  with all their output and with the disjunction of their results, whatever these
  results are.
\<close>

theorem problem_flag_is_disjunction:
  "(main_analysis client P a = (out, Inr flag) \<longrightarrow>
    (\<exists>st src o0 o_sg p_sg o1 rt o_rt p_rt o2 nacl o_nacl p_nacl.
      main_sources client P a = (o0, Inr st) \<and> v_source st = Some src \<and>
      \<not> v_network_problem_exists st \<and>
      report_security_groups client P (v_source_security_group_ids st)
        (v_source_ip_address src) (arg_dest_ip a) (arg_verbose a) = (o_sg, Inr p_sg) \<and>
      get_route_table_for_subnet client (v_source_vpc_id src) (v_source_subnet_id src)
        (arg_verbose a) = (o1, Inr rt) \<and>
      report_route_table client P rt (v_source_vpc_id src) (v_source_ip_address src)
        (arg_dest_ip a) (arg_verbose a) = (o_rt, Inr p_rt) \<and>
      get_nacls_for_subnets client [v_source_subnet_id src] (arg_verbose a) =
        (o2, Inr [nacl]) \<and>
      report_nacl P nacl (v_source_ip_address src) (arg_dest_ip a) (arg_verbose a) =
        (o_nacl, Inr p_nacl) \<and>
      flag = (p_sg \<or> p_rt \<or> p_nacl) \<and>
      (p_sg \<longleftrightarrow> (\<exists>l\<in>set o_sg. is_problem l)) \<and>
      (p_rt \<longleftrightarrow> (\<exists>l\<in>set o_rt. is_problem l)) \<and>
      (p_nacl \<longleftrightarrow> (\<exists>l\<in>set o_nacl. is_problem l)) \<and>
      (\<forall>vpc_id ids verbose o_db p_db.
         report_db_subnet_groups client vpc_id ids verbose = (o_db, Inr p_db) \<longrightarrow>
         \<not> p_db \<and> (\<forall>l\<in>set o_db. \<not> is_problem l)) \<and>
      out =
        o0 @
        [Print (''Source IP Address: '' @ v_source_ip_address src),
         Print (''Name: '' @ v_source_name src),
         Print (''DNS Name:'' @ v_source_dns_name src),
         Print (''SubnetId: '' @ v_source_subnet_id src),
         Print (''VpcId: '' @ v_source_vpc_id src),
         Print ''Security Groups: '',
         PPrint (PyGroupIds (v_source_security_groups src))] @
        o_sg @ o1 @ o_rt @ o2 @
        (if arg_verbose a then [PPrint (PyNacl nacl)] else []) @ o_nacl \<and>
      main client P a =
        ([Print separator, Print ''Input parameters:'',
          Print (''verbose: '' @ str_bool (arg_verbose a)),
          Print (''source_ec2_ip_address: '' @ arg_source_ec2_ip a),
          Print (''dest_ip_address: '' @ arg_dest_ip a),
          Print (''source_rds_name: '' @ arg_source_rds a),
          Print (''source_dms_name: '' @ arg_source_dms a)] @
         out @
         [Print separator, Print ''Summary: '',
          Print (if flag
                 then ''ERROR. Some network connectivity problem exists. Review output of this tool.''
                 else ''OK. No obvious network connectivity problem exists from the perspective of the source.''),
          Print separator],
         Inr ()))) \<and>
   (\<forall>st src o0 o_sg p_sg o1 rt o_rt p_rt o2 nacl o_nacl p_nacl.
      main_sources client P a = (o0, Inr st) \<and> v_source st = Some src \<and>
      report_security_groups client P (v_source_security_group_ids st)
        (v_source_ip_address src) (arg_dest_ip a) (arg_verbose a) = (o_sg, Inr p_sg) \<and>
      get_route_table_for_subnet client (v_source_vpc_id src) (v_source_subnet_id src)
        (arg_verbose a) = (o1, Inr rt) \<and>
      report_route_table client P rt (v_source_vpc_id src) (v_source_ip_address src)
        (arg_dest_ip a) (arg_verbose a) = (o_rt, Inr p_rt) \<and>
      get_nacls_for_subnets client [v_source_subnet_id src] (arg_verbose a) =
        (o2, Inr [nacl]) \<and>
      report_nacl P nacl (v_source_ip_address src) (arg_dest_ip a) (arg_verbose a) =
        (o_nacl, Inr p_nacl) \<longrightarrow>
      main_analysis client P a =
        (o0 @
         [Print (''Source IP Address: '' @ v_source_ip_address src),
          Print (''Name: '' @ v_source_name src),
          Print (''DNS Name:'' @ v_source_dns_name src),
          Print (''SubnetId: '' @ v_source_subnet_id src),
          Print (''VpcId: '' @ v_source_vpc_id src),
          Print ''Security Groups: '',
          PPrint (PyGroupIds (v_source_security_groups src))] @
         o_sg @ o1 @ o_rt @ o2 @
         (if arg_verbose a then [PPrint (PyNacl nacl)] else []) @ o_nacl,
         Inr (p_sg \<or> p_rt \<or> p_nacl)))"
proof (intro conjI impI allI)
  assume run: "main_analysis client P a = (out, Inr flag)"
  then obtain o0 st o9 where
    src: "main_sources client P a = (o0, Inr st)"
    and chk: "main_checks client P a st = (o9, Inr flag)"
    and out: "out = o0 @ o9"
    unfolding main_analysis_def by (elim io_bind_Inr_D)
  have quiet: "\<not> v_network_problem_exists st"
    using src by (rule main_sources_flag)
  from chk obtain src' o_sg p_sg o1 rt o_rt p_rt o2 nacl o_nacl p_nacl where
    c: "v_source st = Some src'"
      "report_security_groups client P (v_source_security_group_ids st)
         (v_source_ip_address src') (arg_dest_ip a) (arg_verbose a) = (o_sg, Inr p_sg)"
      "get_route_table_for_subnet client (v_source_vpc_id src') (v_source_subnet_id src')
         (arg_verbose a) = (o1, Inr rt)"
      "report_route_table client P rt (v_source_vpc_id src') (v_source_ip_address src')
         (arg_dest_ip a) (arg_verbose a) = (o_rt, Inr p_rt)"
      "get_nacls_for_subnets client [v_source_subnet_id src'] (arg_verbose a) =
         (o2, Inr [nacl])"
      "report_nacl P nacl (v_source_ip_address src') (arg_dest_ip a) (arg_verbose a) =
         (o_nacl, Inr p_nacl)"
      "flag = (((v_network_problem_exists st \<or> p_sg) \<or> p_rt) \<or> p_nacl)"
      "o9 =
         [Print (''Source IP Address: '' @ v_source_ip_address src'),
          Print (''Name: '' @ v_source_name src'),
          Print (''DNS Name:'' @ v_source_dns_name src'),
          Print (''SubnetId: '' @ v_source_subnet_id src'),
          Print (''VpcId: '' @ v_source_vpc_id src'),
          Print ''Security Groups: '',
          PPrint (PyGroupIds (v_source_security_groups src'))] @
         o_sg @ o1 @ o_rt @ o2 @
         (if arg_verbose a then [PPrint (PyNacl nacl)] else []) @ o_nacl"
    by (rule main_checks_D)
  have db: "\<forall>vpc_id ids verbose o_db p_db.
         report_db_subnet_groups client vpc_id ids verbose = (o_db, Inr p_db) \<longrightarrow>
         \<not> p_db \<and> (\<forall>l\<in>set o_db. \<not> is_problem l)"
    using report_db_subnet_groups_False npl_pair_D [OF npl_report_db_subnet_groups]
    by blast
  have m: "main client P a =
        ([Print separator, Print ''Input parameters:'',
          Print (''verbose: '' @ str_bool (arg_verbose a)),
          Print (''source_ec2_ip_address: '' @ arg_source_ec2_ip a),
          Print (''dest_ip_address: '' @ arg_dest_ip a),
          Print (''source_rds_name: '' @ arg_source_rds a),
          Print (''source_dms_name: '' @ arg_source_dms a)] @
         out @
         [Print separator, Print ''Summary: '',
          Print (if flag
                 then ''ERROR. Some network connectivity problem exists. Review output of this tool.''
                 else ''OK. No obvious network connectivity problem exists from the perspective of the source.''),
          Print separator],
         Inr ())"
    by (simp add: main_def run io_then_def print_def)
  have flag: "flag = (p_sg \<or> p_rt \<or> p_nacl)"
    using c(7) quiet by simp
  show "\<exists>st src o0 o_sg p_sg o1 rt o_rt p_rt o2 nacl o_nacl p_nacl.
      main_sources client P a = (o0, Inr st) \<and> v_source st = Some src \<and>
      \<not> v_network_problem_exists st \<and>
      report_security_groups client P (v_source_security_group_ids st)
        (v_source_ip_address src) (arg_dest_ip a) (arg_verbose a) = (o_sg, Inr p_sg) \<and>
      get_route_table_for_subnet client (v_source_vpc_id src) (v_source_subnet_id src)
        (arg_verbose a) = (o1, Inr rt) \<and>
      report_route_table client P rt (v_source_vpc_id src) (v_source_ip_address src)
        (arg_dest_ip a) (arg_verbose a) = (o_rt, Inr p_rt) \<and>
      get_nacls_for_subnets client [v_source_subnet_id src] (arg_verbose a) =
        (o2, Inr [nacl]) \<and>
      report_nacl P nacl (v_source_ip_address src) (arg_dest_ip a) (arg_verbose a) =
        (o_nacl, Inr p_nacl) \<and>
      flag = (p_sg \<or> p_rt \<or> p_nacl) \<and>
      (p_sg \<longleftrightarrow> (\<exists>l\<in>set o_sg. is_problem l)) \<and>
      (p_rt \<longleftrightarrow> (\<exists>l\<in>set o_rt. is_problem l)) \<and>
      (p_nacl \<longleftrightarrow> (\<exists>l\<in>set o_nacl. is_problem l)) \<and>
      (\<forall>vpc_id ids verbose o_db p_db.
         report_db_subnet_groups client vpc_id ids verbose = (o_db, Inr p_db) \<longrightarrow>
         \<not> p_db \<and> (\<forall>l\<in>set o_db. \<not> is_problem l)) \<and>
      out =
        o0 @
        [Print (''Source IP Address: '' @ v_source_ip_address src),
         Print (''Name: '' @ v_source_name src),
         Print (''DNS Name:'' @ v_source_dns_name src),
         Print (''SubnetId: '' @ v_source_subnet_id src),
         Print (''VpcId: '' @ v_source_vpc_id src),
         Print ''Security Groups: '',
         PPrint (PyGroupIds (v_source_security_groups src))] @
        o_sg @ o1 @ o_rt @ o2 @
        (if arg_verbose a then [PPrint (PyNacl nacl)] else []) @ o_nacl \<and>
      main client P a =
        ([Print separator, Print ''Input parameters:'',
          Print (''verbose: '' @ str_bool (arg_verbose a)),
          Print (''source_ec2_ip_address: '' @ arg_source_ec2_ip a),
          Print (''dest_ip_address: '' @ arg_dest_ip a),
          Print (''source_rds_name: '' @ arg_source_rds a),
          Print (''source_dms_name: '' @ arg_source_dms a)] @
         out @
         [Print separator, Print ''Summary: '',
          Print (if flag
                 then ''ERROR. Some network connectivity problem exists. Review output of this tool.''
                 else ''OK. No obvious network connectivity problem exists from the perspective of the source.''),
          Print separator],
         Inr ())"
    using src c(1-6) quiet flag report_security_groups_faithful [OF c(2)]
      report_route_table_faithful [OF c(4)] report_nacl_faithful [OF c(6)] db
      out [unfolded c(8)] m
    by blast
next
  fix st src o0 o_sg p_sg o1 rt o_rt p_rt o2 nacl o_nacl p_nacl
  assume h: "main_sources client P a = (o0, Inr st) \<and> v_source st = Some src \<and>
      report_security_groups client P (v_source_security_group_ids st)
        (v_source_ip_address src) (arg_dest_ip a) (arg_verbose a) = (o_sg, Inr p_sg) \<and>
      get_route_table_for_subnet client (v_source_vpc_id src) (v_source_subnet_id src)
        (arg_verbose a) = (o1, Inr rt) \<and>
      report_route_table client P rt (v_source_vpc_id src) (v_source_ip_address src)
        (arg_dest_ip a) (arg_verbose a) = (o_rt, Inr p_rt) \<and>
      get_nacls_for_subnets client [v_source_subnet_id src] (arg_verbose a) =
        (o2, Inr [nacl]) \<and>
      report_nacl P nacl (v_source_ip_address src) (arg_dest_ip a) (arg_verbose a) =
        (o_nacl, Inr p_nacl)"
  then have quiet: "\<not> v_network_problem_exists st"
    using main_sources_flag by blast
  from h have "main_checks client P a st =
        ([Print (''Source IP Address: '' @ v_source_ip_address src),
          Print (''Name: '' @ v_source_name src),
          Print (''DNS Name:'' @ v_source_dns_name src),
          Print (''SubnetId: '' @ v_source_subnet_id src),
          Print (''VpcId: '' @ v_source_vpc_id src),
          Print ''Security Groups: '',
          PPrint (PyGroupIds (v_source_security_groups src))] @
         o_sg @ o1 @ o_rt @ o2 @
         (if arg_verbose a then [PPrint (PyNacl nacl)] else []) @ o_nacl,
         Inr (p_sg \<or> p_rt \<or> p_nacl))"
    using quiet
    by (simp add: main_checks_def io_then_def io_when_def print_def pprint_def io_return_def)
  with h show "main_analysis client P a =
        (o0 @
         [Print (''Source IP Address: '' @ v_source_ip_address src),
          Print (''Name: '' @ v_source_name src),
          Print (''DNS Name:'' @ v_source_dns_name src),
          Print (''SubnetId: '' @ v_source_subnet_id src),
          Print (''VpcId: '' @ v_source_vpc_id src),
          Print ''Security Groups: '',
          PPrint (PyGroupIds (v_source_security_groups src))] @
         o_sg @ o1 @ o_rt @ o2 @
         (if arg_verbose a then [PPrint (PyNacl nacl)] else []) @ o_nacl,
         Inr (p_sg \<or> p_rt \<or> p_nacl))"
    by (simp add: main_analysis_def)
qed

subsection \<open>A run on the sample account\<close>

lemma sample_sources:
  "main_sources sample_aws ipv4_reader sample_args =
     ([Print separator, Print ''Source info:'',
       PPrint (PyInstance (sample_instance\<lparr>Name := Some ''web''\<rparr>)),
       Print ''InstanceId: i-1''],
      Inr \<lparr>v_network_problem_exists = False, v_source_security_group_ids = [''sg-1''],
           v_source = Some
             \<lparr>v_source_ip_address = ''10.0.1.5'', v_source_name = ''web'',
              v_source_dns_name = ''ip-10-0-1-5.ec2.internal'',
              v_source_subnet_id = ''subnet-1'', v_source_vpc_id = ''vpc-1'',
              v_source_security_groups = [''sg-1'']\<rparr>\<rparr>)"
  by (simp add: main_sources_def main_ec2_def main_rds_def main_dms_def sample_args_def
        sample_aws_def get_ec2_instance_by_private_ip_def sample_instance_def io_defs)

lemma sample_permission_matches_far:
  "permission_matches ipv4_reader (IPv4Address 0xC0A80101) (sample_permissions ! 0)"
  "permission_matches ipv4_reader (IPv4Address 0xC0A80101) (sample_permissions ! 3)"
  by (simp_all add: sample_permissions_def permission_matches_def range_matches_def
        ALL_IPV4_def)

lemma sample_security_groups_report:
  "snd (report_security_groups sample_aws ipv4_reader [''sg-1''] ''10.0.1.5'' ''192.168.1.1''
          False) = Inr False"
proof -
  have groups: "describe_security_groups sample_aws [''sg-1''] = Inr [sample_group]"
    by (simp add: sample_aws_def)
  have len: "length [sample_group] = length [''sg-1'']"
    by simp
  have readable: "\<forall>g\<in>set [sample_group].
      \<forall>p\<in>set (IpPermissions g @ IpPermissionsEgress g). ranges_readable ipv4_reader p"
    using sample_ranges_readable by (simp add: sample_group_def sample_permissions_def)
  have "sample_permissions ! 0 \<in> set (IpPermissions sample_group)"
    "sample_permissions ! 3 \<in> set (IpPermissionsEgress sample_group)"
    by (simp_all add: sample_group_def sample_permissions_def)
  with sample_permission_matches_far
  have "filter (permission_matches ipv4_reader (IPv4Address 0xC0A80101))
          (IpPermissions sample_group) \<noteq> []"
    "filter (permission_matches ipv4_reader (IPv4Address 0xC0A80101))
          (IpPermissionsEgress sample_group) \<noteq> []"
    by (auto simp add: filter_empty_conv)
  then show ?thesis
    unfolding report_security_groups_value
      [OF get_security_groups_value [OF reader_addresses(2) groups len readable]]
    by simp
qed

lemma sample_route_table_report:
  "snd (report_route_table sample_aws ipv4_reader sample_route_table ''vpc-1'' ''10.0.1.5''
          ''192.168.1.1'' False) = Inr False"
proof -
  have "find_route_matches ipv4_reader (Routes sample_route_table) ''192.168.1.1'' False =
      ([], Inr (Some (sample_routes ! 4)))"
    by (simp add: sample_route_table_def sample_route_resolution)
  moreover have "snd (report_route sample_aws (Some (sample_routes ! 4)) ''vpc-1''
      ''192.168.1.1'' False) = Inr False"
    by (simp add: report_route_def report_gateway_def report_internet_gateway_def
          sample_routes_def sample_aws_def io_defs)
  ultimately show ?thesis
    by (simp add: report_route_table_value)
qed

lemma sample_nacl_report:
  "snd (report_nacl ipv4_reader sample_nacl ''10.0.1.5'' ''192.168.1.1'' False) = Inr True"
proof -
  have h2: "\<forall>e\<in>set (Entries sample_nacl).
      \<exists>s c. CidrBlock e = Some s \<and> ip_network ipv4_reader s = Inr c"
    by (simp add: sample_nacl_def reader_networks)
  have "\<forall>e\<in>set (Entries sample_nacl).
      \<not> entry_contains ipv4_reader (IPv4Address 0xC0A80101) e"
    by (simp add: sample_nacl_def entry_contains_def reader_networks netmask_values)
  then have "filter (\<lambda>e. entry_contains ipv4_reader (IPv4Address 0xC0A80101) e \<and> \<not> Egress e)
       (Entries sample_nacl) = []"
    by (simp add: filter_empty_conv)
  then show ?thesis
    unfolding report_nacl_value [OF find_nacl_rule_matches_value [OF reader_addresses(2) h2]]
    by simp
qed

lemma sample_run: "snd (main_analysis sample_aws ipv4_reader sample_args) = Inr True"
proof -
  have rt: "get_route_table_for_subnet sample_aws ''vpc-1'' ''subnet-1'' False =
      ([], Inr sample_route_table)"
    by (simp add: get_route_table_for_subnet_def sample_aws_def io_defs)
  have nacls: "get_nacls_for_subnets sample_aws [''subnet-1''] False = ([], Inr [sample_nacl])"
    by (simp add: get_nacls_for_subnets_def sample_aws_def io_defs)
  have args: "arg_dest_ip sample_args = ''192.168.1.1''" "arg_verbose sample_args = False"
    by (simp_all add: sample_args_def)
  show ?thesis
    unfolding main_analysis_def sample_sources
    by (simp add: main_checks_def args rt nacls snd_io_bind snd_io_then
          sample_security_groups_report sample_route_table_report sample_nacl_report)
qed

lemma closed_sources:
  "main_sources closed_aws ipv4_reader sample_args =
     ([Print separator, Print ''Source info:'',
       PPrint (PyInstance (sample_instance\<lparr>Name := Some ''web''\<rparr>)),
       Print ''InstanceId: i-1''],
      Inr \<lparr>v_network_problem_exists = False, v_source_security_group_ids = [''sg-1''],
           v_source = Some
             \<lparr>v_source_ip_address = ''10.0.1.5'', v_source_name = ''web'',
              v_source_dns_name = ''ip-10-0-1-5.ec2.internal'',
              v_source_subnet_id = ''subnet-1'', v_source_vpc_id = ''vpc-1'',
              v_source_security_groups = [''sg-1'']\<rparr>\<rparr>)"
  by (simp add: main_sources_def main_ec2_def main_rds_def main_dms_def sample_args_def
        closed_aws_def sample_aws_def get_ec2_instance_by_private_ip_def sample_instance_def
        io_defs)

lemma closed_security_groups_report:
  "snd (report_security_groups closed_aws ipv4_reader [''sg-1''] ''10.0.1.5'' ''192.168.1.1''
          False) = Inr True"
proof -
  have groups: "describe_security_groups closed_aws [''sg-1''] = Inr [closed_group]"
    by (simp add: closed_aws_def)
  have len: "length [closed_group] = length [''sg-1'']"
    by simp
  have readable: "\<forall>g\<in>set [closed_group].
      \<forall>p\<in>set (IpPermissions g @ IpPermissionsEgress g). ranges_readable ipv4_reader p"
    by (simp add: closed_group_def sample_permissions_def ranges_readable_def reader_networks)
  show ?thesis
    unfolding report_security_groups_value
      [OF get_security_groups_value [OF reader_addresses(2) groups len readable]]
    by (simp add: closed_group_def)
qed

lemma closed_route_table_report:
  "snd (report_route_table closed_aws ipv4_reader sample_route_table ''vpc-1'' ''10.0.1.5''
          ''192.168.1.1'' False) = Inr False"
proof -
  have "find_route_matches ipv4_reader (Routes sample_route_table) ''192.168.1.1'' False =
      ([], Inr (Some (sample_routes ! 4)))"
    by (simp add: sample_route_table_def sample_route_resolution)
  moreover have "snd (report_route closed_aws (Some (sample_routes ! 4)) ''vpc-1''
      ''192.168.1.1'' False) = Inr False"
    by (simp add: report_route_def report_gateway_def report_internet_gateway_def
          sample_routes_def closed_aws_def sample_aws_def io_defs)
  ultimately show ?thesis
    by (simp add: report_route_table_value)
qed

lemma open_nacl_report:
  "snd (report_nacl ipv4_reader open_nacl ''10.0.1.5'' ''192.168.1.1'' False) = Inr False"
proof -
  have h2: "\<forall>e\<in>set (Entries open_nacl).
      \<exists>s c. CidrBlock e = Some s \<and> ip_network ipv4_reader s = Inr c"
    by (simp add: open_nacl_def reader_networks)
  have "filter (\<lambda>e. entry_contains ipv4_reader (IPv4Address 0xC0A80101) e \<and> \<not> Egress e)
       (Entries open_nacl) \<noteq> []"
    "filter (\<lambda>e. entry_contains ipv4_reader (IPv4Address 0xC0A80101) e \<and> Egress e)
       (Entries open_nacl) \<noteq> []"
    by (simp_all add: open_nacl_def entry_contains_def reader_networks netmask_values)
  then show ?thesis
    unfolding report_nacl_value [OF find_nacl_rule_matches_value [OF reader_addresses(2) h2]]
    by simp
qed

theorem problem_flag_is_disjunction_witness:
  "snd (report_security_groups closed_aws ipv4_reader [''sg-1''] ''10.0.1.5'' ''192.168.1.1''
          False) = Inr True \<and>
   snd (report_route_table closed_aws ipv4_reader sample_route_table ''vpc-1'' ''10.0.1.5''
          ''192.168.1.1'' False) = Inr False \<and>
   snd (report_nacl ipv4_reader open_nacl ''10.0.1.5'' ''192.168.1.1'' False) = Inr False \<and>
   main_analysis closed_aws ipv4_reader sample_args =
     (fst (main_sources closed_aws ipv4_reader sample_args) @
      [Print ''Source IP Address: 10.0.1.5'', Print ''Name: web'',
       Print ''DNS Name:ip-10-0-1-5.ec2.internal'', Print ''SubnetId: subnet-1'',
       Print ''VpcId: vpc-1'', Print ''Security Groups: '', PPrint (PyGroupIds [''sg-1''])] @
      fst (report_security_groups closed_aws ipv4_reader [''sg-1''] ''10.0.1.5''
             ''192.168.1.1'' False) @
      fst (report_route_table closed_aws ipv4_reader sample_route_table ''vpc-1'' ''10.0.1.5''
             ''192.168.1.1'' False) @
      fst (report_nacl ipv4_reader open_nacl ''10.0.1.5'' ''192.168.1.1'' False),
      Inr True) \<and>
   snd (main closed_aws ipv4_reader sample_args) = Inr () \<and>
   Print ''ERROR. Some network connectivity problem exists. Review output of this tool.''
     \<in> set (fst (main closed_aws ipv4_reader sample_args)) \<and>
   snd (main_analysis sample_aws ipv4_reader sample_args) = Inr True \<and>
   snd (report_security_groups sample_aws ipv4_reader [''sg-1''] ''10.0.1.5'' ''192.168.1.1''
          False) = Inr False \<and>
   snd (report_route_table sample_aws ipv4_reader sample_route_table ''vpc-1'' ''10.0.1.5''
          ''192.168.1.1'' False) = Inr False \<and>
   snd (report_nacl ipv4_reader sample_nacl ''10.0.1.5'' ''192.168.1.1'' False) = Inr True \<and>
   Print ''ERROR. Some network connectivity problem exists. Review output of this tool.''
     \<in> set (fst (main sample_aws ipv4_reader sample_args))"
proof -
  let ?src = "\<lparr>v_source_ip_address = ''10.0.1.5'', v_source_name = ''web'',
      v_source_dns_name = ''ip-10-0-1-5.ec2.internal'',
      v_source_subnet_id = ''subnet-1'', v_source_vpc_id = ''vpc-1'',
      v_source_security_groups = [''sg-1'']\<rparr>"
  let ?st = "\<lparr>v_network_problem_exists = False, v_source_security_group_ids = [''sg-1''],
      v_source = Some ?src\<rparr>"
  let ?sg = "report_security_groups closed_aws ipv4_reader [''sg-1''] ''10.0.1.5''
      ''192.168.1.1'' False"
  let ?rt = "report_route_table closed_aws ipv4_reader sample_route_table ''vpc-1''
      ''10.0.1.5'' ''192.168.1.1'' False"
  let ?na = "report_nacl ipv4_reader open_nacl ''10.0.1.5'' ''192.168.1.1'' False"
  have args: "arg_dest_ip sample_args = ''192.168.1.1''" "arg_verbose sample_args = False"
    by (simp_all add: sample_args_def)
  have src: "main_sources closed_aws ipv4_reader sample_args =
      (fst (main_sources closed_aws ipv4_reader sample_args), Inr ?st)"
    by (simp add: closed_sources)
  have sg: "?sg = (fst ?sg, Inr True)"
    using closed_security_groups_report by (simp add: prod_eq_iff)
  have rt: "get_route_table_for_subnet closed_aws ''vpc-1'' ''subnet-1'' False =
      ([], Inr sample_route_table)"
    by (simp add: get_route_table_for_subnet_def closed_aws_def sample_aws_def io_defs)
  have rrt: "?rt = (fst ?rt, Inr False)"
    using closed_route_table_report by (simp add: prod_eq_iff)
  have nacls: "get_nacls_for_subnets closed_aws [''subnet-1''] False = ([], Inr [open_nacl])"
    by (simp add: get_nacls_for_subnets_def closed_aws_def io_defs)
  have na: "?na = (fst ?na, Inr False)"
    using open_nacl_report by (simp add: prod_eq_iff)
  have hyp: "main_sources closed_aws ipv4_reader sample_args =
        (fst (main_sources closed_aws ipv4_reader sample_args), Inr ?st) \<and>
      v_source ?st = Some ?src \<and>
      report_security_groups closed_aws ipv4_reader (v_source_security_group_ids ?st)
        (v_source_ip_address ?src) (arg_dest_ip sample_args) (arg_verbose sample_args) =
        (fst ?sg, Inr True) \<and>
      get_route_table_for_subnet closed_aws (v_source_vpc_id ?src) (v_source_subnet_id ?src)
        (arg_verbose sample_args) = ([], Inr sample_route_table) \<and>
      report_route_table closed_aws ipv4_reader sample_route_table (v_source_vpc_id ?src)
        (v_source_ip_address ?src) (arg_dest_ip sample_args) (arg_verbose sample_args) =
        (fst ?rt, Inr False) \<and>
      get_nacls_for_subnets closed_aws [v_source_subnet_id ?src] (arg_verbose sample_args) =
        ([], Inr [open_nacl]) \<and>
      report_nacl ipv4_reader open_nacl (v_source_ip_address ?src) (arg_dest_ip sample_args)
        (arg_verbose sample_args) = (fst ?na, Inr False)"
    using src sg rt rrt nacls na by (simp add: args)
  note inst = problem_flag_is_disjunction [of closed_aws ipv4_reader sample_args]
  from inst [THEN conjunct2, rule_format, OF hyp]
  have run: "main_analysis closed_aws ipv4_reader sample_args =
     (fst (main_sources closed_aws ipv4_reader sample_args) @
      [Print ''Source IP Address: 10.0.1.5'', Print ''Name: web'',
       Print ''DNS Name:ip-10-0-1-5.ec2.internal'', Print ''SubnetId: subnet-1'',
       Print ''VpcId: vpc-1'', Print ''Security Groups: '', PPrint (PyGroupIds [''sg-1''])] @
      fst ?sg @ fst ?rt @ fst ?na,
      Inr True)"
    by (simp add: args)
  from inst [THEN conjunct1, rule_format, OF run]
  have "snd (main closed_aws ipv4_reader sample_args) = Inr () \<and>
      Print ''ERROR. Some network connectivity problem exists. Review output of this tool.''
        \<in> set (fst (main closed_aws ipv4_reader sample_args))"
    by auto
  moreover
  have run': "main_analysis sample_aws ipv4_reader sample_args =
      (fst (main_analysis sample_aws ipv4_reader sample_args), Inr True)"
    using sample_run by (simp add: prod_eq_iff)
  from problem_flag_is_disjunction [of sample_aws ipv4_reader sample_args, THEN conjunct1,
      rule_format, OF run']
  have "Print ''ERROR. Some network connectivity problem exists. Review output of this tool.''
        \<in> set (fst (main sample_aws ipv4_reader sample_args))"
    by auto
  ultimately show ?thesis
    using run closed_security_groups_report closed_route_table_report open_nacl_report
      sample_run sample_security_groups_report sample_route_table_report sample_nacl_report
    by simp
qed

end
